theory Spec2Isabelle
  imports Main "HOL-Library.AList" "HOL-Library.Multiset"
begin

section \<open>JavaScript strings and values\<close>

text \<open>
  Strings are character lists. The helpers below are the \<open>String.prototype\<close> methods the
  sources call, each with the behaviour the call sites rely on.
\<close>

definition startsWith :: "string \<Rightarrow> string \<Rightarrow> bool" where
  "startsWith s p = (take (length p) s = p)"

definition endsWith :: "string \<Rightarrow> string \<Rightarrow> bool" where
  "endsWith s p = (length p \<le> length s \<and> drop (length s - length p) s = p)"

fun includes_str :: "string \<Rightarrow> string \<Rightarrow> bool" where
  "includes_str [] p = (p = [])"
| "includes_str (c # s) p = (startsWith (c # s) p \<or> includes_str s p)"

text \<open>\<open>s.split(sep)\<close> for a one-character separator: always at least one part.\<close>

fun split_acc :: "char \<Rightarrow> string \<Rightarrow> string \<Rightarrow> string list" where
  "split_acc sep cur [] = [rev cur]"
| "split_acc sep cur (c # s) =
     (if c = sep then rev cur # split_acc sep [] s else split_acc sep (c # cur) s)"

definition split :: "string \<Rightarrow> char \<Rightarrow> string list" where
  "split s sep = split_acc sep [] s"

fun join :: "string list \<Rightarrow> string \<Rightarrow> string" where
  "join [] sep = []"
| "join [x] sep = x"
| "join (x # y # xs) sep = x @ sep @ join (y # xs) sep"

text \<open>\<open>toLowerCase\<close> and \<open>toUpperCase\<close> on the ASCII letters.\<close>

definition toLowerChar :: "char \<Rightarrow> char" where
  "toLowerChar c =
     (case map_of (zip ''ABCDEFGHIJKLMNOPQRSTUVWXYZ'' ''abcdefghijklmnopqrstuvwxyz'') c of
        Some l \<Rightarrow> l | None \<Rightarrow> c)"

definition toUpperChar :: "char \<Rightarrow> char" where
  "toUpperChar c =
     (case map_of (zip ''abcdefghijklmnopqrstuvwxyz'' ''ABCDEFGHIJKLMNOPQRSTUVWXYZ'') c of
        Some u \<Rightarrow> u | None \<Rightarrow> c)"

definition toLowerCase :: "string \<Rightarrow> string" where
  "toLowerCase s = map toLowerChar s"

definition toUpperCase :: "string \<Rightarrow> string" where
  "toUpperCase s = map toUpperChar s"

text \<open>\<open>s.slice(0, e)\<close>: a negative end counts from the end of the string.\<close>

definition slice0 :: "string \<Rightarrow> int \<Rightarrow> string" where
  "slice0 s e =
     (let n = int (length s);
          k = (if e < 0 then max (n + e) 0 else min e n)
      in take (nat k) s)"

text \<open>\<open>s.slice(b, e)\<close> for a start \<open>b \<ge> 0\<close>.\<close>

definition slice :: "string \<Rightarrow> nat \<Rightarrow> int \<Rightarrow> string" where
  "slice s b e = drop b (slice0 s e)"

text \<open>\<open>s.lastIndexOf(c)\<close> for a character: \<open>-1\<close> when it does not occur.\<close>

fun lastIndexOf_from :: "int \<Rightarrow> char \<Rightarrow> string \<Rightarrow> int \<Rightarrow> int" where
  "lastIndexOf_from i c [] found = found"
| "lastIndexOf_from i c (x # xs) found =
     lastIndexOf_from (i + 1) c xs (if x = c then i else found)"

definition lastIndexOf :: "string \<Rightarrow> char \<Rightarrow> int" where
  "lastIndexOf s c = lastIndexOf_from 0 c s (- 1)"

text \<open>Decimal rendering of a number inside a template literal.\<close>

definition digitChar :: "nat \<Rightarrow> char" where
  "digitChar n = ''0123456789'' ! n"

fun show_nat :: "nat \<Rightarrow> string" where
  "show_nat n = (if n < 10 then [digitChar n] else show_nat (n div 10) @ [digitChar (n mod 10)])"

declare show_nat.simps [simp del]

definition show_int :: "int \<Rightarrow> string" where
  "show_int i = (if i < 0 then CHR ''-'' # show_nat (nat (- i)) else show_nat (nat i))"

text \<open>
  Metadata is a JSON document. An object keeps its keys in insertion order; assigning a key
  that is present replaces the value in place, assigning a new key appends it, which is
  \<^const>\<open>AList.update\<close>.
\<close>

datatype json =
    JNull
  | JBool bool
  | JNum int
  | JStr string
  | JArr "json list"
  | JObj "(string \<times> json) list"

type_synonym metadata = "(string \<times> json) list"

text \<open>JavaScript truthiness of a property that may be absent.\<close>

fun truthy :: "json option \<Rightarrow> bool" where
  "truthy None = False"
| "truthy (Some JNull) = False"
| "truthy (Some (JBool b)) = b"
| "truthy (Some (JNum n)) = (n \<noteq> 0)"
| "truthy (Some (JStr s)) = (s \<noteq> [])"
| "truthy (Some (JArr xs)) = True"
| "truthy (Some (JObj kv)) = True"

section \<open>Data model\<close>

text \<open>
  The \<open>NodeType\<close> union of \<open>types.ts\<close>; \<open>createNode\<close> accepts only these.
\<close>

datatype NodeType =
    TFile | TClass | TInterface | TFunction | TMethod | TVariable | TImport | TExport
  | TModule | TController | TService | TRepository | TComponent | TBean | TEndpoint

fun nodeTypeStr :: "NodeType \<Rightarrow> string" where
  "nodeTypeStr TFile = ''file''"
| "nodeTypeStr TClass = ''class''"
| "nodeTypeStr TInterface = ''interface''"
| "nodeTypeStr TFunction = ''function''"
| "nodeTypeStr TMethod = ''method''"
| "nodeTypeStr TVariable = ''variable''"
| "nodeTypeStr TImport = ''import''"
| "nodeTypeStr TExport = ''export''"
| "nodeTypeStr TModule = ''module''"
| "nodeTypeStr TController = ''controller''"
| "nodeTypeStr TService = ''service''"
| "nodeTypeStr TRepository = ''repository''"
| "nodeTypeStr TComponent = ''component''"
| "nodeTypeStr TBean = ''bean''"
| "nodeTypeStr TEndpoint = ''endpoint''"

text \<open>
  A row of the \<open>nodes\<close> table and a row of the \<open>edges\<close> table. The columns are \<open>TEXT\<close>, so
  the store holds the type as a string.
\<close>

record GraphNode =
  n_id :: string
  n_type :: string
  n_name :: string
  n_filePath :: string
  n_lineStart :: int
  n_lineEnd :: int
  n_language :: string
  n_metadata :: metadata

record GraphEdge =
  e_id :: string
  e_sourceId :: string
  e_targetId :: string
  e_type :: string
  e_metadata :: metadata

section \<open>Identities (parsers/base.ts)\<close>

text \<open>
  \<open>crypto.createHash('md5').update(s).digest('hex')\<close> belongs to the runtime; it is the
  parameter \<open>md5\<close> of the functions below.
\<close>

definition generateNodeId :: "(string \<Rightarrow> string) \<Rightarrow> string \<Rightarrow> string \<Rightarrow> string \<Rightarrow> int \<Rightarrow> string" where
  "generateNodeId md5 filePath type name line =
     (let hash = take 12 (md5 (filePath @ '':'' @ type @ '':'' @ name @ '':'' @ show_int line))
      in type @ ''_'' @ hash)"

definition generateEdgeId :: "(string \<Rightarrow> string) \<Rightarrow> string \<Rightarrow> string \<Rightarrow> string \<Rightarrow> string" where
  "generateEdgeId md5 sourceId targetId type =
     (let hash = take 12 (md5 (sourceId @ '':'' @ targetId @ '':'' @ type))
      in ''edge_'' @ hash)"

definition createNode ::
  "(string \<Rightarrow> string) \<Rightarrow> string \<Rightarrow> string \<Rightarrow> NodeType \<Rightarrow> string \<Rightarrow> int \<Rightarrow> int \<Rightarrow> metadata \<Rightarrow> GraphNode" where
  "createNode md5 language filePath type name lineStart lineEnd metadata =
     \<lparr> n_id = generateNodeId md5 filePath (nodeTypeStr type) name lineStart,
       n_type = nodeTypeStr type,
       n_name = name,
       n_filePath = filePath,
       n_lineStart = lineStart,
       n_lineEnd = lineEnd,
       n_language = language,
       n_metadata = metadata \<rparr>"

definition createEdge ::
  "(string \<Rightarrow> string) \<Rightarrow> string \<Rightarrow> string \<Rightarrow> string \<Rightarrow> metadata \<Rightarrow> GraphEdge" where
  "createEdge md5 sourceId targetId type metadata =
     \<lparr> e_id = generateEdgeId md5 sourceId targetId type,
       e_sourceId = sourceId,
       e_targetId = targetId,
       e_type = type,
       e_metadata = metadata \<rparr>"

definition hexdigits :: "char set" where
  "hexdigits = set ''0123456789abcdef''"

section \<open>Store (db/schema.ts)\<close>

text \<open>
  The two tables the operations below read and write, each a list of rows in rowid order.
  A \<open>SELECT\<close> without \<open>ORDER BY\<close> is a filter of that list; an \<open>UPDATE\<close> rewrites rows in
  place; a \<open>DELETE\<close> drops rows.
\<close>

record GraphDatabase =
  db_nodes :: "GraphNode list"
  db_edges :: "GraphEdge list"

text \<open>
  SQLite's \<open>LIKE\<close>: \<open>%\<close> matches any run of characters, \<open>_\<close> any one character, and any
  other character matches itself without regard to the case of ASCII letters (the source
  sets no \<open>case_sensitive_like\<close> pragma).
\<close>

fun sql_like :: "string \<Rightarrow> string \<Rightarrow> bool" where
  "sql_like [] s = (s = [])"
| "sql_like (p # ps) s =
     (if p = CHR ''%'' then
        (sql_like ps s \<or> (case s of [] \<Rightarrow> False | c # t \<Rightarrow> sql_like (p # ps) t))
      else if p = CHR ''_'' then
        (case s of [] \<Rightarrow> False | c # t \<Rightarrow> sql_like ps t)
      else
        (case s of [] \<Rightarrow> False | c # t \<Rightarrow> toLowerChar c = toLowerChar p \<and> sql_like ps t))"

text \<open>\<open>target_id LIKE 'ref:%'\<close>\<close>

definition sql_like_ref :: "string \<Rightarrow> bool" where
  "sql_like_ref s = sql_like ''ref:%'' s"

text \<open>
  \<open>json_extract(metadata, '$.unresolved') = true\<close>: \<open>true\<close> is the integer 1, which is what
  \<open>json_extract\<close> yields for the JSON value \<open>true\<close> and for the number 1.
\<close>

definition json_unresolved_true :: "metadata \<Rightarrow> bool" where
  "json_unresolved_true m =
     (case map_of m ''unresolved'' of
        Some (JBool b) \<Rightarrow> b
      | Some (JNum n) \<Rightarrow> n = 1
      | _ \<Rightarrow> False)"

definition getNode :: "GraphDatabase \<Rightarrow> string \<Rightarrow> GraphNode option" where
  "getNode db i = find (\<lambda>n. n_id n = i) (db_nodes db)"

definition getNodesByType :: "GraphDatabase \<Rightarrow> string \<Rightarrow> GraphNode list" where
  "getNodesByType db t = filter (\<lambda>n. n_type n = t) (db_nodes db)"

definition getAllNodes :: "GraphDatabase \<Rightarrow> GraphNode list" where
  "getAllNodes db = db_nodes db"

text \<open>
  \<open>deleteNodesByFile\<close>. The \<open>DELETE\<close> on the edges has one \<open>?\<close> for each id in each of its two
  \<open>IN\<close> lists and binds every id twice. SQLite refuses a statement with more than
  \<open>SQLITE_MAX_VARIABLE_NUMBER\<close> parameters (32766 as the library is built) with the error
  \<open>too many SQL variables\<close>: the call throws before anything is deleted, and the store stays
  as it was.
\<close>

datatype SqliteError = TooManySqlVariables

definition SQLITE_MAX_VARIABLE_NUMBER :: nat where
  "SQLITE_MAX_VARIABLE_NUMBER = 32766"

definition deleteNodesByFile :: "GraphDatabase \<Rightarrow> string \<Rightarrow> SqliteError + GraphDatabase" where
  "deleteNodesByFile db filePath =
     (let nodeIds = map n_id (filter (\<lambda>n. n_filePath n = filePath) (db_nodes db));
          ids = nodeIds @ nodeIds
      in if length nodeIds > 0 \<and> length ids > SQLITE_MAX_VARIABLE_NUMBER
         then Inl TooManySqlVariables
         else
           (let db1 = (if length nodeIds > 0
                       then db\<lparr>db_edges :=
                              filter (\<lambda>e. \<not> (e_sourceId e \<in> set nodeIds \<or> e_targetId e \<in> set nodeIds))
                                     (db_edges db)\<rparr>
                       else db)
            in Inr (db1\<lparr>db_nodes := filter (\<lambda>n. n_filePath n \<noteq> filePath) (db_nodes db1)\<rparr>)))"

text \<open>The store after a call of \<open>deleteNodesByFile\<close>, whether it returned or threw.\<close>

definition store_after_delete :: "GraphDatabase \<Rightarrow> string \<Rightarrow> GraphDatabase" where
  "store_after_delete db filePath =
     (case deleteNodesByFile db filePath of Inl err \<Rightarrow> db | Inr db1 \<Rightarrow> db1)"

definition getUnresolvedEdges :: "GraphDatabase \<Rightarrow> GraphEdge list" where
  "getUnresolvedEdges db =
     filter (\<lambda>e. sql_like_ref (e_targetId e) \<or> json_unresolved_true (e_metadata e)) (db_edges db)"

definition updateEdgeTarget :: "GraphDatabase \<Rightarrow> string \<Rightarrow> string \<Rightarrow> bool \<Rightarrow> GraphDatabase" where
  "updateEdgeTarget db edgeId newTargetId unresolved =
     (case find (\<lambda>e. e_id e = edgeId) (db_edges db) of
        None \<Rightarrow> db
      | Some edge \<Rightarrow>
          (let m1 = AList.update ''unresolved'' (JBool unresolved) (e_metadata edge);
               m2 = (if \<not> unresolved
                     then AList.update ''resolvedFrom'' (JStr (e_targetId edge)) m1
                     else m1)
           in db\<lparr>db_edges :=
                  map (\<lambda>e. if e_id e = edgeId
                            then e\<lparr>e_targetId := newTargetId, e_metadata := m2\<rparr>
                            else e)
                      (db_edges db)\<rparr>))"

definition updateEdgeMetadata :: "GraphDatabase \<Rightarrow> string \<Rightarrow> metadata \<Rightarrow> GraphDatabase" where
  "updateEdgeMetadata db edgeId m =
     db\<lparr>db_edges := map (\<lambda>e. if e_id e = edgeId then e\<lparr>e_metadata := m\<rparr> else e) (db_edges db)\<rparr>"

record ResolutionStats =
  rs_total :: int
  rs_resolved :: int
  rs_unresolved :: int

definition getResolutionStats :: "GraphDatabase \<Rightarrow> ResolutionStats" where
  "getResolutionStats db =
     (let total = int (length (db_edges db));
          unresolved = int (length (filter (\<lambda>e. sql_like_ref (e_targetId e)) (db_edges db)))
      in \<lparr> rs_total = total, rs_resolved = total - unresolved, rs_unresolved = unresolved \<rparr>)"

section \<open>Resolver (resolver/index.ts)\<close>

record SymbolEntry =
  se_nodeId :: string
  se_name :: string
  se_fullName :: string
  se_type :: string
  se_filePath :: string
  se_language :: string
  se_exportedAs :: "string list option"

text \<open>
  An element of \<open>namedImports\<close>. The TypeScript extractor stores plain strings there, on
  which \<open>.name\<close> and \<open>.alias\<close> are both \<open>undefined\<close>; the Python extractor stores objects.
\<close>

record NamedImport =
  ni_name :: "string option"
  ni_alias :: "string option"

record ImportInfo =
  ii_filePath :: string
  ii_moduleSpecifier :: string
  ii_namedImports :: "NamedImport list"
  ii_defaultImport :: "string option"
  ii_isRelative :: bool

record ReferenceResolver =
  symbolIndex :: "string \<rightharpoonup> SymbolEntry list"
  fileImports :: "string \<rightharpoonup> ImportInfo list"
  fileExports :: "string \<rightharpoonup> string list"

definition new_ReferenceResolver :: ReferenceResolver where
  "new_ReferenceResolver =
     \<lparr> symbolIndex = Map.empty, fileImports = Map.empty, fileExports = Map.empty \<rparr>"

record ResolutionResult =
  rr_resolved :: int
  rr_unresolved :: int
  rr_ambiguous :: int

text \<open>The object \<open>resolveEdge\<close> returns, one constructor for each shape it is built in.\<close>

datatype Resolution = Resolved string | Ambiguous "string list" | NotResolved

definition getShortName :: "string \<Rightarrow> string" where
  "getShortName fullName = last (split fullName CHR ''.'')"

definition getDirectory :: "string \<Rightarrow> string" where
  "getDirectory filePath = join (butlast (split filePath CHR ''/'')) ''/''"

definition index_get :: "(string \<rightharpoonup> SymbolEntry list) \<Rightarrow> string \<Rightarrow> SymbolEntry list" where
  "index_get idx key = (case idx key of None \<Rightarrow> [] | Some es \<Rightarrow> es)"

definition addToIndex ::
  "string \<Rightarrow> SymbolEntry \<Rightarrow> (string \<rightharpoonup> SymbolEntry list) \<Rightarrow> (string \<rightharpoonup> SymbolEntry list)" where
  "addToIndex key entry idx =
     (let existing = index_get idx key in
      if \<not> (\<exists>e \<in> set existing. se_nodeId e = se_nodeId entry)
      then idx(key \<mapsto> existing @ [entry])
      else idx)"

definition index_node ::
  "(string \<rightharpoonup> SymbolEntry list) \<Rightarrow> GraphNode \<Rightarrow> (string \<rightharpoonup> SymbolEntry list)" where
  "index_node idx node =
     (if n_type node = ''file'' \<or> n_type node = ''import'' then idx
      else
        (let entry0 = \<lparr> se_nodeId = n_id node,
                          se_name = getShortName (n_name node),
                          se_fullName = n_name node,
                          se_type = n_type node,
                          se_filePath = n_filePath node,
                          se_language = n_language node,
                          se_exportedAs = None \<rparr>;
             entry = (if truthy (map_of (n_metadata node) ''isExported'')
                      then entry0\<lparr>se_exportedAs := Some [se_name entry0]\<rparr>
                      else entry0);
             i1 = addToIndex (se_name entry) entry idx;
             i2 = addToIndex (se_fullName entry) entry i1;
             i3 = (if n_type node = ''method'' \<and> includes_str (se_fullName entry) ''.''
                   then addToIndex (last (split (se_fullName entry) CHR ''.'')) entry i2
                   else i2);
             i4 = (if includes_str (n_name node) ''.''
                   then (let parts = split (n_name node) CHR ''.'' in
                         if length parts = 2
                         then addToIndex (parts ! 0 @ ''.'' @ parts ! 1) entry i3
                         else i3)
                   else i3)
         in i4))"

definition buildSymbolIndex :: "ReferenceResolver \<Rightarrow> GraphDatabase \<Rightarrow> ReferenceResolver" where
  "buildSymbolIndex r db = r\<lparr>symbolIndex := foldl index_node (symbolIndex r) (getAllNodes db)\<rparr>"

text \<open>
  Reading the import metadata. The extractors store an array under \<open>namedImports\<close> and a
  string under \<open>defaultImport\<close>; other shapes are read as absent.
\<close>

fun str_field :: "json option \<Rightarrow> string option" where
  "str_field (Some (JStr s)) = Some s"
| "str_field _ = None"

fun namedImport_of :: "json \<Rightarrow> NamedImport" where
  "namedImport_of (JObj kv) =
     \<lparr> ni_name = str_field (map_of kv ''name''), ni_alias = str_field (map_of kv ''alias'') \<rparr>"
| "namedImport_of _ = \<lparr> ni_name = None, ni_alias = None \<rparr>"

fun namedImports_of :: "json option \<Rightarrow> NamedImport list" where
  "namedImports_of (Some (JArr xs)) = map namedImport_of xs"
| "namedImports_of _ = []"

fun strings_of :: "json option \<Rightarrow> string list" where
  "strings_of (Some (JArr xs)) = concat (map (\<lambda>x. case x of JStr s \<Rightarrow> [s] | _ \<Rightarrow> []) xs)"
| "strings_of _ = []"

definition import_info :: "GraphNode \<Rightarrow> ImportInfo" where
  "import_info node =
     \<lparr> ii_filePath = n_filePath node,
       ii_moduleSpecifier = n_name node,
       ii_namedImports = namedImports_of (map_of (n_metadata node) ''namedImports''),
       ii_defaultImport = (case str_field (map_of (n_metadata node) ''defaultImport'') of
                             Some d \<Rightarrow> if d \<noteq> [] then Some d else None
                           | None \<Rightarrow> None),
       ii_isRelative = startsWith (n_name node) ''.'' \<rparr>"

definition add_import :: "(string \<rightharpoonup> ImportInfo list) \<Rightarrow> GraphNode \<Rightarrow> (string \<rightharpoonup> ImportInfo list)" where
  "add_import fi node =
     (let imports = (case fi (n_filePath node) of None \<Rightarrow> [] | Some l \<Rightarrow> l)
      in fi(n_filePath node \<mapsto> imports @ [import_info node]))"

definition add_export :: "(string \<rightharpoonup> string list) \<Rightarrow> GraphNode \<Rightarrow> (string \<rightharpoonup> string list)" where
  "add_export fe node =
     (let exports = (case fe (n_filePath node) of None \<Rightarrow> [] | Some l \<Rightarrow> l);
          exports' = foldl (\<lambda>acc e. if e \<in> set acc then acc else acc @ [e]) exports
                       (strings_of (map_of (n_metadata node) ''namedExports''))
      in fe(n_filePath node \<mapsto> exports'))"

definition buildImportExportMaps :: "ReferenceResolver \<Rightarrow> GraphDatabase \<Rightarrow> ReferenceResolver" where
  "buildImportExportMaps r db =
     r\<lparr>fileImports := foldl add_import (fileImports r) (getNodesByType db ''import''),
       fileExports := foldl add_export (fileExports r) (getNodesByType db ''export'')\<rparr>"

definition cleanTargetName :: "string \<Rightarrow> string" where
  "cleanTargetName name =
     (let c1 = (if startsWith name ''this.'' then drop 5 name else name);
          c2 = (if startsWith c1 ''self.'' then drop 5 c1 else c1);
          c3 = (if startsWith c2 ''super.'' then drop 6 c2 else c2)
      in c3)"

definition resolvePath :: "string \<Rightarrow> string \<Rightarrow> string" where
  "resolvePath baseDir relativePath =
     (let parts = filter (\<lambda>p. p \<noteq> []) (split baseDir CHR ''/'');
          relParts = filter (\<lambda>p. p \<noteq> []) (split relativePath CHR ''/'');
          parts' = foldl (\<lambda>ps part. if part = ''.'' then ps
                                    else if part = ''..'' then butlast ps
                                    else ps @ [part]) parts relParts
      in join parts' ''/'')"

text \<open>
  \<open>s.replace(/\.[^/.]+$/, '')\<close>: drop a final dot followed by one or more characters that
  are neither a dot nor a slash.
\<close>

definition stripExtension :: "string \<Rightarrow> string" where
  "stripExtension s =
     (let tail = takeWhile (\<lambda>c. c \<noteq> CHR ''.'' \<and> c \<noteq> CHR ''/'') (rev s);
          rest = drop (length tail) (rev s)
      in if tail \<noteq> [] \<and> rest \<noteq> [] \<and> hd rest = CHR ''.'' then rev (tl rest) else s)"

definition moduleMatches :: "string \<Rightarrow> string \<Rightarrow> string \<Rightarrow> bool" where
  "moduleMatches candidateFilePath moduleSpecifier sourceFilePath =
     (if \<not> startsWith moduleSpecifier ''.''
      then includes_str candidateFilePath moduleSpecifier
      else
        (let sourceDir = getDirectory sourceFilePath;
             resolvedPath = resolvePath sourceDir moduleSpecifier;
             candidateWithoutExt = stripExtension candidateFilePath;
             resolvedWithoutExt = stripExtension resolvedPath
         in candidateFilePath = resolvedPath \<or>
            candidateWithoutExt = resolvedWithoutExt \<or>
            startsWith candidateFilePath (resolvedPath @ ''/'') \<or>
            startsWith candidateWithoutExt (resolvedWithoutExt @ ''/'')))"

definition compatibilityMap :: "(string \<times> string list) list" where
  "compatibilityMap =
     [(''calls'', [''function'', ''method'', ''endpoint'']),
      (''uses'', [''variable'', ''class'', ''interface'', ''function'', ''method'']),
      (''extends'', [''class'', ''interface'']),
      (''implements'', [''interface'']),
      (''imports'', [''module'', ''file'', ''class'', ''function'', ''variable'']),
      (''autowires'', [''class'', ''interface'', ''service'', ''repository'', ''component'', ''controller'']),
      (''injects'', [''class'', ''interface'', ''service'', ''repository'', ''component'', ''controller''])]"

definition isCompatibleType :: "string \<Rightarrow> string \<Rightarrow> bool" where
  "isCompatibleType nodeType edgeType =
     (case map_of compatibilityMap edgeType of
        None \<Rightarrow> True
      | Some compatible \<Rightarrow> nodeType \<in> set compatible)"

text \<open>\<open>candidates.push(match)\<close> unless a candidate with that \<open>nodeId\<close> is there.\<close>

definition push_unique :: "SymbolEntry list \<Rightarrow> SymbolEntry \<Rightarrow> SymbolEntry list" where
  "push_unique candidates match =
     (if \<not> (\<exists>c \<in> set candidates. se_nodeId c = se_nodeId match)
      then candidates @ [match] else candidates)"

text \<open>The template string of an absent value is \<open>undefined\<close>.\<close>

definition js_string :: "string option \<Rightarrow> string" where
  "js_string v = (case v of None \<Rightarrow> ''undefined'' | Some s \<Rightarrow> s)"

definition import_candidates ::
  "ReferenceResolver \<Rightarrow> string \<Rightarrow> GraphNode \<Rightarrow> ImportInfo \<Rightarrow> SymbolEntry list \<Rightarrow> NamedImport \<Rightarrow> SymbolEntry list" where
  "import_candidates r cleanName sourceNode imp candidates namedImport =
     (let importedAs = (case ni_alias namedImport of
                          Some a \<Rightarrow> if a \<noteq> [] then Some a else ni_name namedImport
                        | None \<Rightarrow> ni_name namedImport)
      in if Some cleanName = importedAs \<or> startsWith cleanName (js_string importedAs @ ''.'')
         then
           (let importMatches = (case ni_name namedImport of
                                   None \<Rightarrow> []
                                 | Some actualName \<Rightarrow> index_get (symbolIndex r) actualName)
            in foldl (\<lambda>cs match.
                        if moduleMatches (se_filePath match) (ii_moduleSpecifier imp) (n_filePath sourceNode)
                        then push_unique cs match else cs)
                 candidates importMatches)
         else candidates)"

definition findCandidates ::
  "ReferenceResolver \<Rightarrow> string \<Rightarrow> GraphNode \<Rightarrow> string \<Rightarrow> SymbolEntry list" where
  "findCandidates r targetName sourceNode edgeType =
     (let cleanName = cleanTargetName targetName;
          directMatches = index_get (symbolIndex r) cleanName;
          c1 = directMatches;
          c2 = (if includes_str cleanName ''.''
                then
                  (let parts = split cleanName CHR ''.'';
                       lastPart = last parts;
                       methodMatches = index_get (symbolIndex r) lastPart;
                       m1 = foldl push_unique c1 methodMatches
                   in if length parts \<ge> 2
                      then (let classMethod = parts ! (length parts - 2) @ ''.'' @ lastPart;
                                classMethodMatches = index_get (symbolIndex r) classMethod
                            in foldl push_unique m1 classMethodMatches)
                      else m1)
                else c1);
          imports = (case fileImports r (n_filePath sourceNode) of None \<Rightarrow> [] | Some l \<Rightarrow> l);
          c3 = foldl (\<lambda>cs imp. foldl (import_candidates r cleanName sourceNode imp) cs
                                  (ii_namedImports imp))
                 c2 imports
      in filter (\<lambda>c. isCompatibleType (se_type c) edgeType) c3)"

definition calculateScore :: "ReferenceResolver \<Rightarrow> SymbolEntry \<Rightarrow> GraphNode \<Rightarrow> string \<Rightarrow> int" where
  "calculateScore r candidate sourceNode targetName =
     (let s1 = (if se_filePath candidate = n_filePath sourceNode then 100 else 0);
          sourceDir = getDirectory (n_filePath sourceNode);
          candidateDir = getDirectory (se_filePath candidate);
          s2 = (if sourceDir = candidateDir then 50 else 0);
          s3 = (if se_language candidate = n_language sourceNode then 30 else 0);
          s4 = (if se_fullName candidate = targetName \<or> se_name candidate = targetName
                then 40 else 0);
          s5 = (case se_exportedAs candidate of
                  Some ex \<Rightarrow> if length ex > 0 then 20 else 0
                | None \<Rightarrow> 0);
          imports = (case fileImports r (n_filePath sourceNode) of None \<Rightarrow> [] | Some l \<Rightarrow> l);
          s6 = (if \<exists>imp \<in> set imports.
                     moduleMatches (se_filePath candidate) (ii_moduleSpecifier imp) (n_filePath sourceNode)
                then 60 else 0);
          s7 = (if includes_str targetName ''.'' \<and> includes_str (se_fullName candidate) ''.''
                then (let targetClass = hd (split targetName CHR ''.'');
                          candidateClass = hd (split (se_fullName candidate) CHR ''.'')
                      in if toLowerCase targetClass = toLowerCase candidateClass then 35 else 0)
                else 0)
      in s1 + s2 + s3 + s4 + s5 + s6 + s7)"

record ScoredEntry =
  sc_entry :: SymbolEntry
  sc_score :: int

text \<open>
  \<open>scored.sort((a, b) => b.score - a.score)\<close>: a stable sort by descending score, which is
  \<^const>\<open>sort_key\<close> on the negated score.
\<close>

definition rankCandidates ::
  "ReferenceResolver \<Rightarrow> SymbolEntry list \<Rightarrow> GraphNode \<Rightarrow> string \<Rightarrow> ScoredEntry list" where
  "rankCandidates r candidates sourceNode targetName =
     (let scored = map (\<lambda>entry. \<lparr> sc_entry = entry,
                                    sc_score = calculateScore r entry sourceNode targetName \<rparr>)
                     candidates
      in sort_key (\<lambda>a. - sc_score a) scored)"

text \<open>\<open>metadata.targetName\<close>, absent when it is not a string or is the empty string.\<close>

definition targetName_of :: "metadata \<Rightarrow> string option" where
  "targetName_of m =
     (case str_field (map_of m ''targetName'') of
        Some t \<Rightarrow> if t \<noteq> [] then Some t else None
      | None \<Rightarrow> None)"

definition candidate_label :: "ScoredEntry \<Rightarrow> string" where
  "candidate_label r = se_fullName (sc_entry r) @ '' ('' @ se_filePath (sc_entry r) @ '')''"

definition resolveEdge :: "ReferenceResolver \<Rightarrow> GraphDatabase \<Rightarrow> GraphEdge \<Rightarrow> Resolution" where
  "resolveEdge r db edge =
     (case targetName_of (e_metadata edge) of
        None \<Rightarrow> NotResolved
      | Some targetName \<Rightarrow>
          (case getNode db (e_sourceId edge) of
             None \<Rightarrow> NotResolved
           | Some sourceNode \<Rightarrow>
               (let candidates = findCandidates r targetName sourceNode (e_type edge) in
                if length candidates = 0 then NotResolved
                else if length candidates = 1 then Resolved (se_nodeId (candidates ! 0))
                else
                  (let ranked = rankCandidates r candidates sourceNode targetName in
                   if length ranked > 0 \<and> sc_score (ranked ! 0) > sc_score (ranked ! 1) + 10
                   then Resolved (se_nodeId (sc_entry (ranked ! 0)))
                   else Ambiguous (map candidate_label (take 5 ranked))))))"

text \<open>The body of the loop of \<open>resolve\<close>.\<close>

definition resolve_step ::
  "ReferenceResolver \<Rightarrow> GraphDatabase \<times> ResolutionResult \<Rightarrow> GraphEdge \<Rightarrow> GraphDatabase \<times> ResolutionResult" where
  "resolve_step r st edge =
     (let db = fst st; result = snd st in
      case resolveEdge r db edge of
        Resolved targetId \<Rightarrow>
          (updateEdgeTarget db (e_id edge) targetId False,
           result\<lparr>rr_resolved := rr_resolved result + 1\<rparr>)
      | Ambiguous candidates \<Rightarrow>
          (updateEdgeMetadata db (e_id edge)
             (AList.update ''ambiguousCandidates'' (JArr (map JStr candidates)) (e_metadata edge)),
           result\<lparr>rr_ambiguous := rr_ambiguous result + 1\<rparr>)
      | NotResolved \<Rightarrow>
          (db, result\<lparr>rr_unresolved := rr_unresolved result + 1\<rparr>))"

definition resolve ::
  "ReferenceResolver \<Rightarrow> GraphDatabase \<Rightarrow> ReferenceResolver \<times> GraphDatabase \<times> ResolutionResult" where
  "resolve r0 db =
     (let r1 = buildSymbolIndex r0 db;
          r2 = buildImportExportMaps r1 db;
          unresolvedEdges = getUnresolvedEdges db;
          (db', result) = foldl (resolve_step r2)
                            (db, \<lparr> rr_resolved = 0, rr_unresolved = 0, rr_ambiguous = 0 \<rparr>)
                            unresolvedEdges
      in (r2, db', result))"

text \<open>The store after \<open>new ReferenceResolver(db).resolve()\<close>.\<close>

definition resolve_db :: "GraphDatabase \<Rightarrow> GraphDatabase" where
  "resolve_db db = fst (snd (resolve new_ReferenceResolver db))"

section \<open>A resolver pass, row by row\<close>

text \<open>
  The resolver with its indexes built from a store, the test of \<open>getUnresolvedEdges\<close> on one
  row, and what the loop of \<open>resolve\<close> does to one row: these describe a whole pass as a
  map over the \<open>edges\<close> table.
\<close>

definition built :: "GraphDatabase \<Rightarrow> ReferenceResolver" where
  "built db = buildImportExportMaps (buildSymbolIndex new_ReferenceResolver db) db"

definition is_unresolved :: "GraphEdge \<Rightarrow> bool" where
  "is_unresolved e = (sql_like_ref (e_targetId e) \<or> json_unresolved_true (e_metadata e))"

definition resolved_row :: "ReferenceResolver \<Rightarrow> GraphDatabase \<Rightarrow> GraphEdge \<Rightarrow> GraphEdge" where
  "resolved_row r db row =
     (case resolveEdge r db row of
        Resolved t \<Rightarrow>
          row\<lparr>e_targetId := t,
              e_metadata := AList.update ''resolvedFrom'' (JStr (e_targetId row))
                              (AList.update ''unresolved'' (JBool False) (e_metadata row))\<rparr>
      | Ambiguous cs \<Rightarrow>
          row\<lparr>e_metadata := AList.update ''ambiguousCandidates'' (JArr (map JStr cs)) (e_metadata row)\<rparr>
      | NotResolved \<Rightarrow> row)"

definition index_entries :: "(string \<rightharpoonup> SymbolEntry list) \<Rightarrow> SymbolEntry set" where
  "index_entries idx = {e. \<exists>k es. idx k = Some es \<and> e \<in> set es}"

definition pass_row :: "ReferenceResolver \<Rightarrow> GraphDatabase \<Rightarrow> GraphEdge \<Rightarrow> GraphEdge" where
  "pass_row r db row = (if is_unresolved row then resolved_row r db row else row)"

section \<open>Token budget (utils/token-estimator.ts, getEditingContext)\<close>

definition estimateTokens :: "string \<Rightarrow> int" where
  "estimateTokens text = (if text = [] then 0 else (int (length text) + 3) div 4)"

definition newline :: char where
  "newline = CHR 0x0A"

definition truncationIndicator :: string where
  "truncationIndicator = newline # ''... [truncated]''"

text \<open>
  \<open>lastNewline > charLimit * 0.8\<close> compares an integer with four fifths of an integer; it is
  written here without the division.
\<close>

definition truncateToTokenLimit :: "string \<Rightarrow> int \<Rightarrow> string \<Rightarrow> string \<times> bool" where
  "truncateToTokenLimit text maxTokens indicator =
     (let estimatedTokens = estimateTokens text in
      if estimatedTokens \<le> maxTokens then (text, False)
      else
        (let indicatorTokens = estimateTokens indicator;
             availableTokens = maxTokens - indicatorTokens;
             charLimit = availableTokens * 4;
             truncatedText = slice0 text charLimit;
             lastNewline = lastIndexOf truncatedText newline;
             truncatedText' = (if 5 * lastNewline > 4 * charLimit
                               then slice0 truncatedText lastNewline
                               else truncatedText)
         in (truncatedText' @ indicator, True)))"

text \<open>
  \<open>getEditingContext\<close> reads the target file and the source of other symbols from disk and
  finds the symbols through the store. What it reads is given here as input, in the order the
  loops meet it: the content of the target file; for each import node, for each of its
  symbols, the code of the matching node if there is one; for each incoming edge, the usage
  snippet unless the edge is skipped; for each outgoing edge, the code of the related type if
  the edge names one; for each task word, for each found node, its code if it is a function
  or method of another file.
\<close>

record EditingInput =
  ei_maxTokens :: "int option"
  ei_task :: "string option"
  ei_targetContent :: string
  ei_importSymbols :: "string option list list"
  ei_incoming :: "string option list"
  ei_outgoing :: "string option list"
  ei_taskWordNodes :: "string option list list"

record EditingContext =
  ec_content :: string
  ec_imports :: "string option list"
  ec_dependents :: "string list"
  ec_related_types :: "string list"
  ec_similar_functions :: "string list option"
  ec_token_estimate :: int

text \<open>The inner loop over the first three symbols of one import node.\<close>

fun import_symbols :: "int \<Rightarrow> string option list \<Rightarrow> string option \<times> int \<Rightarrow> string option \<times> int" where
  "import_symbols budget [] acc = acc"
| "import_symbols budget (None # syms) acc = import_symbols budget syms acc"
| "import_symbols budget (Some code # syms) (relevantCode, used) =
     (if used < budget \<and> used + estimateTokens code < budget
      then import_symbols budget syms
             (Some (case relevantCode of
                      None \<Rightarrow> code
                    | Some r \<Rightarrow> if r \<noteq> [] then r @ [newline, newline] @ code else code),
              used + estimateTokens code)
      else import_symbols budget syms (relevantCode, used))"

fun import_nodes :: "int \<Rightarrow> string option list list \<Rightarrow> int \<Rightarrow> string option list \<times> int" where
  "import_nodes budget [] used = ([], used)"
| "import_nodes budget (syms # rest) used =
     (let (relevantCode, used') = import_symbols budget (take 3 syms) (None, used);
          (imports, used'') = import_nodes budget rest used'
      in (relevantCode # imports, used''))"

text \<open>
  The loops over incoming and over outgoing edges: leave when the budget is used up, pass
  over a skipped edge, admit a snippet while it fits.
\<close>

fun admit_loop :: "int \<Rightarrow> string option list \<Rightarrow> int \<Rightarrow> string list \<times> int" where
  "admit_loop budget [] used = ([], used)"
| "admit_loop budget (x # xs) used =
     (if used \<ge> budget then ([], used)
      else case x of
             None \<Rightarrow> admit_loop budget xs used
           | Some code \<Rightarrow>
               if used + estimateTokens code < budget
               then (let (admitted, used') = admit_loop budget xs (used + estimateTokens code)
                     in (code # admitted, used'))
               else admit_loop budget xs used)"

text \<open>The inner loop over the first two nodes found for one task word.\<close>

fun similar_nodes :: "int \<Rightarrow> string option list \<Rightarrow> int \<Rightarrow> string list \<times> int" where
  "similar_nodes budget [] used = ([], used)"
| "similar_nodes budget (None # xs) used = similar_nodes budget xs used"
| "similar_nodes budget (Some code # xs) used =
     (if used + estimateTokens code < budget
      then (let (admitted, used') = similar_nodes budget xs (used + estimateTokens code)
            in (code # admitted, used'))
      else similar_nodes budget xs used)"

fun similar_words :: "int \<Rightarrow> string option list list \<Rightarrow> int \<Rightarrow> string list \<times> int" where
  "similar_words budget [] used = ([], used)"
| "similar_words budget (w # ws) used =
     (if used \<ge> budget then ([], used)
      else (let (a1, used') = similar_nodes budget (take 2 w) used;
                (a2, used'') = similar_words budget ws used'
            in (a1 @ a2, used'')))"

text \<open>
  \<open>Math.floor(maxTokens * 0.6)\<close>, \<open>Math.floor(remainingTokens * 0.3)\<close> and
  \<open>Math.floor(remainingTokens * 0.5)\<close> on integers are the floored quotients below.
\<close>

definition getEditingContext :: "EditingInput \<Rightarrow> EditingContext" where
  "getEditingContext options =
     (let maxTokens = (case ei_maxTokens options of
                         None \<Rightarrow> 8000
                       | Some m \<Rightarrow> if m = 0 then 8000 else m);
          targetTokenBudget = (maxTokens * 6) div 10;
          truncatedTarget = truncateToTokenLimit (ei_targetContent options) targetTokenBudget
                              truncationIndicator;
          remaining1 = maxTokens - estimateTokens (fst truncatedTarget);
          importBudget = (remaining1 * 3) div 10;
          (imports, importTokensUsed) = import_nodes importBudget (ei_importSymbols options) 0;
          remaining2 = remaining1 - importTokensUsed;
          dependentBudget = (remaining2 * 3) div 10;
          (dependents, dependentTokensUsed) = admit_loop dependentBudget (ei_incoming options) 0;
          remaining3 = remaining2 - dependentTokensUsed;
          typeBudget = (remaining3 * 5) div 10;
          (relatedTypes, typeTokensUsed) = admit_loop typeBudget (ei_outgoing options) 0;
          remaining4 = remaining3 - typeTokensUsed;
          taskGiven = (case ei_task options of None \<Rightarrow> False | Some t \<Rightarrow> t \<noteq> []);
          similarFunctions =
            (if taskGiven \<and> remaining4 > 500
             then (let found = fst (similar_words remaining4 (take 3 (ei_taskWordNodes options)) 0)
                   in if found = [] then None else Some found)
             else None);
          totalTokens = maxTokens - remaining4
      in \<lparr> ec_content = fst truncatedTarget,
           ec_imports = imports,
           ec_dependents = dependents,
           ec_related_types = relatedTypes,
           ec_similar_functions = similarFunctions,
           ec_token_estimate = totalTokens \<rparr>)"

section \<open>Java extractor (parsers/java.ts)\<close>

text \<open>
  The concrete syntax tree of \<open>java-parser\<close>, as the \<open>JavaNode\<close> interface of the source
  declares it: a name, optional children grouped under keys in insertion order, an optional
  token image, and the optional start and end line of the optional location. A token of the
  library has an image and no name; the empty string stands for the absent name, which every
  test \<open>n.name === '...'\<close> of the source rejects like \<open>undefined\<close>.
\<close>

datatype JavaNode =
  JavaNode (jname: string) (jchildren: "(string \<times> JavaNode list) list option")
    (jimage: "string option") (jstartLine: "int option") (jendLine: "int option")

text \<open>
  \<open>AnnotationInfo\<close>: the value is a string, an array of strings or an object of strings
  when present, held as a JSON value since it goes into the metadata as it is.
\<close>

record AnnotationInfo =
  an_name :: string
  an_value :: "json option"

record JavaParameter =
  jp_name :: string
  jp_type :: string
  jp_annotations :: "AnnotationInfo list option"

type_synonym ParseResult = "GraphNode list \<times> GraphEdge list"

definition nonempty :: "string option \<Rightarrow> bool" where
  "nonempty s = (case s of None \<Rightarrow> False | Some t \<Rightarrow> t \<noteq> [])"

text \<open>\<open>x || null\<close> on a string.\<close>

definition or_null :: "string \<Rightarrow> string option" where
  "or_null s = (if s = [] then None else Some s)"

fun replace_first :: "string \<Rightarrow> string \<Rightarrow> string \<Rightarrow> string" where
  "replace_first [] pat rep = (if pat = [] then rep else [])"
| "replace_first (c # s) pat rep =
     (if startsWith (c # s) pat then rep @ drop (length pat) (c # s)
      else c # replace_first s pat rep)"

definition is_space :: "char \<Rightarrow> bool" where
  "is_space c = (c \<in> set [CHR '' '', CHR 0x09, CHR 0x0A, CHR 0x0B, CHR 0x0C, CHR 0x0D])"

definition trim :: "string \<Rightarrow> string" where
  "trim s = rev (dropWhile is_space (rev (dropWhile is_space s)))"

text \<open>\<open>node.children?.[key]\<close>, \<open>node.children?.[key]?.[0]\<close> and \<open>...?.[0]?.image\<close> when truthy.\<close>

definition children_of :: "JavaNode \<Rightarrow> string \<Rightarrow> JavaNode list option" where
  "children_of node key = (case jchildren node of None \<Rightarrow> None | Some kv \<Rightarrow> map_of kv key)"

definition children_or_empty :: "JavaNode \<Rightarrow> string \<Rightarrow> JavaNode list" where
  "children_or_empty node key = (case children_of node key of None \<Rightarrow> [] | Some cs \<Rightarrow> cs)"

definition first_child :: "JavaNode \<Rightarrow> string \<Rightarrow> JavaNode option" where
  "first_child node key =
     (case children_of node key of
        Some (c # cs) \<Rightarrow> Some c
      | _ \<Rightarrow> None)"

definition first_image :: "JavaNode \<Rightarrow> string \<Rightarrow> string option" where
  "first_image node key =
     (case first_child node key of
        None \<Rightarrow> None
      | Some c \<Rightarrow> if nonempty (jimage c) then jimage c else None)"

fun first_some :: "'a option list \<Rightarrow> 'a option" where
  "first_some [] = None"
| "first_some (None # xs) = first_some xs"
| "first_some (Some x # xs) = Some x"

definition getStartLine :: "JavaNode \<Rightarrow> int" where
  "getStartLine node = (case jstartLine node of None \<Rightarrow> 1 | Some l \<Rightarrow> if l = 0 then 1 else l)"

definition getEndLine :: "JavaNode \<Rightarrow> int" where
  "getEndLine node = (case jendLine node of None \<Rightarrow> 1 | Some l \<Rightarrow> if l = 0 then 1 else l)"

definition hasChild :: "JavaNode \<Rightarrow> string \<Rightarrow> bool" where
  "hasChild node childName = (children_of node childName \<noteq> None)"

text \<open>
  The traversal shared by \<open>extractPackageName\<close>, \<open>extractTypeName\<close> and
  \<open>extractMethodCallName\<close>: the images of the \<open>Identifier\<close> nodes, depth first.
\<close>

fun collectIdentifiers :: "JavaNode \<Rightarrow> string list" where
  "collectIdentifiers (JavaNode nm ch img sl el) =
     (if nonempty img \<and> nm = ''Identifier'' then [the img] else []) @
     (case ch of
        None \<Rightarrow> []
      | Some kv \<Rightarrow> concat (map (\<lambda>(k, cs). concat (map collectIdentifiers cs)) kv))"

definition extractPackageName :: "JavaNode \<Rightarrow> string option" where
  "extractPackageName packageDecl = or_null (join (collectIdentifiers packageDecl) ''.'')"

definition extractTypeName :: "JavaNode \<Rightarrow> string option" where
  "extractTypeName node = or_null (join (collectIdentifiers node) ''.'')"

definition extractMethodCallName :: "JavaNode \<Rightarrow> string option" where
  "extractMethodCallName node = or_null (join (collectIdentifiers node) ''.'')"

fun collectQualifiedParts :: "JavaNode \<Rightarrow> string list" where
  "collectQualifiedParts (JavaNode nm ch img sl el) =
     (if nonempty img \<and> nm = ''Identifier'' then [the img] else []) @
     (if nm = ''Star'' then [''*''] else []) @
     (case ch of
        None \<Rightarrow> []
      | Some kv \<Rightarrow> concat (map (\<lambda>(k, cs). concat (map collectQualifiedParts cs)) kv))"

definition extractFullyQualifiedName :: "JavaNode \<Rightarrow> string option" where
  "extractFullyQualifiedName node = or_null (join (collectQualifiedParts node) ''.'')"

definition extractIdentifier :: "JavaNode option \<Rightarrow> string option" where
  "extractIdentifier node =
     (case node of
        None \<Rightarrow> None
      | Some n \<Rightarrow>
          if jchildren n = None then None
          else if first_image n ''Identifier'' \<noteq> None then first_image n ''Identifier''
          else
            (case (case first_child n ''typeIdentifier'' of
                     None \<Rightarrow> None | Some t \<Rightarrow> first_image t ''Identifier'') of
               Some i \<Rightarrow> Some i
             | None \<Rightarrow>
                 (case first_child n ''variableDeclaratorId'' of
                    None \<Rightarrow> None | Some v \<Rightarrow> first_image v ''Identifier'')))"

text \<open>\<open>findStringLiteral\<close> inside \<open>extractElementValue\<close>: the first hit, depth first.\<close>

fun findStringLiteral :: "JavaNode \<Rightarrow> string option" where
  "findStringLiteral (JavaNode nm ch img sl el) =
     (let n = JavaNode nm ch img sl el in
      if nm = ''StringLiteral'' \<and> nonempty img then Some (slice (the img) 1 (- 1))
      else if first_image n ''StringLiteral'' \<noteq> None
        then Some (slice (the (first_image n ''StringLiteral'')) 1 (- 1))
      else if nm = ''TextBlock'' \<and> nonempty img then Some (trim (slice (the img) 3 (- 3)))
      else if first_image n ''TextBlock'' \<noteq> None
        then Some (trim (slice (the (first_image n ''TextBlock'')) 3 (- 3)))
      else if nm = ''IntegerLiteral'' \<and> nonempty img then img
      else if first_image n ''IntegerLiteral'' \<noteq> None then first_image n ''IntegerLiteral''
      else if (nm = ''True'' \<or> nm = ''False'') \<and> nonempty img then img
      else if nm = ''Identifier'' \<and> nonempty img then img
      else (case ch of
              None \<Rightarrow> None
            | Some kv \<Rightarrow> first_some (map (\<lambda>(k, cs). first_some (map findStringLiteral cs)) kv)))"

definition extractElementValue :: "JavaNode \<Rightarrow> string option" where
  "extractElementValue node = findStringLiteral node"

definition extractAnnotationInfo :: "JavaNode \<Rightarrow> AnnotationInfo option" where
  "extractAnnotationInfo annotation =
     (if jchildren annotation = None then None
      else
        (let name = (case first_child annotation ''typeName'' of
                       None \<Rightarrow> None
                     | Some typeName \<Rightarrow>
                         if first_image typeName ''Identifier'' \<noteq> None
                         then first_image typeName ''Identifier''
                         else extractTypeName typeName)
         in if \<not> nonempty name then None
            else
              (let value1 = (case first_child annotation ''elementValue'' of
                               None \<Rightarrow> None
                             | Some elementValue \<Rightarrow> map_option JStr (extractElementValue elementValue));
                   value2 =
                     (case first_child annotation ''elementValuePairList'' of
                        None \<Rightarrow> value1
                      | Some elementValuePairList \<Rightarrow>
                          (case children_of elementValuePairList ''elementValuePair'' of
                             None \<Rightarrow> value1
                           | Some prs \<Rightarrow>
                               (let pairs =
                                      foldl (\<lambda>pairs pair.
                                               case (first_image pair ''Identifier'',
                                                     first_child pair ''elementValue'') of
                                                 (Some pairName, Some pairValue) \<Rightarrow>
                                                   (case extractElementValue pairValue of
                                                      None \<Rightarrow> pairs
                                                    | Some extracted \<Rightarrow>
                                                        AList.update pairName (JStr extracted) pairs)
                                               | _ \<Rightarrow> pairs)
                                            [] prs
                                in if length pairs > 0 then Some (JObj pairs) else value1)))
               in Some \<lparr> an_name = the name, an_value = value2 \<rparr>)))"

text \<open>
  \<open>traverse\<close> inside \<open>extractAnnotations\<close>: stop at an annotation, and do not enter method
  or constructor bodies.
\<close>

fun annotations_traverse :: "JavaNode \<Rightarrow> AnnotationInfo list" where
  "annotations_traverse (JavaNode nm ch img sl el) =
     (if nm = ''annotation''
      then (case extractAnnotationInfo (JavaNode nm ch img sl el) of
              None \<Rightarrow> [] | Some info \<Rightarrow> [info])
      else (case ch of
              None \<Rightarrow> []
            | Some kv \<Rightarrow>
                concat (map (\<lambda>(key, cs).
                               concat (map (\<lambda>child.
                                              if key \<noteq> ''methodBody'' \<and> key \<noteq> ''constructorBody''
                                              then annotations_traverse child else [])
                                           cs))
                            kv)))"

definition modifierKeys :: "string list" where
  "modifierKeys = [''classModifier'', ''methodModifier'', ''fieldModifier'', ''interfaceModifier'']"

definition extractAnnotations :: "JavaNode \<Rightarrow> AnnotationInfo list" where
  "extractAnnotations node =
     concat (map (\<lambda>key. concat (map annotations_traverse (children_or_empty node key))) modifierKeys)"

definition extractMappingPath :: "AnnotationInfo option \<Rightarrow> string option" where
  "extractMappingPath annotation =
     (case annotation of
        None \<Rightarrow> None
      | Some a \<Rightarrow>
          (case an_value a of
             Some (JStr s) \<Rightarrow> Some s
           | Some (JArr (JStr s # rest)) \<Rightarrow> Some s
           | Some (JObj kv) \<Rightarrow>
               (let v = (case str_field (map_of kv ''value'') of
                           Some s \<Rightarrow> if s \<noteq> [] then Some s else str_field (map_of kv ''path'')
                         | None \<Rightarrow> str_field (map_of kv ''path''))
                in if nonempty v then v else None)
           | _ \<Rightarrow> None))"

definition extractHttpMethod :: "AnnotationInfo \<Rightarrow> string option" where
  "extractHttpMethod annotation =
     (if an_name annotation = ''GetMapping'' then Some ''GET''
      else if an_name annotation = ''PostMapping'' then Some ''POST''
      else if an_name annotation = ''PutMapping'' then Some ''PUT''
      else if an_name annotation = ''DeleteMapping'' then Some ''DELETE''
      else if an_name annotation = ''PatchMapping'' then Some ''PATCH''
      else if an_name annotation = ''RequestMapping'' then
        (case an_value annotation of
           Some (JObj kv) \<Rightarrow>
             (case str_field (map_of kv ''method'') of
                Some method \<Rightarrow>
                  if method \<noteq> []
                  then Some (toUpperCase (replace_first method ''RequestMethod.'' ''''))
                  else Some ''GET''
              | None \<Rightarrow> Some ''GET'')
         | _ \<Rightarrow> Some ''GET'')
      else None)"

definition combinePaths :: "string \<Rightarrow> string \<Rightarrow> string" where
  "combinePaths basePath methodPath =
     (let base = (if endsWith basePath ''/'' then slice basePath 0 (- 1) else basePath);
          method = (if startsWith methodPath ''/'' then methodPath else ''/'' @ methodPath)
      in base @ method)"

definition springAnnotations :: "string list" where
  "springAnnotations =
     [''RestController'', ''Controller'', ''Service'', ''Repository'', ''Component'',
      ''Configuration'', ''Bean'', ''Autowired'', ''Inject'', ''Value'', ''RequestMapping'',
      ''GetMapping'', ''PostMapping'', ''PutMapping'', ''DeleteMapping'', ''PatchMapping'',
      ''PathVariable'', ''RequestBody'', ''RequestParam'', ''ResponseBody'', ''Transactional'',
      ''Entity'', ''Table'', ''Id'', ''Column'', ''Query'', ''Param'', ''Scheduled'', ''Async'',
      ''Cacheable'', ''CacheEvict'']"

definition extractSpringAnnotations :: "string list \<Rightarrow> string list" where
  "extractSpringAnnotations annotations = filter (\<lambda>a. a \<in> set springAnnotations) annotations"

definition extractModifiers :: "JavaNode \<Rightarrow> string list" where
  "extractModifiers node =
     concat (map (\<lambda>key.
       concat (map (\<lambda>modifier.
         case jchildren modifier of
           None \<Rightarrow> []
         | Some kv \<Rightarrow>
             concat (map (\<lambda>(name, children).
                            if name \<in> set [''Public'', ''Private'', ''Protected'', ''Static'', ''Final'', ''Abstract'']
                               \<and> length children > 0
                            then [toLowerCase name] else [])
                         kv))
         (children_or_empty node key)))
       modifierKeys)"

definition extractReturnType :: "JavaNode \<Rightarrow> string option" where
  "extractReturnType header =
     (case first_child header ''result'' of
        None \<Rightarrow> None
      | Some result \<Rightarrow>
          if jchildren result = None then None
          else if children_of result ''Void'' \<noteq> None then Some ''void''
          else extractTypeName result)"

fun extractInterfaceNames :: "JavaNode \<Rightarrow> string list" where
  "extractInterfaceNames (JavaNode nm ch img sl el) =
     (if nm = ''classType'' \<or> nm = ''interfaceType''
      then (case extractTypeName (JavaNode nm ch img sl el) of None \<Rightarrow> [] | Some name \<Rightarrow> [name])
      else (case ch of
              None \<Rightarrow> []
            | Some kv \<Rightarrow> concat (map (\<lambda>(k, cs). concat (map extractInterfaceNames cs)) kv)))"

definition extractParameters :: "JavaNode option \<Rightarrow> JavaParameter list" where
  "extractParameters declarator =
     (case declarator of
        None \<Rightarrow> []
      | Some d \<Rightarrow>
          if jchildren d = None then []
          else
            (case first_child d ''formalParameterList'' of
               None \<Rightarrow> []
             | Some formalParams \<Rightarrow>
                 if jchildren formalParams = None then []
                 else
                   concat (map (\<lambda>paramNode.
                     if jchildren paramNode = None then []
                     else
                       (let paramName = extractIdentifier (first_child paramNode ''variableDeclaratorId'');
                            paramType = extractTypeName paramNode;
                            annotations = extractAnnotations paramNode
                        in if nonempty paramName \<and> nonempty paramType
                           then [\<lparr> jp_name = the paramName, jp_type = the paramType,
                                    jp_annotations = (if length annotations > 0
                                                      then Some annotations else None) \<rparr>]
                           else []))
                     (children_or_empty formalParams ''formalParameter''))))"

definition extractFieldType :: "JavaNode \<Rightarrow> string" where
  "extractFieldType fieldDecl =
     (case first_child fieldDecl ''unannType'' of
        None \<Rightarrow> ''Object''
      | Some unannType \<Rightarrow>
          (case extractTypeName unannType of None \<Rightarrow> ''Object'' | Some t \<Rightarrow> t))"

text \<open>The metadata documents of the Java nodes; a key whose value is \<open>undefined\<close> is left out.\<close>

definition json_opt :: "string option \<Rightarrow> json" where
  "json_opt s = (case s of None \<Rightarrow> JNull | Some t \<Rightarrow> JStr t)"

definition annotation_json :: "AnnotationInfo \<Rightarrow> json" where
  "annotation_json a =
     JObj ((''name'', JStr (an_name a)) #
           (case an_value a of None \<Rightarrow> [] | Some v \<Rightarrow> [(''value'', v)]))"

definition parameter_json :: "JavaParameter \<Rightarrow> json" where
  "parameter_json p =
     JObj ([(''name'', JStr (jp_name p)), (''type'', JStr (jp_type p))] @
           (case jp_annotations p of
              None \<Rightarrow> []
            | Some anns \<Rightarrow> [(''annotations'', JArr (map annotation_json anns))]))"

definition unresolved_ref :: "string \<Rightarrow> metadata" where
  "unresolved_ref targetName = [(''unresolved'', JBool True), (''targetName'', JStr targetName)]"

text \<open>
  \<open>traverse\<close> inside \<open>parseMethodBodyForCalls\<close>. The state is the set \<open>seenCalls\<close>, kept as
  the list of its members, and the edges pushed so far.
\<close>

fun calls_traverse ::
  "(string \<Rightarrow> string) \<Rightarrow> string \<Rightarrow> JavaNode \<Rightarrow> string list \<times> GraphEdge list \<Rightarrow> string list \<times> GraphEdge list" where
  "calls_traverse md5 methodNodeId (JavaNode nm ch img sl el) acc =
     (case ch of
        None \<Rightarrow> acc
      | Some kv \<Rightarrow>
          (let acc1 =
                 (if nm = ''methodInvocation''
                  then (case extractMethodCallName (JavaNode nm ch img sl el) of
                          None \<Rightarrow> acc
                        | Some callName \<Rightarrow>
                            if callName \<notin> set (fst acc)
                            then (fst acc @ [callName],
                                  snd acc @ [createEdge md5 methodNodeId (''ref:method:'' @ callName)
                                               ''calls'' (unresolved_ref callName)])
                            else acc)
                  else acc)
           in foldl (\<lambda>a (k, cs). foldl (\<lambda>a c. calls_traverse md5 methodNodeId c a) a cs) acc1 kv))"

definition parseMethodBodyForCalls :: "(string \<Rightarrow> string) \<Rightarrow> JavaNode \<Rightarrow> string \<Rightarrow> GraphEdge list" where
  "parseMethodBodyForCalls md5 methodBody methodNodeId =
     snd (calls_traverse md5 methodNodeId methodBody ([], []))"

definition java :: string where
  "java = ''java''"

definition parseImport_java :: "(string \<Rightarrow> string) \<Rightarrow> JavaNode \<Rightarrow> string \<Rightarrow> string \<Rightarrow> ParseResult" where
  "parseImport_java md5 importDecl filePath fileNodeId =
     (case extractFullyQualifiedName importDecl of
        None \<Rightarrow> ([], [])
      | Some importName \<Rightarrow>
          (let isStatic = hasChild importDecl ''Static'';
               isWildcard = endsWith importName ''*'';
               importNode = createNode md5 java filePath TImport importName
                              (getStartLine importDecl) (getEndLine importDecl)
                              [(''isStatic'', JBool isStatic), (''isWildcard'', JBool isWildcard)]
           in ([importNode], [createEdge md5 fileNodeId (n_id importNode) ''imports'' []])))"

definition parseMethodDeclaration ::
  "(string \<Rightarrow> string) \<Rightarrow> JavaNode \<Rightarrow> string \<Rightarrow> string \<Rightarrow> string \<Rightarrow> string option \<Rightarrow> ParseResult" where
  "parseMethodDeclaration md5 methodDecl filePath classNodeId className classRequestMapping =
     (if jchildren methodDecl = None then ([], [])
      else
        (case first_child methodDecl ''methodHeader'' of
           None \<Rightarrow> ([], [])
         | Some header \<Rightarrow>
             if jchildren header = None then ([], [])
             else
               (let declarator = first_child header ''methodDeclarator'' in
                case extractIdentifier declarator of
                  None \<Rightarrow> ([], [])
                | Some methodName \<Rightarrow>
                    (let annotations = extractAnnotations methodDecl;
                         annotationNames = map an_name annotations;
                         springAnns = extractSpringAnnotations annotationNames;
                         modifiers = extractModifiers methodDecl;
                         returnType = extractReturnType header;
                         parameters = extractParameters declarator;
                         httpMappingAnnotation =
                           find (\<lambda>a. an_name a \<in> set [''GetMapping'', ''PostMapping'', ''PutMapping'',
                                                        ''DeleteMapping'', ''PatchMapping'', ''RequestMapping''])
                                annotations;
                         nodeType = (if httpMappingAnnotation \<noteq> None then TEndpoint else TMethod);
                         httpMethod = (case httpMappingAnnotation of
                                         None \<Rightarrow> None | Some a \<Rightarrow> extractHttpMethod a);
                         methodPath = (case httpMappingAnnotation of
                                         None \<Rightarrow> None | Some a \<Rightarrow> extractMappingPath (Some a));
                         fullPath =
                           (if httpMappingAnnotation = None then None
                            else if nonempty classRequestMapping \<and> nonempty methodPath
                              then Some (combinePaths (the classRequestMapping) (the methodPath))
                            else if nonempty classRequestMapping then classRequestMapping
                            else if nonempty methodPath then methodPath
                            else None);
                         methodNode =
                           createNode md5 java filePath nodeType (className @ ''.'' @ methodName)
                             (getStartLine methodDecl) (getEndLine methodDecl)
                             [(''annotations'', JArr (map annotation_json annotations)),
                              (''springAnnotations'', JArr (map JStr springAnns)),
                              (''modifiers'', JArr (map JStr modifiers)),
                              (''returnType'', json_opt returnType),
                              (''parameters'', JArr (map parameter_json parameters)),
                              (''isStatic'', JBool (''static'' \<in> set modifiers)),
                              (''isAbstract'', JBool (''abstract'' \<in> set modifiers)),
                              (''httpMethod'', json_opt httpMethod),
                              (''path'', json_opt methodPath),
                              (''fullPath'', json_opt fullPath)];
                         callEdges = (case first_child methodDecl ''methodBody'' of
                                        None \<Rightarrow> []
                                      | Some methodBody \<Rightarrow>
                                          parseMethodBodyForCalls md5 methodBody (n_id methodNode));
                         autowireEdges =
                           concat (map (\<lambda>param.
                             case jp_annotations param of
                               None \<Rightarrow> []
                             | Some anns \<Rightarrow>
                                 if \<exists>a \<in> set anns. an_name a \<in> set [''Autowired'', ''Inject'']
                                 then [createEdge md5 (n_id methodNode) (''ref:class:'' @ jp_type param)
                                         ''autowires'' (unresolved_ref (jp_type param))]
                                 else [])
                             parameters)
                     in ([methodNode],
                         [createEdge md5 classNodeId (n_id methodNode) ''contains'' []] @
                         callEdges @ autowireEdges)))))"

definition parseInterfaceMethodDeclaration ::
  "(string \<Rightarrow> string) \<Rightarrow> JavaNode \<Rightarrow> string \<Rightarrow> string \<Rightarrow> string \<Rightarrow> ParseResult" where
  "parseInterfaceMethodDeclaration md5 methodDecl filePath interfaceNodeId interfaceName =
     (if jchildren methodDecl = None then ([], [])
      else
        (case first_child methodDecl ''methodHeader'' of
           None \<Rightarrow> ([], [])
         | Some header \<Rightarrow>
             if jchildren header = None then ([], [])
             else
               (let declarator = first_child header ''methodDeclarator'' in
                case extractIdentifier declarator of
                  None \<Rightarrow> ([], [])
                | Some methodName \<Rightarrow>
                    (let annotations = extractAnnotations methodDecl;
                         returnType = extractReturnType header;
                         parameters = extractParameters declarator;
                         methodNode =
                           createNode md5 java filePath TMethod (interfaceName @ ''.'' @ methodName)
                             (getStartLine methodDecl) (getEndLine methodDecl)
                             [(''annotations'', JArr (map annotation_json annotations)),
                              (''returnType'', json_opt returnType),
                              (''parameters'', JArr (map parameter_json parameters)),
                              (''isAbstract'', JBool True)]
                     in ([methodNode],
                         [createEdge md5 interfaceNodeId (n_id methodNode) ''contains'' []])))))"

definition parseFieldDeclaration ::
  "(string \<Rightarrow> string) \<Rightarrow> JavaNode \<Rightarrow> string \<Rightarrow> string \<Rightarrow> string \<Rightarrow> ParseResult" where
  "parseFieldDeclaration md5 fieldDecl filePath classNodeId className =
     (if jchildren fieldDecl = None then ([], [])
      else
        (let declarators = (case first_child fieldDecl ''variableDeclaratorList'' of
                              None \<Rightarrow> []
                            | Some l \<Rightarrow> children_or_empty l ''variableDeclarator'');
             annotations = extractAnnotations fieldDecl;
             annotationNames = map an_name annotations;
             modifiers = extractModifiers fieldDecl;
             fieldType = extractFieldType fieldDecl;
             valueAnnotation = find (\<lambda>a. an_name a = ''Value'') annotations;
             valueProperty = (case valueAnnotation of None \<Rightarrow> None | Some a \<Rightarrow> an_value a);
             perDeclarator =
               map (\<lambda>declarator.
                 case extractIdentifier (Some declarator) of
                   None \<Rightarrow> ([], [])
                 | Some fieldName \<Rightarrow>
                     (let fieldNode =
                            createNode md5 java filePath TVariable (className @ ''.'' @ fieldName)
                              (getStartLine declarator) (getEndLine declarator)
                              ([(''annotations'', JArr (map annotation_json annotations)),
                                (''modifiers'', JArr (map JStr modifiers)),
                                (''type'', JStr fieldType),
                                (''isStatic'', JBool (''static'' \<in> set modifiers)),
                                (''isFinal'', JBool (''final'' \<in> set modifiers))] @
                               (case valueProperty of None \<Rightarrow> [] | Some v \<Rightarrow> [(''valueProperty'', v)]))
                      in ([fieldNode],
                          [createEdge md5 classNodeId (n_id fieldNode) ''contains'' []] @
                          (if \<exists>a \<in> set annotationNames. a \<in> set [''Autowired'', ''Inject'', ''Resource'']
                           then [createEdge md5 (n_id fieldNode) (''ref:class:'' @ fieldType)
                                   ''autowires'' (unresolved_ref fieldType)]
                           else []))))
                 declarators
         in (concat (map fst perDeclarator), concat (map snd perDeclarator))))"

definition parseConstructorDeclaration ::
  "(string \<Rightarrow> string) \<Rightarrow> JavaNode \<Rightarrow> string \<Rightarrow> string \<Rightarrow> string \<Rightarrow> ParseResult" where
  "parseConstructorDeclaration md5 constructorDecl filePath classNodeId className =
     (if jchildren constructorDecl = None then ([], [])
      else
        (let declarator = first_child constructorDecl ''constructorDeclarator'';
             annotations = extractAnnotations constructorDecl;
             modifiers = extractModifiers constructorDecl;
             parameters = extractParameters declarator;
             constructorNode =
               createNode md5 java filePath TMethod (className @ ''.<init>'')
                 (getStartLine constructorDecl) (getEndLine constructorDecl)
                 [(''isConstructor'', JBool True),
                  (''annotations'', JArr (map annotation_json annotations)),
                  (''modifiers'', JArr (map JStr modifiers)),
                  (''parameters'', JArr (map parameter_json parameters))]
         in ([constructorNode],
             [createEdge md5 classNodeId (n_id constructorNode) ''contains'' []] @
             concat (map (\<lambda>param.
                            if jp_type param \<noteq> []
                            then [createEdge md5 (n_id constructorNode) (''ref:class:'' @ jp_type param)
                                    ''injects'' (unresolved_ref (jp_type param))]
                            else [])
                         parameters))))"

text \<open>The two loops of \<open>parseClassBody\<close>: methods and fields first, constructors after.\<close>

definition parseClassBody ::
  "(string \<Rightarrow> string) \<Rightarrow> JavaNode \<Rightarrow> string \<Rightarrow> string \<Rightarrow> string \<Rightarrow> string option \<Rightarrow> ParseResult" where
  "parseClassBody md5 classBody filePath classNodeId className classRequestMapping =
     (let bodyDecls = children_or_empty classBody ''classBodyDeclaration'';
          members =
            map (\<lambda>bodyDecl.
              if jchildren bodyDecl = None then ([], [])
              else
                (case first_child bodyDecl ''classMemberDeclaration'' of
                   None \<Rightarrow> ([], [])
                 | Some memberDecl \<Rightarrow>
                     if jchildren memberDecl = None then ([], [])
                     else
                       (case first_child memberDecl ''methodDeclaration'' of
                          Some methodDecl \<Rightarrow>
                            parseMethodDeclaration md5 methodDecl filePath classNodeId className
                              classRequestMapping
                        | None \<Rightarrow>
                            (case first_child memberDecl ''fieldDeclaration'' of
                               Some fieldDecl \<Rightarrow>
                                 parseFieldDeclaration md5 fieldDecl filePath classNodeId className
                             | None \<Rightarrow> ([], [])))))
              bodyDecls;
          constructors =
            map (\<lambda>bodyDecl.
              case first_child bodyDecl ''constructorDeclaration'' of
                Some constructorDecl \<Rightarrow>
                  parseConstructorDeclaration md5 constructorDecl filePath classNodeId className
              | None \<Rightarrow> ([], []))
              bodyDecls
      in (concat (map fst members) @ concat (map fst constructors),
          concat (map snd members) @ concat (map snd constructors)))"

definition parseInterfaceBody ::
  "(string \<Rightarrow> string) \<Rightarrow> JavaNode \<Rightarrow> string \<Rightarrow> string \<Rightarrow> string \<Rightarrow> ParseResult" where
  "parseInterfaceBody md5 interfaceBody filePath interfaceNodeId interfaceName =
     (let memberDecls = children_or_empty interfaceBody ''interfaceMemberDeclaration'';
          members =
            map (\<lambda>memberDecl.
              if jchildren memberDecl = None then ([], [])
              else
                (case first_child memberDecl ''interfaceMethodDeclaration'' of
                   Some methodDecl \<Rightarrow>
                     parseInterfaceMethodDeclaration md5 methodDecl filePath interfaceNodeId interfaceName
                 | None \<Rightarrow> ([], [])))
              memberDecls
      in (concat (map fst members), concat (map snd members)))"

definition parseClassDeclaration ::
  "(string \<Rightarrow> string) \<Rightarrow> JavaNode \<Rightarrow> string \<Rightarrow> string \<Rightarrow> ParseResult" where
  "parseClassDeclaration md5 classDecl filePath parentId =
     (if jchildren classDecl = None then ([], [])
      else
        (case first_child classDecl ''normalClassDeclaration'' of
           None \<Rightarrow> ([], [])
         | Some normalClass \<Rightarrow>
             if jchildren normalClass = None then ([], [])
             else
               (case extractIdentifier (Some normalClass) of
                  None \<Rightarrow> ([], [])
                | Some className \<Rightarrow>
                    (let annotations = extractAnnotations classDecl;
                         annotationNames = map an_name annotations;
                         springAnns = extractSpringAnnotations annotationNames;
                         nodeType =
                           (if ''RestController'' \<in> set annotationNames \<or> ''Controller'' \<in> set annotationNames
                            then TController
                            else if ''Service'' \<in> set annotationNames then TService
                            else if ''Repository'' \<in> set annotationNames then TRepository
                            else if ''Component'' \<in> set annotationNames then TComponent
                            else TClass);
                         modifiers = extractModifiers normalClass;
                         requestMappingAnnotation = find (\<lambda>a. an_name a = ''RequestMapping'') annotations;
                         requestMapping = extractMappingPath requestMappingAnnotation;
                         classNode =
                           createNode md5 java filePath nodeType className
                             (getStartLine normalClass) (getEndLine normalClass)
                             [(''annotations'', JArr (map annotation_json annotations)),
                              (''springAnnotations'', JArr (map JStr springAnns)),
                              (''modifiers'', JArr (map JStr modifiers)),
                              (''isAbstract'', JBool (''abstract'' \<in> set modifiers)),
                              (''isFinal'', JBool (''final'' \<in> set modifiers)),
                              (''requestMapping'', json_opt requestMapping)];
                         extendsEdges =
                           (case first_child normalClass ''superclass'' of
                              None \<Rightarrow> []
                            | Some superclass \<Rightarrow>
                                (case extractTypeName superclass of
                                   None \<Rightarrow> []
                                 | Some superclassName \<Rightarrow>
                                     [createEdge md5 (n_id classNode) (''ref:class:'' @ superclassName)
                                        ''extends'' (unresolved_ref superclassName)]));
                         implementsEdges =
                           (case first_child normalClass ''superinterfaces'' of
                              None \<Rightarrow> []
                            | Some superinterfaces \<Rightarrow>
                                map (\<lambda>ifaceName.
                                       createEdge md5 (n_id classNode) (''ref:interface:'' @ ifaceName)
                                         ''implements'' (unresolved_ref ifaceName))
                                    (extractInterfaceNames superinterfaces));
                         body =
                           (case first_child normalClass ''classBody'' of
                              None \<Rightarrow> ([], [])
                            | Some classBody \<Rightarrow>
                                if jchildren classBody = None then ([], [])
                                else parseClassBody md5 classBody filePath (n_id classNode) className
                                       requestMapping)
                     in (classNode # fst body,
                         [createEdge md5 parentId (n_id classNode) ''contains'' []] @
                         extendsEdges @ implementsEdges @ snd body)))))"

definition parseInterfaceDeclaration ::
  "(string \<Rightarrow> string) \<Rightarrow> JavaNode \<Rightarrow> string \<Rightarrow> string \<Rightarrow> ParseResult" where
  "parseInterfaceDeclaration md5 interfaceDecl filePath parentId =
     (if jchildren interfaceDecl = None then ([], [])
      else
        (case first_child interfaceDecl ''normalInterfaceDeclaration'' of
           None \<Rightarrow> ([], [])
         | Some normalInterface \<Rightarrow>
             if jchildren normalInterface = None then ([], [])
             else
               (case extractIdentifier (Some normalInterface) of
                  None \<Rightarrow> ([], [])
                | Some interfaceName \<Rightarrow>
                    (let annotations = extractAnnotations normalInterface;
                         modifiers = extractModifiers normalInterface;
                         interfaceNode =
                           createNode md5 java filePath TInterface interfaceName
                             (getStartLine normalInterface) (getEndLine normalInterface)
                             [(''annotations'', JArr (map annotation_json annotations)),
                              (''modifiers'', JArr (map JStr modifiers))];
                         body =
                           (case first_child normalInterface ''interfaceBody'' of
                              None \<Rightarrow> ([], [])
                            | Some interfaceBody \<Rightarrow>
                                if jchildren interfaceBody = None then ([], [])
                                else parseInterfaceBody md5 interfaceBody filePath (n_id interfaceNode)
                                       interfaceName)
                     in (interfaceNode # fst body,
                         createEdge md5 parentId (n_id interfaceNode) ''contains'' [] # snd body)))))"

definition parseTypeDeclaration ::
  "(string \<Rightarrow> string) \<Rightarrow> JavaNode \<Rightarrow> string \<Rightarrow> string \<Rightarrow> ParseResult" where
  "parseTypeDeclaration md5 typeDecl filePath parentId =
     (if jchildren typeDecl = None then ([], [])
      else
        (case first_child typeDecl ''classDeclaration'' of
           Some classDecl \<Rightarrow> parseClassDeclaration md5 classDecl filePath parentId
         | None \<Rightarrow>
             (case first_child typeDecl ''interfaceDeclaration'' of
                Some interfaceDecl \<Rightarrow> parseInterfaceDeclaration md5 interfaceDecl filePath parentId
              | None \<Rightarrow> ([], []))))"

definition parseCompilationUnit ::
  "(string \<Rightarrow> string) \<Rightarrow> JavaNode \<Rightarrow> string \<Rightarrow> string \<Rightarrow> ParseResult" where
  "parseCompilationUnit md5 cst filePath fileNodeId =
     (if jchildren cst = None then ([], [])
      else
        (case (case children_of cst ''ordinaryCompilationUnit'' of
                 None \<Rightarrow> Some cst
               | Some [] \<Rightarrow> None
               | Some (cu # rest) \<Rightarrow> if jchildren cu = None then None else Some cu) of
           None \<Rightarrow> ([], [])
         | Some compilationUnit \<Rightarrow>
             (let package =
                    (case first_child compilationUnit ''packageDeclaration'' of
                       None \<Rightarrow> ([], [])
                     | Some packageDecl \<Rightarrow>
                         (case extractPackageName packageDecl of
                            None \<Rightarrow> ([], [])
                          | Some packageName \<Rightarrow>
                              (let packageNode =
                                     createNode md5 java filePath TModule packageName
                                       (getStartLine packageDecl) (getEndLine packageDecl)
                                       [(''type'', JStr ''package'')]
                               in ([packageNode],
                                   [createEdge md5 fileNodeId (n_id packageNode) ''contains'' []]))));
                  imports = map (\<lambda>importDecl. parseImport_java md5 importDecl filePath fileNodeId)
                              (children_or_empty compilationUnit ''importDeclaration'');
                  types = map (\<lambda>typeDecl. parseTypeDeclaration md5 typeDecl filePath fileNodeId)
                            (children_or_empty compilationUnit ''typeDeclaration'')
              in (fst package @ concat (map fst imports) @ concat (map fst types),
                  snd package @ concat (map snd imports) @ concat (map snd types)))))"

text \<open>\<open>filePath.split('/').pop() || filePath\<close>\<close>

definition fileBaseName :: "string \<Rightarrow> string" where
  "fileBaseName filePath =
     (let l = last (split filePath CHR ''/'') in if l = [] then filePath else l)"

text \<open>
  \<open>JavaParser.parse\<close>. The parser of the \<open>java-parser\<close> library is the parameter
  \<open>java_parser\<close>; it yields no tree where the library throws.
\<close>

definition JavaParser_parse ::
  "(string \<Rightarrow> string) \<Rightarrow> (string \<Rightarrow> JavaNode option) \<Rightarrow> string \<Rightarrow> string \<Rightarrow> ParseResult" where
  "JavaParser_parse md5 java_parser filePath content =
     (let lines = split content newline;
          fileNode = createNode md5 java filePath TFile (fileBaseName filePath) 1 (int (length lines)) []
      in case java_parser content of
           None \<Rightarrow> ([fileNode], [])
         | Some cst \<Rightarrow>
             (let rest = parseCompilationUnit md5 cst filePath (n_id fileNode)
              in (fileNode # fst rest, snd rest)))"

section \<open>TypeScript and JavaScript extractor (parsers/typescript.ts)\<close>

text \<open>
  The syntax tree of \<open>ts-morph\<close>, as far as the extractor reads it: each record holds what
  the accessors called on that kind of declaration return.
\<close>

datatype CalleeKind = Identifier | PropertyAccessExpression | OtherExpression

record TsCall =
  call_kind :: CalleeKind
  call_text :: string
  call_line :: int

record TsParameter =
  tp_name :: string
  tp_type :: string

record TsImportDeclaration =
  imp_moduleSpecifier :: string
  imp_startLine :: int
  imp_endLine :: int
  imp_namedImports :: "string list"
  imp_defaultImport :: "string option"

record TsExportDeclaration =
  exp_moduleSpecifier :: "string option"
  exp_startLine :: int
  exp_endLine :: int
  exp_namedExports :: "string list"

record TsMethod =
  m_name :: string
  m_startLine :: int
  m_endLine :: int
  m_isStatic :: bool
  m_isAsync :: bool
  m_scope :: "string option"
  m_parameters :: "TsParameter list"
  m_returnType :: string
  m_decorators :: "string list"
  m_calls :: "TsCall list"

record TsProperty =
  p_name :: string
  p_startLine :: int
  p_endLine :: int
  p_isStatic :: bool
  p_scope :: "string option"
  p_type :: string
  p_decorators :: "string list"

record TsClass =
  c_name :: "string option"
  c_startLine :: int
  c_endLine :: int
  c_isExported :: bool
  c_isAbstract :: bool
  c_decorators :: "string list"
  c_extends :: "string option"
  c_implements :: "string list"
  c_methods :: "TsMethod list"
  c_properties :: "TsProperty list"

record TsInterface =
  i_name :: string
  i_startLine :: int
  i_endLine :: int
  i_isExported :: bool
  i_properties :: "string list"
  i_methods :: "string list"
  i_extends :: "string list"

record TsFunction =
  f_name :: "string option"
  f_startLine :: int
  f_endLine :: int
  f_isExported :: bool
  f_isAsync :: bool
  f_isGenerator :: bool
  f_parameters :: "TsParameter list"
  f_returnType :: string
  f_calls :: "TsCall list"

datatype InitializerKind = ArrowFunction | FunctionExpression | OtherInitializer

record TsInitializer =
  init_kind :: InitializerKind
  init_isAsync :: bool
  init_calls :: "TsCall list"

record TsVariableDeclaration =
  vd_name :: string
  vd_startLine :: int
  vd_endLine :: int
  vd_initializer :: "TsInitializer option"

record TsVariableStatement =
  vs_isExported :: bool
  vs_declarations :: "TsVariableDeclaration list"

record TsSourceFile =
  sf_endLine :: int
  sf_imports :: "TsImportDeclaration list"
  sf_exports :: "TsExportDeclaration list"
  sf_classes :: "TsClass list"
  sf_interfaces :: "TsInterface list"
  sf_functions :: "TsFunction list"
  sf_variableStatements :: "TsVariableStatement list"

definition tsparam_json :: "TsParameter \<Rightarrow> json" where
  "tsparam_json p = JObj [(''name'', JStr (tp_name p)), (''type'', JStr (tp_type p))]"

definition opt_field :: "string \<Rightarrow> string option \<Rightarrow> metadata" where
  "opt_field key v = (case v of None \<Rightarrow> [] | Some s \<Rightarrow> [(key, JStr s)])"

text \<open>
  \<open>parseCallExpressions\<close>: the call expressions among the descendants, in order, with the
  set \<open>seenCalls\<close> kept as the list of its members.
\<close>

fun call_loop ::
  "(string \<Rightarrow> string) \<Rightarrow> string \<Rightarrow> TsCall list \<Rightarrow> string list \<Rightarrow> GraphEdge list" where
  "call_loop md5 parentId [] seenCalls = []"
| "call_loop md5 parentId (call # calls) seenCalls =
     (if call_kind call = Identifier \<or> call_kind call = PropertyAccessExpression
      then (let callName = call_text call in
            if callName \<in> set seenCalls then call_loop md5 parentId calls seenCalls
            else createEdge md5 parentId (''ref:function:'' @ callName) ''calls''
                   [(''unresolved'', JBool True), (''targetName'', JStr callName),
                    (''line'', JNum (call_line call))]
                 # call_loop md5 parentId calls (seenCalls @ [callName]))
      else call_loop md5 parentId calls seenCalls)"

definition parseCallExpressions :: "(string \<Rightarrow> string) \<Rightarrow> TsCall list \<Rightarrow> string \<Rightarrow> GraphEdge list" where
  "parseCallExpressions md5 callExpressions parentId = call_loop md5 parentId callExpressions []"

text \<open>\<open>createNode\<close> followed by the override of \<open>language\<close> for JavaScript files.\<close>

definition ts_node ::
  "(string \<Rightarrow> string) \<Rightarrow> bool \<Rightarrow> string \<Rightarrow> NodeType \<Rightarrow> string \<Rightarrow> int \<Rightarrow> int \<Rightarrow> metadata \<Rightarrow> GraphNode" where
  "ts_node md5 isJS filePath type name lineStart lineEnd metadata =
     (let node = createNode md5 ''typescript'' filePath type name lineStart lineEnd metadata
      in if isJS then node\<lparr>n_language := ''javascript''\<rparr> else node)"

definition ts_method ::
  "(string \<Rightarrow> string) \<Rightarrow> bool \<Rightarrow> string \<Rightarrow> string \<Rightarrow> string \<Rightarrow> TsMethod \<Rightarrow> ParseResult" where
  "ts_method md5 isJS filePath classId className method =
     (let methodName = m_name method;
          methodNode = ts_node md5 isJS filePath TMethod (className @ ''.'' @ methodName)
                         (m_startLine method) (m_endLine method)
                         ([(''isStatic'', JBool (m_isStatic method)),
                           (''isAsync'', JBool (m_isAsync method))] @
                          opt_field ''visibility'' (m_scope method) @
                          [(''parameters'', JArr (map tsparam_json (m_parameters method))),
                           (''returnType'', JStr (m_returnType method)),
                           (''decorators'', JArr (map JStr (m_decorators method)))])
      in ([methodNode],
          createEdge md5 classId (n_id methodNode) ''contains'' []
          # parseCallExpressions md5 (m_calls method) (n_id methodNode)))"

definition ts_property ::
  "(string \<Rightarrow> string) \<Rightarrow> bool \<Rightarrow> string \<Rightarrow> string \<Rightarrow> string \<Rightarrow> TsProperty \<Rightarrow> ParseResult" where
  "ts_property md5 isJS filePath classId className prop =
     (let propNode = ts_node md5 isJS filePath TVariable (className @ ''.'' @ p_name prop)
                       (p_startLine prop) (p_endLine prop)
                       ([(''isStatic'', JBool (p_isStatic prop))] @
                        opt_field ''visibility'' (p_scope prop) @
                        [(''type'', JStr (p_type prop)),
                         (''decorators'', JArr (map JStr (p_decorators prop)))])
      in ([propNode], [createEdge md5 classId (n_id propNode) ''contains'' []]))"

definition ts_class ::
  "(string \<Rightarrow> string) \<Rightarrow> bool \<Rightarrow> string \<Rightarrow> string \<Rightarrow> TsClass \<Rightarrow> ParseResult" where
  "ts_class md5 isJS filePath fileId classDecl =
     (let className = (case c_name classDecl of
                         None \<Rightarrow> ''AnonymousClass''
                       | Some n \<Rightarrow> if n = [] then ''AnonymousClass'' else n);
          classNode = ts_node md5 isJS filePath TClass className
                        (c_startLine classDecl) (c_endLine classDecl)
                        [(''isExported'', JBool (c_isExported classDecl)),
                         (''isAbstract'', JBool (c_isAbstract classDecl)),
                         (''decorators'', JArr (map JStr (c_decorators classDecl)))];
          extendsEdges = (case c_extends classDecl of
                            None \<Rightarrow> []
                          | Some baseName \<Rightarrow>
                              [createEdge md5 (n_id classNode) (''ref:class:'' @ baseName) ''extends''
                                 (unresolved_ref baseName)]);
          implementsEdges = map (\<lambda>implName.
                                   createEdge md5 (n_id classNode) (''ref:interface:'' @ implName)
                                     ''implements'' (unresolved_ref implName))
                                (c_implements classDecl);
          methods = map (ts_method md5 isJS filePath (n_id classNode) className) (c_methods classDecl);
          properties = map (ts_property md5 isJS filePath (n_id classNode) className)
                         (c_properties classDecl)
      in (classNode # concat (map fst methods) @ concat (map fst properties),
          createEdge md5 fileId (n_id classNode) ''contains'' [] # extendsEdges @ implementsEdges @
          concat (map snd methods) @ concat (map snd properties)))"

definition ts_interface ::
  "(string \<Rightarrow> string) \<Rightarrow> bool \<Rightarrow> string \<Rightarrow> string \<Rightarrow> TsInterface \<Rightarrow> ParseResult" where
  "ts_interface md5 isJS filePath fileId interfaceDecl =
     (let interfaceNode = ts_node md5 isJS filePath TInterface (i_name interfaceDecl)
                            (i_startLine interfaceDecl) (i_endLine interfaceDecl)
                            [(''isExported'', JBool (i_isExported interfaceDecl)),
                             (''properties'', JArr (map JStr (i_properties interfaceDecl))),
                             (''methods'', JArr (map JStr (i_methods interfaceDecl)))]
      in ([interfaceNode],
          createEdge md5 fileId (n_id interfaceNode) ''contains'' []
          # map (\<lambda>extName. createEdge md5 (n_id interfaceNode) (''ref:interface:'' @ extName)
                               ''extends'' (unresolved_ref extName))
                (i_extends interfaceDecl)))"

definition ts_function ::
  "(string \<Rightarrow> string) \<Rightarrow> bool \<Rightarrow> string \<Rightarrow> string \<Rightarrow> TsFunction \<Rightarrow> ParseResult" where
  "ts_function md5 isJS filePath fileId funcDecl =
     (let funcName = (case f_name funcDecl of
                        None \<Rightarrow> ''anonymous''
                      | Some n \<Rightarrow> if n = [] then ''anonymous'' else n);
          funcNode = ts_node md5 isJS filePath TFunction funcName
                       (f_startLine funcDecl) (f_endLine funcDecl)
                       [(''isExported'', JBool (f_isExported funcDecl)),
                        (''isAsync'', JBool (f_isAsync funcDecl)),
                        (''isGenerator'', JBool (f_isGenerator funcDecl)),
                        (''parameters'', JArr (map tsparam_json (f_parameters funcDecl))),
                        (''returnType'', JStr (f_returnType funcDecl))]
      in ([funcNode],
          createEdge md5 fileId (n_id funcNode) ''contains'' []
          # parseCallExpressions md5 (f_calls funcDecl) (n_id funcNode)))"

definition ts_declaration ::
  "(string \<Rightarrow> string) \<Rightarrow> bool \<Rightarrow> string \<Rightarrow> string \<Rightarrow> bool \<Rightarrow> TsVariableDeclaration \<Rightarrow> ParseResult" where
  "ts_declaration md5 isJS filePath fileId isExported decl =
     (case vd_initializer decl of
        None \<Rightarrow> ([], [])
      | Some initializer \<Rightarrow>
          if init_kind initializer = ArrowFunction \<or> init_kind initializer = FunctionExpression
          then
            (let funcNode = ts_node md5 isJS filePath TFunction (vd_name decl)
                              (vd_startLine decl) (vd_endLine decl)
                              [(''isExported'', JBool isExported),
                               (''isArrowFunction'', JBool (init_kind initializer = ArrowFunction)),
                               (''isAsync'', JBool (init_isAsync initializer))]
             in ([funcNode],
                 createEdge md5 fileId (n_id funcNode) ''contains'' []
                 # parseCallExpressions md5 (init_calls initializer) (n_id funcNode)))
          else ([], []))"

definition ts_import ::
  "(string \<Rightarrow> string) \<Rightarrow> bool \<Rightarrow> string \<Rightarrow> string \<Rightarrow> TsImportDeclaration \<Rightarrow> ParseResult" where
  "ts_import md5 isJS filePath fileId importDecl =
     (let moduleSpecifier = imp_moduleSpecifier importDecl;
          importNode = ts_node md5 isJS filePath TImport moduleSpecifier
                         (imp_startLine importDecl) (imp_endLine importDecl)
                         ([(''moduleSpecifier'', JStr moduleSpecifier),
                           (''namedImports'', JArr (map JStr (imp_namedImports importDecl)))] @
                          opt_field ''defaultImport'' (imp_defaultImport importDecl))
      in ([importNode], [createEdge md5 fileId (n_id importNode) ''contains'' []]))"

definition ts_export ::
  "(string \<Rightarrow> string) \<Rightarrow> bool \<Rightarrow> string \<Rightarrow> string \<Rightarrow> TsExportDeclaration \<Rightarrow> ParseResult" where
  "ts_export md5 isJS filePath fileId exportDecl =
     (let exportNode = ts_node md5 isJS filePath TExport
                         (case exp_moduleSpecifier exportDecl of
                            None \<Rightarrow> ''default''
                          | Some m \<Rightarrow> if m = [] then ''default'' else m)
                         (exp_startLine exportDecl) (exp_endLine exportDecl)
                         [(''namedExports'', JArr (map JStr (exp_namedExports exportDecl)))]
      in ([exportNode], [createEdge md5 fileId (n_id exportNode) ''contains'' []]))"

text \<open>
  \<open>TypeScriptParser.parse\<close>. \<open>project.createSourceFile\<close> of \<open>ts-morph\<close> is the parameter
  \<open>createSourceFile\<close>; it yields no tree where the library throws.
\<close>

definition TypeScriptParser_parse ::
  "(string \<Rightarrow> string) \<Rightarrow> (string \<Rightarrow> string \<Rightarrow> TsSourceFile option) \<Rightarrow> string \<Rightarrow> string \<Rightarrow> ParseResult" where
  "TypeScriptParser_parse md5 createSourceFile filePath content =
     (let isJS = (endsWith filePath ''.js'' \<or> endsWith filePath ''.jsx'' \<or>
                  endsWith filePath ''.mjs'' \<or> endsWith filePath ''.cjs'');
          language = (if isJS then ''javascript'' else ''typescript'')
      in case createSourceFile filePath content of
           None \<Rightarrow> ([], [])
         | Some sourceFile \<Rightarrow>
             (let fileNode = ts_node md5 isJS filePath TFile (fileBaseName filePath) 1
                               (sf_endLine sourceFile) [(''language'', JStr language)];
                  fileId = n_id fileNode;
                  parts =
                    map (ts_import md5 isJS filePath fileId) (sf_imports sourceFile) @
                    map (ts_export md5 isJS filePath fileId) (sf_exports sourceFile) @
                    map (ts_class md5 isJS filePath fileId) (sf_classes sourceFile) @
                    map (ts_interface md5 isJS filePath fileId) (sf_interfaces sourceFile) @
                    map (ts_function md5 isJS filePath fileId) (sf_functions sourceFile) @
                    concat (map (\<lambda>varStmt.
                                   map (ts_declaration md5 isJS filePath fileId (vs_isExported varStmt))
                                       (vs_declarations varStmt))
                                (sf_variableStatements sourceFile))
              in (fileNode # concat (map fst parts), concat (map snd parts))))"

section \<open>Python extractor (parsers/python.ts)\<close>

text \<open>
  The syntax node of \<open>tree-sitter\<close>: type, text, start and end row, and the children, each
  with the field name it is filed under in its parent, if any.
\<close>

datatype PyNode =
  PyNode (py_type: string) (py_text: string) (py_startRow: int) (py_endRow: int)
    (py_fields: "(string option \<times> PyNode) list")

definition py_children :: "PyNode \<Rightarrow> PyNode list" where
  "py_children n = map snd (py_fields n)"

definition childForFieldName :: "PyNode \<Rightarrow> string \<Rightarrow> PyNode option" where
  "childForFieldName n f = map_option snd (find (\<lambda>fc. fst fc = Some f) (py_fields n))"

record PyNamed =
  pn_name :: string
  pn_alias :: "string option"

definition named_json :: "PyNamed \<Rightarrow> json" where
  "named_json i = JObj ((''name'', JStr (pn_name i)) # opt_field ''alias'' (pn_alias i))"

definition aliased_import :: "PyNode \<Rightarrow> PyNamed list" where
  "aliased_import child =
     (case childForFieldName child ''name'' of
        None \<Rightarrow> []
      | Some nameNode \<Rightarrow>
          [\<lparr> pn_name = py_text nameNode,
              pn_alias = map_option py_text (childForFieldName child ''alias'') \<rparr>])"

definition python :: string where
  "python = ''python''"

definition parseImport_py :: "(string \<Rightarrow> string) \<Rightarrow> PyNode \<Rightarrow> string \<Rightarrow> string \<Rightarrow> ParseResult" where
  "parseImport_py md5 node filePath parentId =
     (let names = concat (map (\<lambda>child.
                    if py_type child = ''dotted_name''
                    then [\<lparr> pn_name = py_text child, pn_alias = None \<rparr>]
                    else if py_type child = ''aliased_import'' then aliased_import child
                    else [])
                    (py_children node));
          importNodes = map (\<lambda>imported.
                          createNode md5 python filePath TImport (pn_name imported)
                            (py_startRow node + 1) (py_endRow node + 1)
                            ((''type'', JStr ''module'') # opt_field ''alias'' (pn_alias imported)))
                          names
      in (importNodes,
          map (\<lambda>importNode. createEdge md5 parentId (n_id importNode) ''imports'' []) importNodes))"

text \<open>
  In \<open>parseFromImport\<close> the test \<open>child !== moduleNode\<close> is on the identity of the node; the
  children are told apart here by their position.
\<close>

definition field_index :: "PyNode \<Rightarrow> string \<Rightarrow> nat option" where
  "field_index n f =
     (case filter (\<lambda>i. fst (py_fields n ! i) = Some f) [0 ..< length (py_fields n)] of
        [] \<Rightarrow> None
      | i # rest \<Rightarrow> Some i)"

definition parseFromImport :: "(string \<Rightarrow> string) \<Rightarrow> PyNode \<Rightarrow> string \<Rightarrow> string \<Rightarrow> ParseResult" where
  "parseFromImport md5 node filePath parentId =
     (let moduleNode = childForFieldName node ''module_name'';
          moduleIndex = field_index node ''module_name'';
          moduleName = (case moduleNode of None \<Rightarrow> [] | Some m \<Rightarrow> py_text m);
          direct = concat (map (\<lambda>i.
                     (let child = py_children node ! i in
                      if py_type child = ''dotted_name'' \<and> Some i \<noteq> moduleIndex
                      then [\<lparr> pn_name = py_text child, pn_alias = None \<rparr>]
                      else if py_type child = ''aliased_import'' then aliased_import child
                      else if py_type child = ''import_prefix'' then []
                      else if py_type child = ''wildcard_import''
                      then [\<lparr> pn_name = ''*'', pn_alias = None \<rparr>]
                      else []))
                     [0 ..< length (py_children node)]);
          listed = (case find (\<lambda>c. py_type c = ''import_list'') (py_children node) of
                      None \<Rightarrow> []
                    | Some importList \<Rightarrow>
                        concat (map (\<lambda>child.
                          if py_type child = ''dotted_name'' \<or> py_type child = ''identifier''
                          then [\<lparr> pn_name = py_text child, pn_alias = None \<rparr>]
                          else if py_type child = ''aliased_import'' then aliased_import child
                          else [])
                          (py_children importList)));
          namedImports = direct @ listed;
          importNode = createNode md5 python filePath TImport
                         (if moduleName = [] then ''.'' else moduleName)
                         (py_startRow node + 1) (py_endRow node + 1)
                         [(''type'', JStr ''from''),
                          (''namedImports'', JArr (map named_json namedImports)),
                          (''isRelative'', JBool (startsWith moduleName ''.'' \<or> moduleNode = None))]
      in ([importNode], [createEdge md5 parentId (n_id importNode) ''imports'' []]))"

definition extractDocstring :: "PyNode \<Rightarrow> string option" where
  "extractDocstring node =
     (case childForFieldName node ''body'' of
        None \<Rightarrow> None
      | Some body \<Rightarrow>
          (case find (\<lambda>c. py_type c = ''expression_statement'') (py_children body) of
             None \<Rightarrow> None
           | Some firstChild \<Rightarrow>
               (case find (\<lambda>c. py_type c = ''string'') (py_children firstChild) of
                  None \<Rightarrow> None
                | Some stringNode \<Rightarrow>
                    (let docstring = py_text stringNode;
                         stripped =
                           (if startsWith docstring [CHR 0x22, CHR 0x22, CHR 0x22] \<or>
                               startsWith docstring [CHR 0x27, CHR 0x27, CHR 0x27]
                            then slice docstring 3 (- 3)
                            else if startsWith docstring [CHR 0x22] \<or> startsWith docstring [CHR 0x27]
                            then slice docstring 1 (- 1)
                            else docstring)
                     in Some (trim stripped)))))"

definition extractDecoratorName_call :: "PyNode \<Rightarrow> string option" where
  "extractDecoratorName_call child =
     (case childForFieldName child ''function'' of
        None \<Rightarrow> None
      | Some funcNode \<Rightarrow>
          if py_type funcNode = ''identifier'' then Some (py_text funcNode)
          else if py_type funcNode = ''attribute''
          then Some (last (split (py_text funcNode) CHR ''.''))
          else None)"

fun extractDecoratorName_loop :: "PyNode list \<Rightarrow> string option" where
  "extractDecoratorName_loop [] = None"
| "extractDecoratorName_loop (child # rest) =
     (if py_type child = ''identifier'' then Some (py_text child)
      else if py_type child = ''attribute'' then Some (last (split (py_text child) CHR ''.''))
      else if py_type child = ''call''
      then (case extractDecoratorName_call child of
              Some name \<Rightarrow> Some name
            | None \<Rightarrow> extractDecoratorName_loop rest)
      else extractDecoratorName_loop rest)"

definition extractDecoratorName :: "PyNode \<Rightarrow> string option" where
  "extractDecoratorName decorator = extractDecoratorName_loop (py_children decorator)"

record PyParam =
  pp_name :: string
  pp_type :: "string option"
  pp_default :: "string option"

definition pyparam_json :: "PyParam \<Rightarrow> json" where
  "pyparam_json p =
     JObj ((''name'', JStr (pp_name p)) # opt_field ''type'' (pp_type p) @
           opt_field ''default'' (pp_default p))"

definition named_param :: "string option \<Rightarrow> string option \<Rightarrow> string option \<Rightarrow> PyParam list" where
  "named_param name type dflt =
     (case name of
        None \<Rightarrow> []
      | Some n \<Rightarrow> if n \<noteq> [] \<and> n \<noteq> ''self'' \<and> n \<noteq> ''cls''
                  then [\<lparr> pp_name = n, pp_type = type, pp_default = dflt \<rparr>] else [])"

definition parseParameters :: "PyNode \<Rightarrow> PyParam list" where
  "parseParameters funcNode =
     (case childForFieldName funcNode ''parameters'' of
        None \<Rightarrow> []
      | Some parameters \<Rightarrow>
          concat (map (\<lambda>child.
            if py_type child = ''identifier''
            then (if py_text child \<noteq> ''self'' \<and> py_text child \<noteq> ''cls''
                  then [\<lparr> pp_name = py_text child, pp_type = None, pp_default = None \<rparr>] else [])
            else if py_type child = ''typed_parameter''
            then named_param
                   (map_option py_text (find (\<lambda>c. py_type c = ''identifier'') (py_children child)))
                   (map_option py_text (childForFieldName child ''type'')) None
            else if py_type child = ''default_parameter''
            then named_param (map_option py_text (childForFieldName child ''name'')) None
                   (map_option py_text (childForFieldName child ''value''))
            else if py_type child = ''typed_default_parameter''
            then named_param (map_option py_text (childForFieldName child ''name''))
                   (map_option py_text (childForFieldName child ''type''))
                   (map_option py_text (childForFieldName child ''value''))
            else if py_type child = ''list_splat_pattern'' \<or> py_type child = ''dictionary_splat_pattern''
            then (case find (\<lambda>c. py_type c = ''identifier'') (py_children child) of
                    None \<Rightarrow> []
                  | Some nameNode \<Rightarrow>
                      [\<lparr> pp_name = (if py_type child = ''list_splat_pattern'' then ''*'' else ''**'')
                                    @ py_text nameNode,
                          pp_type = None, pp_default = None \<rparr>])
            else [])
            (py_children parameters)))"

definition builtins :: "string list" where
  "builtins =
     [''print'', ''len'', ''range'', ''str'', ''int'', ''float'', ''list'', ''dict'',
      ''set'', ''tuple'', ''type'', ''isinstance'', ''hasattr'', ''getattr'',
      ''setattr'', ''open'', ''super'', ''enumerate'', ''zip'', ''map'', ''filter'',
      ''sorted'', ''reversed'', ''any'', ''all'', ''min'', ''max'', ''sum'', ''abs'',
      ''round'', ''format'', ''repr'', ''id'', ''hash'', ''callable'', ''dir'',
      ''vars'', ''globals'', ''locals'', ''input'', ''eval'', ''exec'', ''compile'']"

text \<open>
  \<open>traverse\<close> inside \<open>parseFunctionCalls\<close>, with the set \<open>seenCalls\<close> kept as the list of
  its members and the edges pushed so far.
\<close>

fun py_calls_traverse ::
  "(string \<Rightarrow> string) \<Rightarrow> string \<Rightarrow> PyNode \<Rightarrow> string list \<times> GraphEdge list \<Rightarrow> string list \<times> GraphEdge list" where
  "py_calls_traverse md5 funcNodeId (PyNode ty tx sr er fs) acc =
     (let n = PyNode ty tx sr er fs;
          acc1 =
            (if ty = ''call''
             then (case childForFieldName n ''function'' of
                     None \<Rightarrow> acc
                   | Some funcPart \<Rightarrow>
                       (let callName = py_text funcPart;
                            baseName = hd (split callName CHR ''.'')
                        in if baseName \<notin> set builtins \<and> callName \<notin> set (fst acc)
                           then (fst acc @ [callName],
                                 snd acc @ [createEdge md5 funcNodeId (''ref:function:'' @ callName)
                                              ''calls''
                                              [(''unresolved'', JBool True),
                                               (''targetName'', JStr callName),
                                               (''line'', JNum (sr + 1))]])
                           else acc))
             else acc)
      in if ty \<noteq> ''function_definition'' \<and> ty \<noteq> ''class_definition''
         then foldl (\<lambda>a fc. py_calls_traverse md5 funcNodeId (snd fc) a) acc1 fs
         else acc1)"

definition parseFunctionCalls :: "(string \<Rightarrow> string) \<Rightarrow> PyNode \<Rightarrow> string \<Rightarrow> GraphEdge list" where
  "parseFunctionCalls md5 node funcNodeId = snd (py_calls_traverse md5 funcNodeId node ([], []))"

definition parseFunction ::
  "(string \<Rightarrow> string) \<Rightarrow> PyNode \<Rightarrow> string \<Rightarrow> string \<Rightarrow> (string \<times> string) option \<Rightarrow> string list \<Rightarrow> ParseResult" where
  "parseFunction md5 node filePath parentId currentClass decorators =
     (let funcName = (case childForFieldName node ''name'' of
                        None \<Rightarrow> ''anonymous''
                      | Some nameNode \<Rightarrow>
                          if py_text nameNode = [] then ''anonymous'' else py_text nameNode);
          parameters = parseParameters node;
          returnType = map_option py_text (childForFieldName node ''return_type'');
          isMethod = (currentClass \<noteq> None);
          nodeType = (if isMethod then TMethod else TFunction);
          nodeName = (case currentClass of
                        Some (className, classId) \<Rightarrow> className @ ''.'' @ funcName
                      | None \<Rightarrow> funcName);
          isAsync = (\<exists>c \<in> set (py_children node). py_type c = ''async'');
          funcNode = createNode md5 python filePath nodeType nodeName
                       (py_startRow node + 1) (py_endRow node + 1)
                       ([(''isAsync'', JBool isAsync),
                         (''parameters'', JArr (map pyparam_json parameters))] @
                        opt_field ''returnType'' returnType @
                        [(''decorators'', JArr (map JStr decorators)),
                         (''isStatic'', JBool (''staticmethod'' \<in> set decorators)),
                         (''isClassMethod'', JBool (''classmethod'' \<in> set decorators)),
                         (''isProperty'', JBool (''property'' \<in> set decorators)),
                         (''isPrivate'', JBool (startsWith funcName ''_'' \<and> \<not> startsWith funcName ''__'')),
                         (''isDunder'', JBool (startsWith funcName ''__'' \<and> endsWith funcName ''__'')),
                         (''isAbstract'', JBool (''abstractmethod'' \<in> set decorators)),
                         (''docstring'', json_opt (extractDocstring node))]);
          containsEdge = (case currentClass of
                            Some (className, classId) \<Rightarrow>
                              createEdge md5 classId (n_id funcNode) ''contains'' []
                          | None \<Rightarrow> createEdge md5 parentId (n_id funcNode) ''contains'' []);
          callEdges = (case childForFieldName node ''body'' of
                         None \<Rightarrow> []
                       | Some body \<Rightarrow> parseFunctionCalls md5 body (n_id funcNode))
      in ([funcNode], containsEdge # callEdges))"

text \<open>\<open>/^[A-Z][A-Z0-9_]*$/.test(varName)\<close>\<close>

definition is_constant_name :: "string \<Rightarrow> bool" where
  "is_constant_name varName =
     (case varName of
        [] \<Rightarrow> False
      | c # cs \<Rightarrow> c \<in> set ''ABCDEFGHIJKLMNOPQRSTUVWXYZ'' \<and>
                  (\<forall>d \<in> set cs. d \<in> set ''ABCDEFGHIJKLMNOPQRSTUVWXYZ0123456789_''))"

definition parseAssignment :: "(string \<Rightarrow> string) \<Rightarrow> PyNode \<Rightarrow> string \<Rightarrow> string \<Rightarrow> ParseResult" where
  "parseAssignment md5 node filePath parentId =
     (case childForFieldName node ''left'' of
        None \<Rightarrow> ([], [])
      | Some leftNode \<Rightarrow>
          if py_type leftNode \<noteq> ''identifier'' then ([], [])
          else
            (let varName = py_text leftNode in
             if \<not> is_constant_name varName then ([], [])
             else
               (let varType = map_option py_text (childForFieldName node ''type'');
                    varNode = createNode md5 python filePath TVariable varName
                                (py_startRow node + 1) (py_endRow node + 1)
                                ((''isConstant'', JBool True) # opt_field ''type'' varType)
                in ([varNode], [createEdge md5 parentId (n_id varNode) ''contains'' []]))))"

definition class_bases :: "PyNode \<Rightarrow> string list" where
  "class_bases node =
     (case childForFieldName node ''superclasses'' of
        None \<Rightarrow> []
      | Some argumentList \<Rightarrow>
          concat (map (\<lambda>child.
            if py_type child = ''identifier'' \<or> py_type child = ''attribute'' then [py_text child]
            else if py_type child = ''argument_list''
            then concat (map (\<lambda>arg. if py_type arg = ''identifier'' \<or> py_type arg = ''attribute''
                                      then [py_text arg] else [])
                             (py_children child))
            else [])
            (py_children argumentList)))"

text \<open>The class node of \<open>parseClass\<close> and its inheritance edges, before the body is walked.\<close>

definition class_head ::
  "(string \<Rightarrow> string) \<Rightarrow> PyNode \<Rightarrow> string \<Rightarrow> string \<Rightarrow> string list \<Rightarrow> string \<times> GraphNode \<times> GraphEdge list" where
  "class_head md5 node filePath parentId decorators =
     (let className = (case childForFieldName node ''name'' of
                         None \<Rightarrow> ''AnonymousClass''
                       | Some nameNode \<Rightarrow>
                           if py_text nameNode = [] then ''AnonymousClass'' else py_text nameNode);
          bases = class_bases node;
          classNode = createNode md5 python filePath TClass className
                        (py_startRow node + 1) (py_endRow node + 1)
                        [(''bases'', JArr (map JStr bases)),
                         (''decorators'', JArr (map JStr decorators)),
                         (''isAbstract'', JBool (''abstractmethod'' \<in> set decorators \<or>
                                                 ''ABC'' \<in> set decorators \<or>
                                                 ''ABC'' \<in> set bases \<or> ''abc.ABC'' \<in> set bases)),
                         (''docstring'', json_opt (extractDocstring node))];
          edges = createEdge md5 parentId (n_id classNode) ''contains'' []
                  # concat (map (\<lambda>base. if base \<noteq> [] \<and> base \<noteq> ''object''
                                          then [createEdge md5 (n_id classNode) (''ref:class:'' @ base)
                                                  ''extends'' (unresolved_ref base)]
                                          else [])
                                bases)
      in (className, classNode, edges))"

definition decorator_names :: "PyNode \<Rightarrow> string list" where
  "decorator_names node =
     concat (map (\<lambda>child.
       if py_type child = ''decorator''
       then (case extractDecoratorName child of
               None \<Rightarrow> []
             | Some decoratorName \<Rightarrow> if decoratorName \<noteq> [] then [decoratorName] else [])
       else [])
       (py_children node))"

function parseNode ::
    "(string \<Rightarrow> string) \<Rightarrow> string option \<Rightarrow> PyNode \<Rightarrow> string \<Rightarrow> string \<Rightarrow> (string \<times> string) option \<Rightarrow> ParseResult"
  and parseClass ::
    "(string \<Rightarrow> string) \<Rightarrow> PyNode \<Rightarrow> string \<Rightarrow> string \<Rightarrow> string list \<Rightarrow> ParseResult"
  and parseDecoratedDefinition ::
    "(string \<Rightarrow> string) \<Rightarrow> PyNode \<Rightarrow> string \<Rightarrow> string \<Rightarrow> (string \<times> string) option \<Rightarrow> ParseResult"
where
  "parseNode md5 parentType (PyNode ty tx sr er fs) filePath parentId currentClass =
     (let node = PyNode ty tx sr er fs in
      if ty = ''import_statement'' then parseImport_py md5 node filePath parentId
      else if ty = ''import_from_statement'' then parseFromImport md5 node filePath parentId
      else if ty = ''class_definition'' then parseClass md5 node filePath parentId []
      else if ty = ''function_definition''
        then parseFunction md5 node filePath parentId currentClass []
      else if ty = ''decorated_definition''
        then parseDecoratedDefinition md5 node filePath parentId currentClass
      else if ty = ''assignment''
        then (if parentType = Some ''module'' then parseAssignment md5 node filePath parentId
              else ([], []))
      else
        (let parts = map (\<lambda>child. parseNode md5 (Some ty) child filePath parentId currentClass)
                         (map snd fs)
         in (concat (map fst parts), concat (map snd parts))))"
| "parseClass md5 (PyNode ty tx sr er fs) filePath parentId decorators =
     (let node = PyNode ty tx sr er fs;
          (className, classNode, edges) = class_head md5 node filePath parentId decorators;
          parts = (case childForFieldName node ''body'' of
                     None \<Rightarrow> []
                   | Some body \<Rightarrow>
                       map (\<lambda>child. parseNode md5 (Some (py_type body)) child filePath (n_id classNode)
                                       (Some (className, n_id classNode)))
                           (py_children body))
      in (classNode # concat (map fst parts), edges @ concat (map snd parts)))"
| "parseDecoratedDefinition md5 (PyNode ty tx sr er fs) filePath parentId currentClass =
     (let node = PyNode ty tx sr er fs;
          decorators = decorator_names node in
      case childForFieldName node ''definition'' of
        None \<Rightarrow> ([], [])
      | Some definition \<Rightarrow>
          if py_type definition = ''function_definition''
          then parseFunction md5 definition filePath parentId currentClass decorators
          else if py_type definition = ''class_definition''
          then parseClass md5 definition filePath parentId decorators
          else ([], []))"
  by pat_completeness auto

termination
proof -
  have field_smaller: "size (snd fc) < size n" if "fc \<in> set (py_fields n)" for fc and n :: PyNode
  proof (cases n)
    case (PyNode ty tx sr er fs)
    with that have "fc \<in> set fs" by simp
    then have "size (snd fc) < Suc (size_list (size_prod (\<lambda>x. 0) size) fs)"
      by (induction fs) (auto simp: less_Suc_eq_le)
    then show ?thesis using PyNode by simp
  qed
  have childForFieldName_smaller: "size c < size n" if "childForFieldName n f = Some c" for n f c
  proof -
    from that obtain fc where fc: "find (\<lambda>fc. fst fc = Some f) (py_fields n) = Some fc" "snd fc = c"
      by (auto simp: childForFieldName_def)
    then have "fc \<in> set (py_fields n)"
      by (auto simp: find_Some_iff)
    with fc show ?thesis using field_smaller by blast
  qed
  show ?thesis
  proof (relation "measure (\<lambda>x. case x of
            Inl (md5, pt, n, fp, pid, cc) \<Rightarrow> 2 * size n + 1
          | Inr (Inl (md5, n, fp, pid, ds)) \<Rightarrow> 2 * size n
          | Inr (Inr (md5, n, fp, pid, cc)) \<Rightarrow> 2 * size n)", goal_cases)
    case 1
    then show ?case by simp
  next
    case (2 md5 parentType ty tx sr er fs filePath parentId currentClass node)
    then show ?case by simp
  next
    case (3 md5 parentType ty tx sr er fs filePath parentId currentClass node)
    then show ?case by simp
  next
    case (4 md5 parentType ty tx sr er fs filePath parentId currentClass node child)
    then obtain f where "(f, child) \<in> set fs" by auto
    then have "size child < size (PyNode ty tx sr er fs)"
      using field_smaller [of "(f, child)" "PyNode ty tx sr er fs"] by simp
    then show ?case by simp
  next
    case (5 md5 ty tx sr er fs filePath parentId decorators node x className y classNode edges body child)
    have "size body < size node" using 5 childForFieldName_smaller by blast
    moreover have "size child < size body"
      using 5 field_smaller by (auto simp: py_children_def)
    ultimately show ?case using 5 by simp
  next
    case (6 md5 ty tx sr er fs filePath parentId currentClass node decorators defn)
    then have "size defn < size node" using childForFieldName_smaller by blast
    then show ?case using 6 by simp
  qed
qed

declare parseNode.simps [simp del] parseClass.simps [simp del] parseDecoratedDefinition.simps [simp del]

text \<open>
  \<open>PythonParser.parse\<close>. The parser of \<open>tree-sitter\<close> is the parameter \<open>tree_sitter\<close>,
  which gives the root node of the tree for a content.
\<close>

definition PythonParser_parse ::
  "(string \<Rightarrow> string) \<Rightarrow> (string \<Rightarrow> PyNode) \<Rightarrow> string \<Rightarrow> string \<Rightarrow> ParseResult" where
  "PythonParser_parse md5 tree_sitter filePath content =
     (let rootNode = tree_sitter content;
          fileNode = createNode md5 python filePath TFile (fileBaseName filePath) 1
                       (py_endRow rootNode + 1) [];
          rest = parseNode md5 None rootNode filePath (n_id fileNode) None
      in (fileNode # fst rest, snd rest))"

section \<open>Extractor output\<close>

text \<open>The call name that an edge carries in its metadata.\<close>

definition edge_targetName :: "GraphEdge \<Rightarrow> json option" where
  "edge_targetName e = map_of (e_metadata e) ''targetName''"

text \<open>The state of a call traversal: one edge for each seen name, in order, no name twice.\<close>

definition calls_inv :: "string list \<times> GraphEdge list \<Rightarrow> bool" where
  "calls_inv acc = (map edge_targetName (snd acc) = map (\<lambda>c. Some (JStr c)) (fst acc) \<and> distinct (fst acc))"

text \<open>
  A node of one of the node types whose id is the hash of its own file path, type, name and
  first line, and an edge whose id is the hash of its own source, target and type; a result
  all of whose nodes and edges are so.
\<close>

definition node_derived :: "(string \<Rightarrow> string) \<Rightarrow> string \<Rightarrow> GraphNode \<Rightarrow> bool" where
  "node_derived md5 filePath n =
     ((\<exists>t. n_type n = nodeTypeStr t) \<and>
      n_id n = generateNodeId md5 filePath (n_type n) (n_name n) (n_lineStart n) \<and>
      n_filePath n = filePath)"

definition edge_derived :: "(string \<Rightarrow> string) \<Rightarrow> GraphEdge \<Rightarrow> bool" where
  "edge_derived md5 e = (e_id e = generateEdgeId md5 (e_sourceId e) (e_targetId e) (e_type e))"

definition derived :: "(string \<Rightarrow> string) \<Rightarrow> string \<Rightarrow> ParseResult \<Rightarrow> bool" where
  "derived md5 filePath r =
     ((\<forall>n \<in> set (fst r). node_derived md5 filePath n) \<and> (\<forall>e \<in> set (snd r). edge_derived md5 e))"

text \<open>
  \<open>ids_formed\<close>: every node id of a result is the type of the node, an underscore and 12
  hexadecimal digits, every edge id is \<open>edge_\<close> and 12 hexadecimal digits, and none of them
  starts with \<open>ref:\<close> or passes the \<open>LIKE 'ref:%'\<close> test of the store.
\<close>

definition ids_formed :: "ParseResult \<Rightarrow> bool" where
  "ids_formed r =
     ((\<forall>n \<in> set (fst r).
         (\<exists>h. n_id n = n_type n @ ''_'' @ h \<and> length h = 12 \<and> set h \<subseteq> hexdigits) \<and>
         \<not> startsWith (n_id n) ''ref:'' \<and> \<not> sql_like_ref (n_id n)) \<and>
      (\<forall>e \<in> set (snd r).
         (\<exists>h. e_id e = ''edge_'' @ h \<and> length h = 12 \<and> set h \<subseteq> hexdigits) \<and>
         \<not> startsWith (e_id e) ''ref:'' \<and> \<not> sql_like_ref (e_id e)))"

text \<open>
  \<open>import_linked\<close>: every import node of a result is the target of an edge of the result
  that has the given type and the given source.
\<close>

definition no_imports :: "ParseResult \<Rightarrow> bool" where
  "no_imports r = (\<forall>n \<in> set (fst r). n_type n \<noteq> ''import'')"

definition import_linked :: "string \<Rightarrow> string \<Rightarrow> ParseResult \<Rightarrow> bool" where
  "import_linked edgeType sourceId r =
     (\<forall>n \<in> set (fst r). n_type n = ''import'' \<longrightarrow>
        (\<exists>e \<in> set (snd r). e_type e = edgeType \<and> e_sourceId e = sourceId \<and> e_targetId e = n_id n))"

text \<open>The traversal states hold derived \<open>calls\<close> edges only.\<close>

definition calls_edges :: "(string \<Rightarrow> string) \<Rightarrow> string list \<times> GraphEdge list \<Rightarrow> bool" where
  "calls_edges md5 acc = (\<forall>e \<in> set (snd acc). edge_derived md5 e \<and> e_type e = ''calls'')"

text \<open>
  \<open>py_linked\<close>: every import node of a result is the target of an \<open>imports\<close> edge of the
  result whose source is the given parent or a class node of the result.
\<close>

definition py_linked :: "string \<Rightarrow> ParseResult \<Rightarrow> bool" where
  "py_linked parentId r =
     (\<forall>n \<in> set (fst r). n_type n = ''import'' \<longrightarrow>
        (\<exists>e \<in> set (snd r). e_type e = ''imports'' \<and> e_targetId e = n_id n \<and>
           (e_sourceId e = parentId \<or>
            (\<exists>c \<in> set (fst r). n_type c = ''class'' \<and> e_sourceId e = n_id c))))"

section \<open>Example states\<close>

definition node_greet :: GraphNode where
  "node_greet = \<lparr> n_id = ''method_0a1b2c3d4e5f'', n_type = ''method'', n_name = ''A.greet'',
     n_filePath = ''src/a.ts'', n_lineStart = 1, n_lineEnd = 1, n_language = ''typescript'',
     n_metadata = [] \<rparr>"

definition node_run :: GraphNode where
  "node_run = \<lparr> n_id = ''function_111111111111'', n_type = ''function'', n_name = ''run'',
     n_filePath = ''src/b.ts'', n_lineStart = 3, n_lineEnd = 5, n_language = ''typescript'',
     n_metadata = [] \<rparr>"

definition edge_run_greet :: GraphEdge where
  "edge_run_greet = \<lparr> e_id = ''edge_aaaaaaaaaaaa'', e_sourceId = ''function_111111111111'',
     e_targetId = ''method_0a1b2c3d4e5f'', e_type = ''calls'',
     e_metadata = [(''unresolved'', JBool False)] \<rparr>"

definition edge_run_other :: GraphEdge where
  "edge_run_other = \<lparr> e_id = ''edge_bbbbbbbbbbbb'', e_sourceId = ''function_111111111111'',
     e_targetId = ''ref:function:other'', e_type = ''calls'',
     e_metadata = [(''unresolved'', JBool True), (''targetName'', JStr ''other'')] \<rparr>"

definition db_two_files :: GraphDatabase where
  "db_two_files = \<lparr> db_nodes = [node_greet, node_run], db_edges = [edge_run_greet, edge_run_other] \<rparr>"

text \<open>
  A store that holds one file with 16384 functions, each with an id of its own, and a call
  from the first to the second.
\<close>

definition big_file_node :: "nat \<Rightarrow> GraphNode" where
  "big_file_node i = \<lparr> n_id = ''function_'' @ show_nat i, n_type = ''function'',
     n_name = ''f'' @ show_nat i, n_filePath = ''src/big.ts'', n_lineStart = int i + 1,
     n_lineEnd = int i + 1, n_language = ''typescript'', n_metadata = [] \<rparr>"

definition edge_big_call :: GraphEdge where
  "edge_big_call = \<lparr> e_id = ''edge_dddddddddddd'', e_sourceId = ''function_0'',
     e_targetId = ''function_1'', e_type = ''calls'', e_metadata = [] \<rparr>"

definition db_big_file :: GraphDatabase where
  "db_big_file = \<lparr> db_nodes = map big_file_node [0 ..< 16384], db_edges = [edge_big_call] \<rparr>"

definition edge_upper_ref :: GraphEdge where
  "edge_upper_ref = \<lparr> e_id = ''edge_cccccccccccc'', e_sourceId = ''function_111111111111'',
     e_targetId = ''REF:function:other'', e_type = ''calls'', e_metadata = [] \<rparr>"

definition db_upper_ref :: GraphDatabase where
  "db_upper_ref = \<lparr> db_nodes = [node_run], db_edges = [edge_upper_ref] \<rparr>"

definition small_budget_call :: EditingInput where
  "small_budget_call = \<lparr> ei_maxTokens = Some 5, ei_task = None,
     ei_targetContent = replicate 100 CHR ''a'', ei_importSymbols = [], ei_incoming = [],
     ei_outgoing = [], ei_taskWordNodes = [] \<rparr>"

definition hex_md5 :: "string \<Rightarrow> string" where
  "hex_md5 s = ''d41d8cd98f00b204e9800998ecf8427e''"

definition mk_node :: "string \<Rightarrow> string \<Rightarrow> string \<Rightarrow> string \<Rightarrow> GraphNode" where
  "mk_node i t n f = \<lparr> n_id = i, n_type = t, n_name = n, n_filePath = f, n_lineStart = 1,
     n_lineEnd = 2, n_language = ''typescript'', n_metadata = [] \<rparr>"

definition mk_call :: "string \<Rightarrow> string \<Rightarrow> string \<Rightarrow> GraphEdge" where
  "mk_call i src tn = \<lparr> e_id = i, e_sourceId = src, e_targetId = ''ref:function:'' @ tn,
     e_type = ''calls'',
     e_metadata = [(''unresolved'', JBool True), (''targetName'', JStr tn), (''line'', JNum 3)] \<rparr>"

definition node_main :: GraphNode where
  "node_main = mk_node ''function_cccccccccccc'' ''function'' ''main'' ''src/main.ts''"

definition edge_helper :: GraphEdge where
  "edge_helper = mk_call ''edge_111111111111'' ''function_cccccccccccc'' ''helper''"

definition edge_util :: GraphEdge where
  "edge_util = mk_call ''edge_222222222222'' ''function_cccccccccccc'' ''util''"

definition db_helpers :: GraphDatabase where
  "db_helpers =
     \<lparr> db_nodes = [mk_node ''function_aaaaaaaaaaaa'' ''function'' ''helper'' ''lib/x.ts'',
                   mk_node ''function_bbbbbbbbbbbb'' ''function'' ''helper'' ''lib/y.ts'',
                   node_main,
                   mk_node ''function_dddddddddddd'' ''function'' ''util'' ''src/main.ts'',
                   mk_node ''function_eeeeeeeeeeee'' ''function'' ''util'' ''lib/y.ts''],
       db_edges = [edge_helper, edge_util,
                   mk_call ''edge_333333333333'' ''function_cccccccccccc'' ''nothing''] \<rparr>"

definition db_placeholder_id :: GraphDatabase where
  "db_placeholder_id =
     \<lparr> db_nodes = [mk_node ''ref:x'' ''function'' ''f'' ''lib/x.ts'', node_main],
       db_edges = [mk_call ''edge_444444444444'' ''function_cccccccccccc'' ''f''] \<rparr>"

subsection \<open>Example syntax trees\<close>

text \<open>
  Trees of the shape \<open>java-parser\<close> builds: a rule node has a name and children filed under
  the names of the rules and token types, a token has an image and no name. \<open>unnamed_tok\<close>
  builds such a token, with the empty string for the absent name. \<open>tok\<close> gives a token its
  token type as name, which is what the tests \<open>n.name === 'Identifier'\<close> of the source
  expect. The token constructor is a parameter of the larger trees.
\<close>

definition tok :: "string \<Rightarrow> string \<Rightarrow> JavaNode" where
  "tok tokenType img = JavaNode tokenType None (Some img) (Some 1) (Some 1)"

definition unnamed_tok :: "string \<Rightarrow> string \<Rightarrow> JavaNode" where
  "unnamed_tok tokenType img = JavaNode [] None (Some img) (Some 1) (Some 1)"

definition cst_node :: "string \<Rightarrow> (string \<times> JavaNode list) list \<Rightarrow> JavaNode" where
  "cst_node name kv = JavaNode name (Some kv) None (Some 1) (Some 1)"

definition element_value :: "(string \<times> JavaNode list) list \<Rightarrow> JavaNode" where
  "element_value inner =
     cst_node ''elementValue'' [(''conditionalExpression'',
       [cst_node ''conditionalExpression'' [(''binaryExpression'',
         [cst_node ''binaryExpression'' [(''unaryExpression'',
           [cst_node ''unaryExpression'' [(''primary'',
             [cst_node ''primary'' [(''primaryPrefix'',
               [cst_node ''primaryPrefix'' inner])]])]])]])]])]"

definition element_pair ::
  "(string \<Rightarrow> string \<Rightarrow> JavaNode) \<Rightarrow> string \<Rightarrow> (string \<times> JavaNode list) list \<Rightarrow> JavaNode" where
  "element_pair tk key inner =
     cst_node ''elementValuePair''
       [(''Identifier'', [tk ''Identifier'' key]), (''Equals'', [tk ''Equals'' ''='']),
        (''elementValue'', [element_value inner])]"

text \<open>The annotation \<open>@RequestMapping(value = "/users", method = RequestMethod.POST)\<close>.\<close>

definition request_mapping_post :: "(string \<Rightarrow> string \<Rightarrow> JavaNode) \<Rightarrow> JavaNode" where
  "request_mapping_post tk =
     cst_node ''annotation''
       [(''At'', [tk ''At'' ''@'']),
        (''typeName'', [cst_node ''typeName'' [(''Identifier'', [tk ''Identifier'' ''RequestMapping''])]]),
        (''LBrace'', [tk ''LBrace'' ''('']),
        (''elementValuePairList'',
           [cst_node ''elementValuePairList''
              [(''elementValuePair'',
                  [element_pair tk ''value''
                     [(''literal'', [cst_node ''literal''
                         [(''StringLiteral'',
                             [tk ''StringLiteral'' ([CHR 0x22] @ ''/users'' @ [CHR 0x22])])]])],
                   element_pair tk ''method''
                     [(''fqnOrRefType'', [cst_node ''fqnOrRefType''
                         [(''fqnOrRefTypePartFirst'', [cst_node ''fqnOrRefTypePartFirst''
                             [(''fqnOrRefTypePartCommon'', [cst_node ''fqnOrRefTypePartCommon''
                                 [(''Identifier'', [tk ''Identifier'' ''RequestMethod''])]])]]),
                          (''Dot'', [tk ''Dot'' ''.'']),
                          (''fqnOrRefTypePartRest'', [cst_node ''fqnOrRefTypePartRest''
                             [(''fqnOrRefTypePartCommon'', [cst_node ''fqnOrRefTypePartCommon''
                                 [(''Identifier'', [tk ''Identifier'' ''POST''])]])]])]])]]),
               (''Comma'', [tk ''Comma'' '','']) ]]),
        (''RBrace'', [tk ''RBrace'' '')''])]"

text \<open>The method \<open>@RequestMapping(...) public void create() {}\<close>.\<close>

definition method_create :: "(string \<Rightarrow> string \<Rightarrow> JavaNode) \<Rightarrow> JavaNode" where
  "method_create tk =
     cst_node ''methodDeclaration''
       [(''methodModifier'',
           [cst_node ''methodModifier'' [(''annotation'', [request_mapping_post tk])],
            cst_node ''methodModifier'' [(''Public'', [tk ''Public'' ''public''])]]),
        (''methodHeader'',
           [cst_node ''methodHeader''
              [(''result'', [cst_node ''result'' [(''Void'', [tk ''Void'' ''void''])]]),
               (''methodDeclarator'',
                  [cst_node ''methodDeclarator''
                     [(''Identifier'', [tk ''Identifier'' ''create'']),
                      (''LBrace'', [tk ''LBrace'' ''('']),
                      (''RBrace'', [tk ''RBrace'' '')''])]])]]),
        (''methodBody'',
           [cst_node ''methodBody''
              [(''block'', [cst_node ''block''
                  [(''LCurly'', [tk ''LCurly'' ''{'']), (''RCurly'', [tk ''RCurly'' ''}''])]])]])]"

text \<open>The \<open>httpMethod\<close> entries of the metadata of the nodes of a result.\<close>

definition httpMethods :: "ParseResult \<Rightarrow> json option list" where
  "httpMethods r = map (\<lambda>n. map_of (n_metadata n) ''httpMethod'') (fst r)"

text \<open>
  The tree of the compilation unit \<open>import a.B; class C {}\<close>, with tokens as the library
  builds them.
\<close>

definition import_class_unit :: JavaNode where
  "import_class_unit =
     cst_node ''compilationUnit''
       [(''ordinaryCompilationUnit'',
           [cst_node ''ordinaryCompilationUnit''
              [(''importDeclaration'',
                  [cst_node ''importDeclaration''
                     [(''Import'', [unnamed_tok ''Import'' ''import'']),
                      (''packageOrTypeName'',
                         [cst_node ''packageOrTypeName''
                            [(''Identifier'', [unnamed_tok ''Identifier'' ''a'',
                                               unnamed_tok ''Identifier'' ''B'']),
                             (''Dot'', [unnamed_tok ''Dot'' ''.''])]]),
                      (''Semicolon'', [unnamed_tok ''Semicolon'' '';''])]]),
               (''typeDeclaration'',
                  [cst_node ''typeDeclaration''
                     [(''classDeclaration'',
                         [cst_node ''classDeclaration''
                            [(''normalClassDeclaration'',
                                [cst_node ''normalClassDeclaration''
                                   [(''Class'', [unnamed_tok ''Class'' ''class'']),
                                    (''typeIdentifier'',
                                       [cst_node ''typeIdentifier''
                                          [(''Identifier'', [unnamed_tok ''Identifier'' ''C''])]]),
                                    (''classBody'',
                                       [cst_node ''classBody''
                                          [(''LCurly'', [unnamed_tok ''LCurly'' ''{'']),
                                           (''RCurly'', [unnamed_tok ''RCurly'' ''}''])]])]])]])]])]]),
        (''EOF'', [unnamed_tok ''EOF'' []])]"

definition example_java_content :: string where
  "example_java_content = ''import a.B; class C {}''"

definition example_java_parser :: "string \<Rightarrow> JavaNode option" where
  "example_java_parser content =
     (if content = example_java_content then Some import_class_unit else None)"


definition java_example_result :: ParseResult where
  "java_example_result =
     JavaParser_parse hex_md5 example_java_parser ''src/A.java'' example_java_content"

text \<open>
  A TypeScript file with one import and the function \<open>run\<close>, whose body calls \<open>foo\<close> twice
  and \<open>bar\<close> once.
\<close>

definition example_calls :: "TsCall list" where
  "example_calls =
     [\<lparr> call_kind = Identifier, call_text = ''foo'', call_line = 2 \<rparr>,
      \<lparr> call_kind = Identifier, call_text = ''foo'', call_line = 2 \<rparr>,
      \<lparr> call_kind = Identifier, call_text = ''bar'', call_line = 2 \<rparr>]"

definition example_ts_content :: string where
  "example_ts_content =
     ''import { b } from '' @ [CHR 0x22] @ ''./b'' @ [CHR 0x22] @ '';'' @ [newline] @
     ''function run() { foo(); foo(); bar(); }''"

definition example_source :: TsSourceFile where
  "example_source =
     \<lparr> sf_endLine = 2,
       sf_imports = [\<lparr> imp_moduleSpecifier = ''./b'', imp_startLine = 1, imp_endLine = 1,
                        imp_namedImports = [''b''], imp_defaultImport = None \<rparr>],
       sf_exports = [], sf_classes = [], sf_interfaces = [],
       sf_functions = [\<lparr> f_name = Some ''run'', f_startLine = 2, f_endLine = 2,
                          f_isExported = False, f_isAsync = False, f_isGenerator = False,
                          f_parameters = [], f_returnType = ''void'', f_calls = example_calls \<rparr>],
       sf_variableStatements = [] \<rparr>"

definition example_createSourceFile :: "string \<Rightarrow> string \<Rightarrow> TsSourceFile option" where
  "example_createSourceFile filePath content =
     (if content = example_ts_content then Some example_source else None)"


text \<open>A Python module with the class \<open>A\<close>, whose body is the statement \<open>import os\<close>.\<close>

definition example_py_content :: string where
  "example_py_content = ''class A:'' @ [newline] @ ''    import os''"

definition example_module :: PyNode where
  "example_module =
     PyNode ''module'' example_py_content 0 1
       [(None, PyNode ''class_definition'' example_py_content 0 1
           [(None, PyNode ''class'' ''class'' 0 0 []),
            (Some ''name'', PyNode ''identifier'' ''A'' 0 0 []),
            (None, PyNode '':'' '':'' 0 0 []),
            (Some ''body'', PyNode ''block'' ''import os'' 1 1
               [(None, PyNode ''import_statement'' ''import os'' 1 1
                   [(None, PyNode ''import'' ''import'' 1 1 []),
                    (Some ''name'', PyNode ''dotted_name'' ''os'' 1 1
                       [(None, PyNode ''identifier'' ''os'' 1 1 [])])])])])]"

text \<open>A Python module that holds the statement \<open>import os\<close> and nothing else.\<close>

definition import_module :: PyNode where
  "import_module =
     PyNode ''module'' ''import os'' 0 0
       [(None, PyNode ''import_statement'' ''import os'' 0 0
           [(None, PyNode ''import'' ''import'' 0 0 []),
            (Some ''name'', PyNode ''dotted_name'' ''os'' 0 0
               [(None, PyNode ''identifier'' ''os'' 0 0 [])])])]"

definition example_tree_sitter :: "string \<Rightarrow> PyNode" where
  "example_tree_sitter content = (if content = ''import os'' then import_module else example_module)"



section \<open>Store properties\<close>

lemma sql_like_percent: "sql_like ''%'' s"
  by (induction s) auto

lemma sql_like_ref_iff: "sql_like_ref s = startsWith (toLowerCase s) ''ref:''"
proof -
  have lower: "toLowerChar CHR ''r'' = CHR ''r''" "toLowerChar CHR ''e'' = CHR ''e''"
    "toLowerChar CHR ''f'' = CHR ''f''" "toLowerChar CHR '':'' = CHR '':''"
    by (simp_all add: toLowerChar_def)
  show ?thesis
  proof (cases s)
    case Nil
    then show ?thesis by (simp add: sql_like_ref_def startsWith_def toLowerCase_def)
  next
    case (Cons a s1)
    show ?thesis
    proof (cases s1)
      case Nil
      with Cons show ?thesis by (simp add: sql_like_ref_def startsWith_def toLowerCase_def)
    next
      case (Cons b s2)
      note c2 = this
      show ?thesis
      proof (cases s2)
        case Nil
        with c2 \<open>s = a # s1\<close> show ?thesis
          by (simp add: sql_like_ref_def startsWith_def toLowerCase_def)
      next
        case (Cons c s3)
        note c3 = this
        show ?thesis
        proof (cases s3)
          case Nil
          with c2 c3 \<open>s = a # s1\<close> show ?thesis
            by (simp add: sql_like_ref_def startsWith_def toLowerCase_def)
        next
          case (Cons d s4)
          with c2 c3 \<open>s = a # s1\<close> show ?thesis
            using sql_like_percent [of s4]
            by (cases s4) (auto simp: sql_like_ref_def startsWith_def toLowerCase_def lower)
        qed
      qed
    qed
  qed
qed

text \<open>
  Within the limit on bound parameters, that is with fewer than 16384 nodes in file \<open>p\<close>,
  \<open>deleteNodesByFile db p\<close> returns, no node of file \<open>p\<close> remains, and no remaining edge has
  as source or as target the id of a node that was in \<open>p\<close>.
\<close>

lemma deleteNodesByFile_within_limit:
  assumes "2 * length (filter (\<lambda>n. n_filePath n = p) (db_nodes db)) \<le> SQLITE_MAX_VARIABLE_NUMBER"
  shows "\<exists>db1. deleteNodesByFile db p = Inr db1 \<and>
           (\<forall>n \<in> set (db_nodes db1). n_filePath n \<noteq> p) \<and>
           (\<forall>e \<in> set (db_edges db1).
              \<forall>n \<in> set (db_nodes db). n_filePath n = p \<longrightarrow>
                e_sourceId e \<noteq> n_id n \<and> e_targetId e \<noteq> n_id n)"
proof (cases "filter (\<lambda>n. n_filePath n = p) (db_nodes db) = []")
  case True
  then have none: "\<forall>n \<in> set (db_nodes db). n_filePath n \<noteq> p"
    by (simp add: filter_empty_conv)
  with True show ?thesis
    by (simp add: deleteNodesByFile_def Let_def)
next
  case False
  with assms show ?thesis
    by (auto simp: deleteNodesByFile_def Let_def)
qed

lemma deleteNodesByFile_two_files:
  "node_greet \<in> set (db_nodes db_two_files) \<and> n_filePath node_greet = ''src/a.ts'' \<and>
   edge_run_greet \<in> set (db_edges db_two_files) \<and> e_targetId edge_run_greet = n_id node_greet \<and>
   edge_run_greet \<notin> set (db_edges (store_after_delete db_two_files ''src/a.ts'')) \<and>
   node_greet \<notin> set (db_nodes (store_after_delete db_two_files ''src/a.ts''))"
  by (simp add: store_after_delete_def deleteNodesByFile_def Let_def SQLITE_MAX_VARIABLE_NUMBER_def
      db_two_files_def node_greet_def node_run_def edge_run_greet_def edge_run_other_def)

lemma deleteNodesByFile_over_limit:
  assumes "SQLITE_MAX_VARIABLE_NUMBER < 2 * length (filter (\<lambda>n. n_filePath n = p) (db_nodes db))"
  shows "deleteNodesByFile db p = Inl TooManySqlVariables" and "store_after_delete db p = db"
  using assms by (auto simp: store_after_delete_def deleteNodesByFile_def Let_def)

lemma big_file_nodes:
  "filter (\<lambda>n. n_filePath n = ''src/big.ts'') (db_nodes db_big_file) = db_nodes db_big_file"
  "length (db_nodes db_big_file) = 16384"
  by (simp_all add: db_big_file_def filter_map o_def big_file_node_def)

text \<open>
  C2. The store \<open>db_big_file\<close> holds 16384 nodes of the file \<open>src/big.ts\<close> and the edge
  \<open>edge_big_call\<close> between two of them. \<open>deleteNodesByFile\<close> binds 32768 parameters, the
  statement is refused, and after the call the store is as before: the nodes of the file and
  the edge between them remain.
\<close>

theorem deleteNodesByFile_too_many_variables:
  "length (db_nodes db_big_file) = 16384 \<and>
   deleteNodesByFile db_big_file ''src/big.ts'' = Inl TooManySqlVariables \<and>
   store_after_delete db_big_file ''src/big.ts'' = db_big_file \<and>
   n_filePath (big_file_node 0) = ''src/big.ts'' \<and>
   edge_big_call \<in> set (db_edges db_big_file) \<and>
   e_sourceId edge_big_call = n_id (big_file_node 0)"
proof -
  have over: "SQLITE_MAX_VARIABLE_NUMBER <
      2 * length (filter (\<lambda>n. n_filePath n = ''src/big.ts'') (db_nodes db_big_file))"
    by (simp add: big_file_nodes SQLITE_MAX_VARIABLE_NUMBER_def)
  have node: "n_filePath (big_file_node 0) = ''src/big.ts''"
    by (simp add: big_file_node_def)
  have edge: "edge_big_call \<in> set (db_edges db_big_file)"
    by (simp add: db_big_file_def)
  have src: "e_sourceId edge_big_call = n_id (big_file_node 0)"
    by (simp add: edge_big_call_def big_file_node_def show_nat.simps [of 0] digitChar_def)
  from big_file_nodes(2) deleteNodesByFile_over_limit [OF over] node edge src
  show ?thesis by (intro conjI)
qed

text \<open>
  C3, as the code has it. \<open>getResolutionStats\<close> returns the number of edges as \<open>total\<close>, as
  \<open>unresolved\<close> the number of edges whose \<open>targetId\<close> begins with \<open>ref:\<close> in any letter case
  (the SQL \<open>LIKE\<close> test), and \<open>total - unresolved\<close> as \<open>resolved\<close>.
\<close>

theorem getResolutionStats_counts:
  "rs_total (getResolutionStats db) = int (length (db_edges db)) \<and>
   rs_unresolved (getResolutionStats db) =
     int (length (filter (\<lambda>e. startsWith (toLowerCase (e_targetId e)) ''ref:'') (db_edges db))) \<and>
   rs_resolved (getResolutionStats db) =
     rs_total (getResolutionStats db) - rs_unresolved (getResolutionStats db)"
  by (simp add: getResolutionStats_def Let_def sql_like_ref_iff)

text \<open>
  C3 as stated fails: an edge whose \<open>targetId\<close> is \<open>REF:function:other\<close> does not start with
  \<open>ref:\<close>, and is counted as unresolved.
\<close>

theorem getResolutionStats_counterexample:
  "length (filter (\<lambda>e. startsWith (e_targetId e) ''ref:'') (db_edges db_upper_ref)) = 0 \<and>
   rs_unresolved (getResolutionStats db_upper_ref) = 1 \<and>
   rs_resolved (getResolutionStats db_upper_ref) = 0"
  by (simp add: getResolutionStats_def Let_def sql_like_ref_iff startsWith_def toLowerCase_def
      toLowerChar_def db_upper_ref_def edge_upper_ref_def)

section \<open>Identity properties\<close>

lemma node_id_not_like_ref: "\<not> sql_like_ref (nodeTypeStr t @ ''_'' @ h)"
  by (cases t) (simp_all add: sql_like_ref_iff startsWith_def toLowerCase_def toLowerChar_def)

lemma node_id_not_ref: "\<not> startsWith (nodeTypeStr t @ ''_'' @ h) ''ref:''"
  by (cases t) (simp_all add: startsWith_def)

text \<open>
  Given that the digest is 32 hexadecimal digits, every id made by \<open>createNode\<close> is the
  node type, an underscore and 12 hexadecimal digits, every id made by \<open>createEdge\<close> is
  \<open>edge_\<close> and 12 hexadecimal digits; neither starts with \<open>ref:\<close>, and the \<open>LIKE 'ref:%'\<close>
  test rejects both.
\<close>

lemma created_ids_form:
  assumes digest: "\<forall>s. length (md5 s) = 32 \<and> set (md5 s) \<subseteq> hexdigits"
  shows "(\<exists>h. n_id (createNode md5 lang fp t name ls le m) = nodeTypeStr t @ ''_'' @ h \<and>
              length h = 12 \<and> set h \<subseteq> hexdigits) \<and>
         (\<exists>h. e_id (createEdge md5 src tgt ty m') = ''edge_'' @ h \<and>
              length h = 12 \<and> set h \<subseteq> hexdigits) \<and>
         \<not> startsWith (n_id (createNode md5 lang fp t name ls le m)) ''ref:'' \<and>
         \<not> startsWith (e_id (createEdge md5 src tgt ty m')) ''ref:'' \<and>
         \<not> sql_like_ref (n_id (createNode md5 lang fp t name ls le m)) \<and>
         \<not> sql_like_ref (e_id (createEdge md5 src tgt ty m'))"
proof -
  have hash: "length (take 12 (md5 s)) = 12 \<and> set (take 12 (md5 s)) \<subseteq> hexdigits" for s
    using digest set_take_subset [of 12 "md5 s"] by force
  have node: "\<exists>h. n_id (createNode md5 lang fp t name ls le m) = nodeTypeStr t @ ''_'' @ h \<and>
              length h = 12 \<and> set h \<subseteq> hexdigits"
    using hash by (simp add: createNode_def generateNodeId_def Let_def)
  have edge: "\<exists>h. e_id (createEdge md5 src tgt ty m') = ''edge_'' @ h \<and>
              length h = 12 \<and> set h \<subseteq> hexdigits"
    using hash by (simp add: createEdge_def generateEdgeId_def Let_def)
  have n1: "\<not> startsWith (n_id (createNode md5 lang fp t name ls le m)) ''ref:''"
    using node_id_not_ref by (simp add: createNode_def generateNodeId_def Let_def)
  have n2: "\<not> sql_like_ref (n_id (createNode md5 lang fp t name ls le m))"
    using node_id_not_like_ref by (simp add: createNode_def generateNodeId_def Let_def)
  have e1: "\<not> startsWith (e_id (createEdge md5 src tgt ty m')) ''ref:''"
    by (simp add: createEdge_def generateEdgeId_def Let_def startsWith_def)
  have e2: "\<not> sql_like_ref (e_id (createEdge md5 src tgt ty m'))"
    by (simp add: createEdge_def generateEdgeId_def Let_def sql_like_ref_iff startsWith_def
        toLowerCase_def toLowerChar_def)
  from node edge n1 n2 e1 e2 show ?thesis by blast
qed

section \<open>Resolver properties\<close>

lemma resolved_row_id [simp]: "e_id (resolved_row r db row) = e_id row"
  by (simp add: resolved_row_def split: Resolution.splits)

lemma resolveEdge_nodes: "db_nodes db = db_nodes db' \<Longrightarrow> resolveEdge r db e = resolveEdge r db' e"
  by (simp add: resolveEdge_def getNode_def cong: option.case_cong)

lemma built_nodes: "db_nodes db = db_nodes db' \<Longrightarrow> built db = built db'"
  by (simp add: built_def buildSymbolIndex_def buildImportExportMaps_def getAllNodes_def getNodesByType_def)

lemma find_distinct_id:
  "distinct (map e_id es) \<Longrightarrow> u \<in> set es \<Longrightarrow> find (\<lambda>e. e_id e = e_id u) es = Some u"
  by (induction es) (auto simp: image_iff)

lemma distinct_id_eq:
  "distinct (map e_id es) \<Longrightarrow> x \<in> set es \<Longrightarrow> u \<in> set es \<Longrightarrow> e_id x = e_id u \<Longrightarrow> x = u"
  by (meson distinct_map inj_onD)

lemma map_upd_distinct_id:
  "distinct (map e_id es) \<Longrightarrow> u \<in> set es \<Longrightarrow>
   map (\<lambda>e. if e_id e = e_id u then f e else e) es = map (\<lambda>e. if e_id e = e_id u then f u else e) es"
  by (rule map_cong) (auto dest: distinct_id_eq)

lemma resolve_step_edges:
  assumes "distinct (map e_id (db_edges cur))" and "u \<in> set (db_edges cur)"
  shows "db_edges (fst (resolve_step r (cur, res) u)) =
           map (\<lambda>e. if e_id e = e_id u then resolved_row r cur u else e) (db_edges cur)"
    and "db_nodes (fst (resolve_step r (cur, res) u)) = db_nodes cur"
proof -
  have f: "find (\<lambda>e. e_id e = e_id u) (db_edges cur) = Some u"
    using assms by (rule find_distinct_id)
  have same: "map (\<lambda>e. if e_id e = e_id u then u else e) (db_edges cur) = db_edges cur"
    using map_upd_distinct_id [OF assms, of "\<lambda>e. e"] by (simp add: map_idI)
  show "db_edges (fst (resolve_step r (cur, res) u)) =
           map (\<lambda>e. if e_id e = e_id u then resolved_row r cur u else e) (db_edges cur)"
  proof (cases "resolveEdge r cur u")
    case (Resolved t)
    then show ?thesis
      using map_upd_distinct_id [OF assms, of "\<lambda>e. e\<lparr>e_targetId := t,
              e_metadata := AList.update ''resolvedFrom'' (JStr (e_targetId u))
                              (AList.update ''unresolved'' (JBool False) (e_metadata u))\<rparr>"]
      by (simp add: resolve_step_def resolved_row_def updateEdgeTarget_def f Let_def)
  next
    case (Ambiguous cs)
    then show ?thesis
      using map_upd_distinct_id [OF assms, of "\<lambda>e. e\<lparr>e_metadata := AList.update ''ambiguousCandidates'' (JArr (map JStr cs)) (e_metadata u)\<rparr>"]
      by (simp add: resolve_step_def resolved_row_def updateEdgeMetadata_def Let_def)
  next
    case NotResolved
    then have rr: "resolved_row r cur u = u" by (simp add: resolved_row_def)
    have unchanged: "db_edges (fst (resolve_step r (cur, res) u)) = db_edges cur"
      using NotResolved by (simp add: resolve_step_def Let_def)
    have "map (\<lambda>e. if e_id e = e_id u then resolved_row r cur u else e) (db_edges cur) = db_edges cur"
      unfolding rr by (rule same)
    with unchanged show ?thesis by simp
  qed
  show "db_nodes (fst (resolve_step r (cur, res) u)) = db_nodes cur"
    by (simp add: resolve_step_def updateEdgeTarget_def updateEdgeMetadata_def Let_def
        split: Resolution.splits option.splits)
qed

lemma foldl_resolve_step:
  assumes "distinct (map e_id (db_edges cur))" and "distinct (map e_id us)"
    and "set us \<subseteq> set (db_edges cur)" and "db_nodes cur = db_nodes db0"
  shows "db_edges (fst (foldl (resolve_step r) (cur, res) us)) =
           map (\<lambda>e. if e_id e \<in> e_id ` set us then resolved_row r db0 e else e) (db_edges cur) \<and>
         db_nodes (fst (foldl (resolve_step r) (cur, res) us)) = db_nodes db0"
  using assms
proof (induction us arbitrary: cur res)
  case Nil
  then show ?case by (simp add: map_idI)
next
  case (Cons u us)
  obtain cur' res' where step: "resolve_step r (cur, res) u = (cur', res')"
    by (cases "resolve_step r (cur, res) u")
  have u_in: "u \<in> set (db_edges cur)" using Cons.prems by simp
  have edges': "db_edges cur' = map (\<lambda>e. if e_id e = e_id u then resolved_row r cur u else e) (db_edges cur)"
    and nodes': "db_nodes cur' = db_nodes cur"
    using resolve_step_edges [OF Cons.prems(1) u_in, of r res] step by simp_all
  have row: "resolved_row r cur u = resolved_row r db0 u"
    using resolveEdge_nodes [OF Cons.prems(4)] by (simp add: resolved_row_def)
  have ids': "map e_id (db_edges cur') = map e_id (db_edges cur)"
    by (simp add: edges' o_def cong: map_cong)
  have d': "distinct (map e_id (db_edges cur'))" using Cons.prems(1) ids' by simp
  have dus: "distinct (map e_id us)" and u_notin: "e_id u \<notin> e_id ` set us"
    using Cons.prems(2) by auto
  have sub': "set us \<subseteq> set (db_edges cur')"
  proof
    fix e assume e: "e \<in> set us"
    then have "e_id e \<in> e_id ` set us" by simp
    with u_notin have "e_id e \<noteq> e_id u" by metis
    moreover have "e \<in> set (db_edges cur)" using e Cons.prems(3) by auto
    ultimately have "e \<in> set (db_edges cur)" and "e_id e \<noteq> e_id u" by simp_all
    then show "e \<in> set (db_edges cur')"
      by (auto simp: edges' image_iff)
  qed
  have IH: "db_edges (fst (foldl (resolve_step r) (cur', res') us)) =
           map (\<lambda>e. if e_id e \<in> e_id ` set us then resolved_row r db0 e else e) (db_edges cur') \<and>
         db_nodes (fst (foldl (resolve_step r) (cur', res') us)) = db_nodes db0"
    using Cons.IH [OF d' dus sub'] nodes' Cons.prems(4) by simp
  have "map (\<lambda>e. if e_id e \<in> e_id ` set us then resolved_row r db0 e else e) (db_edges cur') =
        map (\<lambda>e. if e_id e \<in> e_id ` set (u # us) then resolved_row r db0 e else e) (db_edges cur)"
    unfolding edges' map_map
  proof (rule map_cong [OF refl])
    fix e assume e: "e \<in> set (db_edges cur)"
    show "((\<lambda>e. if e_id e \<in> e_id ` set us then resolved_row r db0 e else e) \<circ>
           (\<lambda>e. if e_id e = e_id u then resolved_row r cur u else e)) e =
          (if e_id e \<in> e_id ` set (u # us) then resolved_row r db0 e else e)"
    proof (cases "e_id e = e_id u")
      case True
      then have "e = u" using Cons.prems(1) e u_in by (meson distinct_map inj_onD)
      with True u_notin row show ?thesis by simp
    next
      case False
      then show ?thesis by simp
    qed
  qed
  with IH step show ?case by simp
qed

lemma index_get_sub: "set (index_get idx k) \<subseteq> index_entries idx"
  unfolding index_get_def index_entries_def by (cases "idx k") auto

lemma addToIndex_entries: "index_entries (addToIndex k e idx) \<subseteq> insert e (index_entries idx)"
  by (auto simp: addToIndex_def index_entries_def index_get_def Let_def split: option.splits if_splits)

lemma addToIndex_ids:
  "\<forall>x \<in> index_entries idx. se_nodeId x \<in> S \<Longrightarrow> se_nodeId e \<in> S \<Longrightarrow>
   \<forall>x \<in> index_entries (addToIndex k e idx). se_nodeId x \<in> S"
  using addToIndex_entries [of k e idx] by auto

lemma index_node_ids:
  assumes P: "\<forall>x \<in> index_entries idx. se_nodeId x \<in> S" and n: "n_id node \<in> S"
  shows "\<forall>x \<in> index_entries (index_node idx node). se_nodeId x \<in> S"
proof (cases "n_type node = ''file'' \<or> n_type node = ''import''")
  case True
  then show ?thesis using P by (simp add: index_node_def)
next
  case False
  define entry0 where "entry0 = \<lparr> se_nodeId = n_id node,
                          se_name = getShortName (n_name node),
                          se_fullName = n_name node,
                          se_type = n_type node,
                          se_filePath = n_filePath node,
                          se_language = n_language node,
                          se_exportedAs = None \<rparr>"
  define entry where "entry = (if truthy (map_of (n_metadata node) ''isExported'')
                      then entry0\<lparr>se_exportedAs := Some [se_name entry0]\<rparr>
                      else entry0)"
  define i1 where "i1 = addToIndex (se_name entry) entry idx"
  define i2 where "i2 = addToIndex (se_fullName entry) entry i1"
  define i3 where "i3 = (if n_type node = ''method'' \<and> includes_str (se_fullName entry) ''.''
                   then addToIndex (last (split (se_fullName entry) CHR ''.'')) entry i2
                   else i2)"
  define i4 where "i4 = (if includes_str (n_name node) ''.''
                   then (let parts = split (n_name node) CHR ''.'' in
                         if length parts = 2
                         then addToIndex (parts ! 0 @ ''.'' @ parts ! 1) entry i3
                         else i3)
                   else i3)"
  have e: "se_nodeId entry \<in> S" using n by (simp add: entry_def entry0_def)
  have p1: "\<forall>x \<in> index_entries i1. se_nodeId x \<in> S"
    unfolding i1_def using P e by (rule addToIndex_ids)
  have p2: "\<forall>x \<in> index_entries i2. se_nodeId x \<in> S"
    unfolding i2_def using p1 e by (rule addToIndex_ids)
  have p3: "\<forall>x \<in> index_entries i3. se_nodeId x \<in> S"
    unfolding i3_def using p2 e addToIndex_ids [OF p2 e] by simp
  have p4: "\<forall>x \<in> index_entries i4. se_nodeId x \<in> S"
    unfolding i4_def Let_def using p3 e addToIndex_ids [OF p3 e] by simp
  have "index_node idx node = i4"
    using False
    by (simp add: index_node_def Let_def i4_def i3_def i2_def i1_def entry_def entry0_def)
  with p4 show ?thesis by simp
qed

lemma foldl_index_node_ids:
  "\<forall>x \<in> index_entries idx. se_nodeId x \<in> S \<Longrightarrow> n_id ` set ns \<subseteq> S \<Longrightarrow>
   \<forall>x \<in> index_entries (foldl index_node idx ns). se_nodeId x \<in> S"
proof (induction ns arbitrary: idx)
  case Nil
  then show ?case by simp
next
  case (Cons n ns)
  have "\<forall>x \<in> index_entries (index_node idx n). se_nodeId x \<in> S"
    using Cons.prems by (intro index_node_ids) auto
  then show ?case using Cons.IH Cons.prems by simp
qed

lemma built_index_ids:
  "\<forall>x \<in> index_entries (symbolIndex (built db)). se_nodeId x \<in> n_id ` set (db_nodes db)"
proof -
  have "index_entries (symbolIndex new_ReferenceResolver) = {}"
    by (simp add: index_entries_def new_ReferenceResolver_def)
  then have "\<forall>x \<in> index_entries (foldl index_node (symbolIndex new_ReferenceResolver) (db_nodes db)).
               se_nodeId x \<in> n_id ` set (db_nodes db)"
    by (intro foldl_index_node_ids) auto
  then show ?thesis
    by (simp add: built_def buildSymbolIndex_def buildImportExportMaps_def getAllNodes_def)
qed

lemma foldl_push_unique_sub: "set (foldl push_unique cs ms) \<subseteq> set cs \<union> set ms"
  by (induction ms arbitrary: cs) (fastforce simp: push_unique_def split: if_splits)+

lemma foldl_push_if_sub:
  "set (foldl (\<lambda>cs m. if P m then push_unique cs m else cs) cs ms) \<subseteq> set cs \<union> set ms"
  by (induction ms arbitrary: cs) (fastforce simp: push_unique_def split: if_splits)+

lemma foldl_push_if_within:
  "set cs \<subseteq> I \<Longrightarrow> set ms \<subseteq> I \<Longrightarrow>
   set (foldl (\<lambda>cs m. if P m then push_unique cs m else cs) cs ms) \<subseteq> I"
  using foldl_push_if_sub [of P cs ms] by blast

lemma import_candidates_sub:
  assumes "set cs \<subseteq> index_entries (symbolIndex r)"
  shows "set (import_candidates r cn src imp cs ni) \<subseteq> index_entries (symbolIndex r)"
proof -
  let ?ms = "case ni_name ni of None \<Rightarrow> [] | Some a \<Rightarrow> index_get (symbolIndex r) a"
  have ms: "set ?ms \<subseteq> index_entries (symbolIndex r)"
    using index_get_sub by (cases "ni_name ni") auto
  show ?thesis
    unfolding import_candidates_def Let_def
    using foldl_push_if_within [OF assms ms] assms by simp
qed

lemma foldl_import_candidates_sub:
  "set cs \<subseteq> index_entries (symbolIndex r) \<Longrightarrow>
   set (foldl (import_candidates r cn src imp) cs nis) \<subseteq> index_entries (symbolIndex r)"
  by (induction nis arbitrary: cs) (simp_all add: import_candidates_sub)

lemma foldl_imports_sub:
  "set cs \<subseteq> index_entries (symbolIndex r) \<Longrightarrow>
   set (foldl (\<lambda>cs imp. foldl (import_candidates r cn src imp) cs (ii_namedImports imp)) cs imps)
     \<subseteq> index_entries (symbolIndex r)"
  by (induction imps arbitrary: cs) (simp_all add: foldl_import_candidates_sub)

lemma findCandidates_sub:
  "set (findCandidates r t src ty) \<subseteq> index_entries (symbolIndex r)"
proof -
  let ?I = "index_entries (symbolIndex r)"
  let ?get = "index_get (symbolIndex r)"
  let ?cn = "cleanTargetName t"
  let ?parts = "split ?cn CHR ''.''"
  let ?m1 = "foldl push_unique (?get ?cn) (?get (last ?parts))"
  let ?c2 = "if includes_str ?cn ''.''
             then (if length ?parts \<ge> 2
                   then foldl push_unique ?m1 (?get (?parts ! (length ?parts - 2) @ ''.'' @ last ?parts))
                   else ?m1)
             else ?get ?cn"
  let ?imports = "case fileImports r (n_filePath src) of None \<Rightarrow> [] | Some l \<Rightarrow> l"
  have p: "set (foldl push_unique cs (?get k)) \<subseteq> ?I" if "set cs \<subseteq> ?I" for cs k
    using foldl_push_unique_sub [of cs "?get k"] index_get_sub [of "symbolIndex r" k] that
    by blast
  have g: "set (?get k) \<subseteq> ?I" for k by (rule index_get_sub)
  have m1: "set ?m1 \<subseteq> ?I" by (rule p [OF g])
  have c2: "set ?c2 \<subseteq> ?I" using g m1 p [OF m1] by simp
  have eq: "findCandidates r t src ty =
        filter (\<lambda>c. isCompatibleType (se_type c) ty)
          (foldl (\<lambda>cs imp. foldl (import_candidates r ?cn src imp) cs (ii_namedImports imp)) ?c2 ?imports)"
    by (simp add: findCandidates_def Let_def)
  show ?thesis
    unfolding eq using foldl_imports_sub [OF c2, of ?cn src ?imports] by auto
qed

lemma rankCandidates_entries: "sc_entry ` set (rankCandidates r cs src t) = set cs"
  by (force simp: rankCandidates_def Let_def)

lemma resolveEdge_Resolved_id:
  assumes "resolveEdge r db e = Resolved t"
  shows "t \<in> se_nodeId ` index_entries (symbolIndex r)"
proof -
  from assms obtain tn src where
    res: "(let candidates = findCandidates r tn src (e_type e) in
                if length candidates = 0 then NotResolved
                else if length candidates = 1 then Resolved (se_nodeId (candidates ! 0))
                else
                  (let ranked = rankCandidates r candidates src tn in
                   if length ranked > 0 \<and> sc_score (ranked ! 0) > sc_score (ranked ! 1) + 10
                   then Resolved (se_nodeId (sc_entry (ranked ! 0)))
                   else Ambiguous (map candidate_label (take 5 ranked)))) = Resolved t"
    by (auto simp: resolveEdge_def split: option.splits)
  let ?cs = "findCandidates r tn src (e_type e)"
  let ?rk = "rankCandidates r ?cs src tn"
  have sub: "set ?cs \<subseteq> index_entries (symbolIndex r)" by (rule findCandidates_sub)
  from res consider (one) "length ?cs = 1" "t = se_nodeId (?cs ! 0)"
    | (top) "0 < length ?rk" "t = se_nodeId (sc_entry (?rk ! 0))"
    by (auto simp: Let_def split: if_splits)
  then show ?thesis
  proof cases
    case one
    then have "?cs ! 0 \<in> set ?cs" by simp
    with one sub show ?thesis by blast
  next
    case top
    then have "?rk ! 0 \<in> set ?rk" by simp
    then have "sc_entry (?rk ! 0) \<in> set ?cs"
      using rankCandidates_entries [of r ?cs src tn] by blast
    with top sub show ?thesis by blast
  qed
qed

lemma json_unresolved_true_update:
  "k \<noteq> ''unresolved'' \<Longrightarrow> json_unresolved_true (AList.update k v m) = json_unresolved_true m"
  by (simp add: json_unresolved_true_def update_conv')

lemma json_unresolved_false:
  "\<not> json_unresolved_true (AList.update ''resolvedFrom'' v (AList.update ''unresolved'' (JBool False) m))"
  by (simp add: json_unresolved_true_def update_conv')

lemma targetName_of_update:
  "k \<noteq> ''targetName'' \<Longrightarrow> targetName_of (AList.update k v m) = targetName_of m"
  by (simp add: targetName_of_def update_conv')

lemma resolveEdge_cong:
  "targetName_of (e_metadata e) = targetName_of (e_metadata e') \<Longrightarrow> e_sourceId e = e_sourceId e' \<Longrightarrow>
   e_type e = e_type e' \<Longrightarrow> resolveEdge r db e = resolveEdge r db e'"
  by (simp add: resolveEdge_def cong: option.case_cong)

lemma pass_row_idem:
  assumes ids: "\<forall>x \<in> index_entries (symbolIndex r). \<not> sql_like_ref (se_nodeId x)"
  shows "pass_row r db (pass_row r db row) = pass_row r db row"
proof (cases "is_unresolved row")
  case False
  then show ?thesis by (simp add: pass_row_def)
next
  case True
  show ?thesis
  proof (cases "resolveEdge r db row")
    case (Resolved t)
    then have "\<not> sql_like_ref t" using resolveEdge_Resolved_id ids by blast
    then have "\<not> is_unresolved (resolved_row r db row)"
      using Resolved by (simp add: is_unresolved_def resolved_row_def json_unresolved_false)
    then show ?thesis using True by (simp add: pass_row_def)
  next
    case (Ambiguous cs)
    let ?row' = "row\<lparr>e_metadata := AList.update ''ambiguousCandidates'' (JArr (map JStr cs)) (e_metadata row)\<rparr>"
    have row': "resolved_row r db row = ?row'" using Ambiguous by (simp add: resolved_row_def)
    have un: "is_unresolved ?row'"
      using True by (simp add: is_unresolved_def json_unresolved_true_update)
    have "resolveEdge r db ?row' = resolveEdge r db row"
      by (rule resolveEdge_cong) (simp_all add: targetName_of_update)
    then have "resolved_row r db ?row' = ?row'"
      using Ambiguous by (simp add: resolved_row_def)
    then show ?thesis using True un row' by (simp add: pass_row_def)
  next
    case NotResolved
    then show ?thesis using True by (simp add: pass_row_def resolved_row_def)
  qed
qed

lemma resolve_db_rows:
  assumes "distinct (map e_id (db_edges db))"
  shows "db_edges (resolve_db db) = map (pass_row (built db) db) (db_edges db)"
    and "db_nodes (resolve_db db) = db_nodes db"
proof -
  let ?us = "getUnresolvedEdges db"
  have us: "?us = filter is_unresolved (db_edges db)"
    by (simp add: getUnresolvedEdges_def is_unresolved_def [abs_def])
  have d: "distinct (map e_id ?us)" using assms by (simp add: us distinct_map_filter)
  have sub: "set ?us \<subseteq> set (db_edges db)" by (auto simp: us)
  have in_us: "e_id e \<in> e_id ` set ?us \<longleftrightarrow> is_unresolved e" if "e \<in> set (db_edges db)" for e
  proof
    assume "e_id e \<in> e_id ` set ?us"
    then obtain u where u: "u \<in> set ?us" "e_id u = e_id e" by auto
    then have "u = e" using assms that sub distinct_id_eq by blast
    with u show "is_unresolved e" by (simp add: us)
  next
    assume "is_unresolved e"
    with that show "e_id e \<in> e_id ` set ?us" by (simp add: us)
  qed
  have unfold: "resolve_db db = fst (foldl (resolve_step (built db))
          (db, \<lparr> rr_resolved = 0, rr_unresolved = 0, rr_ambiguous = 0 \<rparr>) ?us)"
    by (simp add: resolve_db_def resolve_def built_def Let_def split: prod.splits)
  note F = foldl_resolve_step [OF assms d sub refl, of "built db"
      "\<lparr> rr_resolved = 0, rr_unresolved = 0, rr_ambiguous = 0 \<rparr>"]
  have "map (\<lambda>e. if e_id e \<in> e_id ` set ?us then resolved_row (built db) db e else e) (db_edges db) =
        map (pass_row (built db) db) (db_edges db)"
    by (rule map_cong) (simp_all add: in_us pass_row_def)
  with F unfold show "db_edges (resolve_db db) = map (pass_row (built db) db) (db_edges db)"
    by simp
  from F unfold show "db_nodes (resolve_db db) = db_nodes db" by simp
qed

lemma pass_row_id [simp]: "e_id (pass_row r db row) = e_id row"
  by (simp add: pass_row_def)

lemma pass_row_nodes: "db_nodes db = db_nodes db' \<Longrightarrow> pass_row r db = pass_row r db'"
  using resolveEdge_nodes [of db db' r]
  by (auto simp: pass_row_def resolved_row_def fun_eq_iff)



text \<open>
  C6, as the code has it. In a store whose edge ids are distinct (the primary key) and in which
  no node id passes the placeholder test \<open>LIKE 'ref:%'\<close>, a second \<open>resolve\<close> pass leaves the
  store as the first pass left it.
\<close>

theorem resolve_idempotent:
  assumes pk: "distinct (map e_id (db_edges db))"
    and ids: "\<forall>n \<in> set (db_nodes db). \<not> sql_like_ref (n_id n)"
  shows "resolve_db (resolve_db db) = resolve_db db"
proof -
  let ?db1 = "resolve_db db"
  have e1: "db_edges ?db1 = map (pass_row (built db) db) (db_edges db)"
    and n1: "db_nodes ?db1 = db_nodes db"
    using resolve_db_rows [OF pk] by simp_all
  have pk1: "distinct (map e_id (db_edges ?db1))"
    using pk by (simp add: e1 o_def)
  have e2: "db_edges (resolve_db ?db1) = map (pass_row (built ?db1) ?db1) (db_edges ?db1)"
    and n2: "db_nodes (resolve_db ?db1) = db_nodes ?db1"
    using resolve_db_rows [OF pk1] by simp_all
  have same: "pass_row (built ?db1) ?db1 = pass_row (built db) db"
    using built_nodes [OF n1] pass_row_nodes [OF n1] by simp
  have clean: "\<forall>x \<in> index_entries (symbolIndex (built db)). \<not> sql_like_ref (se_nodeId x)"
    using built_index_ids [of db] ids by auto
  have "db_edges (resolve_db ?db1) = db_edges ?db1"
    by (simp add: e2 same e1 pass_row_idem [OF clean])
  with n2 show ?thesis by simp
qed

theorem resolve_idempotent_witness:
  "distinct (map e_id (db_edges db_helpers)) \<and>
   db_edges (resolve_db db_helpers) \<noteq> db_edges db_helpers \<and>
   resolve_db (resolve_db db_helpers) = resolve_db db_helpers"
proof -
  have pk: "distinct (map e_id (db_edges db_helpers))" by code_simp
  have ids: "\<forall>n \<in> set (db_nodes db_helpers). \<not> sql_like_ref (n_id n)" by code_simp
  have changed: "db_edges (resolve_db db_helpers) \<noteq> db_edges db_helpers" by code_simp
  from pk changed resolve_idempotent [OF pk ids] show ?thesis by (intro conjI)
qed

text \<open>
  C6 as stated fails in a store that holds a node whose id is \<open>ref:x\<close>: the first pass
  resolves the edge to that node, the second pass takes the edge for unresolved again and
  overwrites \<open>resolvedFrom\<close>.
\<close>

theorem resolve_twice_counterexample:
  "distinct (map e_id (db_edges db_placeholder_id)) \<and>
   map e_metadata (db_edges (resolve_db db_placeholder_id)) =
     [[(''unresolved'', JBool False), (''targetName'', JStr ''f''), (''line'', JNum 3),
       (''resolvedFrom'', JStr ''ref:function:f'')]] \<and>
   map e_metadata (db_edges (resolve_db (resolve_db db_placeholder_id))) =
     [[(''unresolved'', JBool False), (''targetName'', JStr ''f''), (''line'', JNum 3),
       (''resolvedFrom'', JStr ''ref:x'')]]"
  by code_simp

section \<open>Token budget properties\<close>

text \<open>
  C9 at a budget of 5 tokens and a target file of 100 characters: the budget of the target
  file is 3 tokens, less than the 4 tokens of the truncation indicator, the character limit
  is negative, and the returned estimate is 28.
\<close>

theorem getEditingContext_small_budget:
  "ec_token_estimate (getEditingContext small_budget_call) = 28 \<and>
   length (ec_content (getEditingContext small_budget_call)) = 111"
  by code_simp

section \<open>Extractor properties\<close>

subsection \<open>Call edges\<close>

text \<open>
  Each of the three call traversals keeps \<open>calls_inv\<close>: the edges pushed so far carry the
  names seen so far, in order, and no name was seen twice.
\<close>

lemma calls_inv_distinct: "calls_inv acc \<Longrightarrow> distinct (map edge_targetName (snd acc))"
  by (simp add: calls_inv_def distinct_map inj_on_def)

lemma foldl_preserves:
  "P a \<Longrightarrow> (\<And>x b. x \<in> set xs \<Longrightarrow> P b \<Longrightarrow> P (f b x)) \<Longrightarrow> P (foldl f a xs)"
  by (induction xs arbitrary: a) auto

lemma call_loop_names:
  "distinct (map edge_targetName (call_loop md5 p calls seen)) \<and>
   (\<forall>e \<in> set (call_loop md5 p calls seen). \<forall>c \<in> set seen. edge_targetName e \<noteq> Some (JStr c))"
proof (induction calls arbitrary: seen)
  case Nil
  then show ?case by simp
next
  case (Cons call calls)
  show ?case
  proof (cases "(call_kind call = Identifier \<or> call_kind call = PropertyAccessExpression) \<and>
                call_text call \<notin> set seen")
    case True
    have new: "edge_targetName (createEdge md5 p (''ref:function:'' @ call_text call) ''calls''
                   [(''unresolved'', JBool True), (''targetName'', JStr (call_text call)),
                    (''line'', JNum (call_line call))]) = Some (JStr (call_text call))"
      by (simp add: edge_targetName_def createEdge_def)
    from True new Cons.IH [of "seen @ [call_text call]"] show ?thesis
      by (auto simp: Let_def)
  next
    case False
    with Cons.IH [of seen] show ?thesis by (auto simp: Let_def)
  qed
qed

lemma java_calls_inv:
  "calls_inv acc \<Longrightarrow> calls_inv (calls_traverse md5 mid n acc)"
proof (induction md5 mid n acc rule: calls_traverse.induct)
  case (1 md5 mid nm ch img sl el acc)
  show ?case
  proof (cases ch)
    case None
    then show ?thesis using 1 by simp
  next
    case (Some kv)
    let ?n = "JavaNode nm ch img sl el"
    define acc1 where "acc1 =
                 (if nm = ''methodInvocation''
                  then (case extractMethodCallName ?n of
                          None \<Rightarrow> acc
                        | Some callName \<Rightarrow>
                            if callName \<notin> set (fst acc)
                            then (fst acc @ [callName],
                                  snd acc @ [createEdge md5 mid (''ref:method:'' @ callName)
                                               ''calls'' (unresolved_ref callName)])
                            else acc)
                  else acc)"
    have inv1: "calls_inv acc1"
      using 1(2)
      by (auto simp: acc1_def calls_inv_def edge_targetName_def createEdge_def unresolved_ref_def
          split: option.splits)
    have eq: "calls_traverse md5 mid ?n acc =
          foldl (\<lambda>a (k, cs). foldl (\<lambda>a c. calls_traverse md5 mid c a) a cs) acc1 kv"
      using Some by (simp add: acc1_def Let_def)
    have "calls_inv (foldl (\<lambda>a (k, cs). foldl (\<lambda>a c. calls_traverse md5 mid c a) a cs) acc1 kv)"
    proof (rule foldl_preserves [where P = calls_inv, OF inv1])
      fix x b assume x: "x \<in> set kv" and b: "calls_inv b"
      obtain k cs where kcs: "x = (k, cs)" by (cases x)
      have "calls_inv (foldl (\<lambda>a c. calls_traverse md5 mid c a) b cs)"
      proof (rule foldl_preserves [where P = calls_inv, OF b])
        fix c b' assume c: "c \<in> set cs" and b': "calls_inv b'"
        show "calls_inv (calls_traverse md5 mid c b')"
          by (rule 1(1) [OF Some refl x [unfolded kcs] refl c b'])
      qed
      then show "calls_inv ((\<lambda>a (k, cs). foldl (\<lambda>a c. calls_traverse md5 mid c a) a cs) b x)"
        by (simp add: kcs)
    qed
    with eq show ?thesis by simp
  qed
qed

lemma py_calls_inv:
  "calls_inv acc \<Longrightarrow> calls_inv (py_calls_traverse md5 fid n acc)"
proof (induction md5 fid n acc rule: py_calls_traverse.induct)
  case (1 md5 fid ty tx sr er fs acc)
  let ?n = "PyNode ty tx sr er fs"
  define acc1 where "acc1 =
            (if ty = ''call''
             then (case childForFieldName ?n ''function'' of
                     None \<Rightarrow> acc
                   | Some funcPart \<Rightarrow>
                       (let callName = py_text funcPart;
                            baseName = hd (split callName CHR ''.'')
                        in if baseName \<notin> set builtins \<and> callName \<notin> set (fst acc)
                           then (fst acc @ [callName],
                                 snd acc @ [createEdge md5 fid (''ref:function:'' @ callName)
                                              ''calls''
                                              [(''unresolved'', JBool True),
                                               (''targetName'', JStr callName),
                                               (''line'', JNum (sr + 1))]])
                           else acc))
             else acc)"
  have inv1: "calls_inv acc1"
    using 1(2)
    by (auto simp: acc1_def calls_inv_def edge_targetName_def createEdge_def Let_def
        split: option.splits)
  show ?case
  proof (cases "ty \<noteq> ''function_definition'' \<and> ty \<noteq> ''class_definition''")
    case False
    then have "py_calls_traverse md5 fid ?n acc = acc1"
      by (auto simp: acc1_def Let_def)
    with inv1 show ?thesis by simp
  next
    case True
    then have eq: "py_calls_traverse md5 fid ?n acc =
        foldl (\<lambda>a fc. py_calls_traverse md5 fid (snd fc) a) acc1 fs"
      by (simp add: acc1_def Let_def)
    have "calls_inv (foldl (\<lambda>a fc. py_calls_traverse md5 fid (snd fc) a) acc1 fs)"
    proof (rule foldl_preserves [where P = calls_inv, OF inv1])
      fix x b assume x: "x \<in> set fs" and b: "calls_inv b"
      show "calls_inv (py_calls_traverse md5 fid (snd x) b)"
        by (rule 1(1) [OF refl refl True x b])
    qed
    with eq show ?thesis by simp
  qed
qed

lemma empty_calls_inv: "calls_inv ([], [])"
  by (simp add: calls_inv_def)

subsection \<open>Ids and import links\<close>

text \<open>
  Every piece of the output of an extractor is \<open>derived\<close>, and its import nodes are linked;
  the properties are kept by appending and concatenating results.
\<close>

lemma createNode_derived [simp]: "node_derived md5 fp (createNode md5 lang fp t name ls le m)"
  by (auto simp: node_derived_def createNode_def)

lemma createNode_type [simp]: "n_type (createNode md5 lang fp t name ls le m) = nodeTypeStr t"
  by (simp add: createNode_def)

lemma ts_node_derived [simp]: "node_derived md5 fp (ts_node md5 isJS fp t name ls le m)"
  using createNode_derived [of md5 fp "''typescript''" t name ls le m]
  by (simp add: ts_node_def Let_def node_derived_def)

lemma ts_node_type [simp]: "n_type (ts_node md5 isJS fp t name ls le m) = nodeTypeStr t"
  by (simp add: ts_node_def Let_def)

lemma createEdge_derived [simp]: "edge_derived md5 (createEdge md5 s t ty m)"
  by (simp add: edge_derived_def createEdge_def)

lemma createEdge_fields [simp]:
  "e_type (createEdge md5 s t ty m) = ty" "e_sourceId (createEdge md5 s t ty m) = s"
  "e_targetId (createEdge md5 s t ty m) = t"
  by (simp_all add: createEdge_def)

lemma nodeTypeStr_import [simp]: "nodeTypeStr t = ''import'' \<longleftrightarrow> t = TImport"
  by (cases t) simp_all

lemma derived_empty [simp]: "derived md5 fp ([], [])"
  by (simp add: derived_def)

lemma no_imports_empty [simp]: "no_imports ([], [])"
  by (simp add: no_imports_def)

lemma derived_concat:
  "(\<And>r. r \<in> set rs \<Longrightarrow> derived md5 fp r) \<Longrightarrow> derived md5 fp (concat (map fst rs), concat (map snd rs))"
  by (auto simp: derived_def)

lemma no_imports_concat:
  "(\<And>r. r \<in> set rs \<Longrightarrow> no_imports r) \<Longrightarrow> no_imports (concat (map fst rs), concat (map snd rs))"
  by (auto simp: no_imports_def)

lemma derived_append:
  "derived md5 fp (a, b) \<Longrightarrow> derived md5 fp (c, d) \<Longrightarrow> derived md5 fp (a @ c, b @ d)"
  by (auto simp: derived_def)

lemma no_imports_append:
  "no_imports (a, b) \<Longrightarrow> no_imports (c, d) \<Longrightarrow> no_imports (a @ c, b @ d)"
  by (auto simp: no_imports_def)

lemma derived_pair: "derived md5 fp r \<Longrightarrow> derived md5 fp (fst r, snd r)"
  by simp

lemma import_linked_no_imports: "no_imports r \<Longrightarrow> import_linked ty src r"
  by (simp add: import_linked_def no_imports_def)

lemma import_linked_append:
  "import_linked ty src (a, b) \<Longrightarrow> import_linked ty src (c, d) \<Longrightarrow> import_linked ty src (a @ c, b @ d)"
  by (fastforce simp: import_linked_def)

lemma import_linked_concat:
  "(\<And>r. r \<in> set rs \<Longrightarrow> import_linked ty src r) \<Longrightarrow>
   import_linked ty src (concat (map fst rs), concat (map snd rs))"
proof (induction rs)
  case Nil
  then show ?case by (simp add: import_linked_def)
next
  case (Cons r rs)
  have "import_linked ty src (fst r, snd r)" using Cons.prems [of r] by simp
  moreover have "import_linked ty src (concat (map fst rs), concat (map snd rs))"
    using Cons by simp
  ultimately show ?case using import_linked_append by fastforce
qed

lemma call_loop_edges:
  "\<forall>e \<in> set (call_loop md5 p calls seen). edge_derived md5 e \<and> e_type e = ''calls''"
  by (induction calls arbitrary: seen) (auto simp: Let_def)

lemma java_calls_edges:
  "calls_edges md5 acc \<Longrightarrow> calls_edges md5 (calls_traverse md5 mid n acc)"
proof (induction md5 mid n acc rule: calls_traverse.induct)
  case (1 md5 mid nm ch img sl el acc)
  show ?case
  proof (cases ch)
    case None
    then show ?thesis using 1 by simp
  next
    case (Some kv)
    let ?n = "JavaNode nm ch img sl el"
    define acc1 where "acc1 =
                 (if nm = ''methodInvocation''
                  then (case extractMethodCallName ?n of
                          None \<Rightarrow> acc
                        | Some callName \<Rightarrow>
                            if callName \<notin> set (fst acc)
                            then (fst acc @ [callName],
                                  snd acc @ [createEdge md5 mid (''ref:method:'' @ callName)
                                               ''calls'' (unresolved_ref callName)])
                            else acc)
                  else acc)"
    have inv1: "calls_edges md5 acc1"
      using 1(2) by (auto simp: acc1_def calls_edges_def split: option.splits)
    have eq: "calls_traverse md5 mid ?n acc =
          foldl (\<lambda>a (k, cs). foldl (\<lambda>a c. calls_traverse md5 mid c a) a cs) acc1 kv"
      using Some by (simp add: acc1_def Let_def)
    have "calls_edges md5 (foldl (\<lambda>a (k, cs). foldl (\<lambda>a c. calls_traverse md5 mid c a) a cs) acc1 kv)"
    proof (rule foldl_preserves [where P = "calls_edges md5", OF inv1])
      fix x b assume x: "x \<in> set kv" and b: "calls_edges md5 b"
      obtain k cs where kcs: "x = (k, cs)" by (cases x)
      have "calls_edges md5 (foldl (\<lambda>a c. calls_traverse md5 mid c a) b cs)"
      proof (rule foldl_preserves [where P = "calls_edges md5", OF b])
        fix c b' assume c: "c \<in> set cs" and b': "calls_edges md5 b'"
        show "calls_edges md5 (calls_traverse md5 mid c b')"
          by (rule 1(1) [OF Some refl x [unfolded kcs] refl c b'])
      qed
      then show "calls_edges md5 ((\<lambda>a (k, cs). foldl (\<lambda>a c. calls_traverse md5 mid c a) a cs) b x)"
        by (simp add: kcs)
    qed
    with eq show ?thesis by simp
  qed
qed

lemma py_calls_edges:
  "calls_edges md5 acc \<Longrightarrow> calls_edges md5 (py_calls_traverse md5 fid n acc)"
proof (induction md5 fid n acc rule: py_calls_traverse.induct)
  case (1 md5 fid ty tx sr er fs acc)
  let ?n = "PyNode ty tx sr er fs"
  define acc1 where "acc1 =
            (if ty = ''call''
             then (case childForFieldName ?n ''function'' of
                     None \<Rightarrow> acc
                   | Some funcPart \<Rightarrow>
                       (let callName = py_text funcPart;
                            baseName = hd (split callName CHR ''.'')
                        in if baseName \<notin> set builtins \<and> callName \<notin> set (fst acc)
                           then (fst acc @ [callName],
                                 snd acc @ [createEdge md5 fid (''ref:function:'' @ callName)
                                              ''calls''
                                              [(''unresolved'', JBool True),
                                               (''targetName'', JStr callName),
                                               (''line'', JNum (sr + 1))]])
                           else acc))
             else acc)"
  have inv1: "calls_edges md5 acc1"
    using 1(2) by (auto simp: acc1_def calls_edges_def Let_def split: option.splits)
  show ?case
  proof (cases "ty \<noteq> ''function_definition'' \<and> ty \<noteq> ''class_definition''")
    case False
    then have "py_calls_traverse md5 fid ?n acc = acc1"
      by (auto simp: acc1_def Let_def)
    with inv1 show ?thesis by simp
  next
    case True
    then have eq: "py_calls_traverse md5 fid ?n acc =
        foldl (\<lambda>a fc. py_calls_traverse md5 fid (snd fc) a) acc1 fs"
      by (simp add: acc1_def Let_def)
    have "calls_edges md5 (foldl (\<lambda>a fc. py_calls_traverse md5 fid (snd fc) a) acc1 fs)"
    proof (rule foldl_preserves [where P = "calls_edges md5", OF inv1])
      fix x b assume x: "x \<in> set fs" and b: "calls_edges md5 b"
      show "calls_edges md5 (py_calls_traverse md5 fid (snd x) b)"
        by (rule 1(1) [OF refl refl True x b])
    qed
    with eq show ?thesis by simp
  qed
qed

lemma parseCallExpressions_edges:
  "\<forall>e \<in> set (parseCallExpressions md5 calls p). edge_derived md5 e \<and> e_type e = ''calls''"
  by (simp add: parseCallExpressions_def call_loop_edges)

lemma parseMethodBodyForCalls_edges:
  "\<forall>e \<in> set (parseMethodBodyForCalls md5 b mid). edge_derived md5 e \<and> e_type e = ''calls''"
  using java_calls_edges [of md5 "([], [])" mid b]
  by (simp add: parseMethodBodyForCalls_def calls_edges_def)

lemma parseFunctionCalls_edges:
  "\<forall>e \<in> set (parseFunctionCalls md5 b fid). edge_derived md5 e \<and> e_type e = ''calls''"
  using py_calls_edges [of md5 "([], [])" fid b]
  by (simp add: parseFunctionCalls_def calls_edges_def)

subsection \<open>Java\<close>

lemma parseImport_java_good:
  "derived md5 fp (parseImport_java md5 d fp fileId) \<and>
   import_linked ''imports'' fileId (parseImport_java md5 d fp fileId)"
  by (auto simp: parseImport_java_def Let_def java_def derived_def import_linked_def
      split: option.splits)

lemma method_type_not_import [simp]: "(if c then TEndpoint else TMethod) \<noteq> TImport"
  by simp

lemma parseMethodDeclaration_good:
  "derived md5 fp (parseMethodDeclaration md5 d fp cid cn crm) \<and>
   no_imports (parseMethodDeclaration md5 d fp cid cn crm)"
proof (cases "jchildren d = None")
  case True
  then show ?thesis by (simp add: parseMethodDeclaration_def)
next
  case d: False
  show ?thesis
  proof (cases "first_child d ''methodHeader''")
    case None
    then show ?thesis using d by (simp add: parseMethodDeclaration_def)
  next
    case (Some header)
    note h = this
    show ?thesis
    proof (cases "jchildren header = None")
      case True
      then show ?thesis using d h by (simp add: parseMethodDeclaration_def)
    next
      case hc: False
      show ?thesis
      proof (cases "extractIdentifier (first_child header ''methodDeclarator'')")
        case None
        then show ?thesis using d h hc by (simp add: parseMethodDeclaration_def Let_def)
      next
        case (Some methodName)
        show ?thesis
          using d h hc Some parseMethodBodyForCalls_edges
          by (auto simp: parseMethodDeclaration_def Let_def java_def derived_def no_imports_def
              split: option.splits split del: if_split)
      qed
    qed
  qed
qed

lemma parseInterfaceMethodDeclaration_good:
  "derived md5 fp (parseInterfaceMethodDeclaration md5 d fp iid iname) \<and>
   no_imports (parseInterfaceMethodDeclaration md5 d fp iid iname)"
  by (auto simp: parseInterfaceMethodDeclaration_def Let_def java_def derived_def no_imports_def
      split: option.splits)

lemma parseFieldDeclaration_good:
  "derived md5 fp (parseFieldDeclaration md5 d fp cid cn) \<and>
   no_imports (parseFieldDeclaration md5 d fp cid cn)"
  by (auto simp: parseFieldDeclaration_def Let_def java_def derived_def no_imports_def
      split: option.splits)

lemma parseConstructorDeclaration_good:
  "derived md5 fp (parseConstructorDeclaration md5 d fp cid cn) \<and>
   no_imports (parseConstructorDeclaration md5 d fp cid cn)"
  by (auto simp: parseConstructorDeclaration_def Let_def java_def derived_def no_imports_def
      split: option.splits)

lemma results_derived:
  "(\<And>x. x \<in> set xs \<Longrightarrow> derived md5 fp (f x)) \<Longrightarrow>
   derived md5 fp (concat (map fst (map f xs)), concat (map snd (map f xs)))"
  by (rule derived_concat) auto

lemma results_no_imports:
  "(\<And>x. x \<in> set xs \<Longrightarrow> no_imports (f x)) \<Longrightarrow>
   no_imports (concat (map fst (map f xs)), concat (map snd (map f xs)))"
  by (rule no_imports_concat) auto

lemma parseClassBody_good:
  "derived md5 fp (parseClassBody md5 b fp cid cn crm) \<and>
   no_imports (parseClassBody md5 b fp cid cn crm)"
proof -
  let ?member = "\<lambda>bodyDecl.
              if jchildren bodyDecl = None then ([], [])
              else
                (case first_child bodyDecl ''classMemberDeclaration'' of
                   None \<Rightarrow> ([], [])
                 | Some memberDecl \<Rightarrow>
                     if jchildren memberDecl = None then ([], [])
                     else
                       (case first_child memberDecl ''methodDeclaration'' of
                          Some methodDecl \<Rightarrow>
                            parseMethodDeclaration md5 methodDecl fp cid cn crm
                        | None \<Rightarrow>
                            (case first_child memberDecl ''fieldDeclaration'' of
                               Some fieldDecl \<Rightarrow>
                                 parseFieldDeclaration md5 fieldDecl fp cid cn
                             | None \<Rightarrow> ([], []))))"
  let ?ctor = "\<lambda>bodyDecl.
              case first_child bodyDecl ''constructorDeclaration'' of
                Some constructorDecl \<Rightarrow>
                  parseConstructorDeclaration md5 constructorDecl fp cid cn
              | None \<Rightarrow> ([], [])"
  have m: "derived md5 fp (?member x) \<and> no_imports (?member x)" for x
    using parseMethodDeclaration_good parseFieldDeclaration_good
    by (simp split: option.splits)
  have c: "derived md5 fp (?ctor x) \<and> no_imports (?ctor x)" for x
    using parseConstructorDeclaration_good by (simp split: option.splits)
  let ?ds = "children_or_empty b ''classBodyDeclaration''"
  have eq: "parseClassBody md5 b fp cid cn crm =
      (concat (map fst (map ?member ?ds)) @ concat (map fst (map ?ctor ?ds)),
       concat (map snd (map ?member ?ds)) @ concat (map snd (map ?ctor ?ds)))"
    by (simp add: parseClassBody_def Let_def)
  show ?thesis
    unfolding eq
    using m c
    by (intro conjI derived_append no_imports_append results_derived results_no_imports) blast+
qed

lemma parseInterfaceBody_good:
  "derived md5 fp (parseInterfaceBody md5 b fp iid iname) \<and>
   no_imports (parseInterfaceBody md5 b fp iid iname)"
proof -
  let ?member = "\<lambda>memberDecl.
              if jchildren memberDecl = None then ([], [])
              else
                (case first_child memberDecl ''interfaceMethodDeclaration'' of
                   Some methodDecl \<Rightarrow>
                     parseInterfaceMethodDeclaration md5 methodDecl fp iid iname
                 | None \<Rightarrow> ([], []))"
  have m: "derived md5 fp (?member x) \<and> no_imports (?member x)" for x
    using parseInterfaceMethodDeclaration_good by (simp split: option.splits)
  let ?ds = "children_or_empty b ''interfaceMemberDeclaration''"
  have eq: "parseInterfaceBody md5 b fp iid iname =
      (concat (map fst (map ?member ?ds)), concat (map snd (map ?member ?ds)))"
    by (simp add: parseInterfaceBody_def Let_def)
  show ?thesis
    unfolding eq using m
    by (intro conjI results_derived results_no_imports) blast+
qed

lemma derived_cons:
  "node_derived md5 fp n \<Longrightarrow> (\<forall>e \<in> set es. edge_derived md5 e) \<Longrightarrow> derived md5 fp r \<Longrightarrow>
   derived md5 fp (n # fst r, es @ snd r)"
  by (auto simp: derived_def)

lemma no_imports_cons:
  "n_type n \<noteq> ''import'' \<Longrightarrow> no_imports r \<Longrightarrow> no_imports (n # fst r, es)"
  by (auto simp: no_imports_def)

lemma class_type_not_import [simp]:
  "(if a then TController else if b then TService else if c then TRepository
    else if d then TComponent else TClass) \<noteq> TImport"
  by simp

lemma parseClassDeclaration_good:
  "derived md5 fp (parseClassDeclaration md5 d fp pid) \<and>
   no_imports (parseClassDeclaration md5 d fp pid)"
proof (cases "jchildren d = None")
  case True
  then show ?thesis by (simp add: parseClassDeclaration_def)
next
  case d: False
  show ?thesis
  proof (cases "first_child d ''normalClassDeclaration''")
    case None
    then show ?thesis using d by (simp add: parseClassDeclaration_def)
  next
    case (Some normalClass)
    note nc = this
    show ?thesis
    proof (cases "jchildren normalClass = None")
      case True
      then show ?thesis using d nc by (simp add: parseClassDeclaration_def)
    next
      case ncc: False
      show ?thesis
      proof (cases "extractIdentifier (Some normalClass)")
        case None
        then show ?thesis using d nc ncc by (simp add: parseClassDeclaration_def)
      next
        case (Some className)
        have body: "derived md5 fp (case first_child normalClass ''classBody'' of
                              None \<Rightarrow> ([], [])
                            | Some classBody \<Rightarrow>
                                if jchildren classBody = None then ([], [])
                                else parseClassBody md5 classBody fp i className rm) \<and>
                    no_imports (case first_child normalClass ''classBody'' of
                              None \<Rightarrow> ([], [])
                            | Some classBody \<Rightarrow>
                                if jchildren classBody = None then ([], [])
                                else parseClassBody md5 classBody fp i className rm)" for i rm
          using parseClassBody_good by (simp split: option.splits)
        show ?thesis
          using d nc ncc Some body
          by (auto simp: parseClassDeclaration_def Let_def java_def derived_def no_imports_def
              split: option.splits split del: if_split)
      qed
    qed
  qed
qed

lemma parseInterfaceDeclaration_good:
  "derived md5 fp (parseInterfaceDeclaration md5 d fp pid) \<and>
   no_imports (parseInterfaceDeclaration md5 d fp pid)"
proof (cases "jchildren d = None")
  case True
  then show ?thesis by (simp add: parseInterfaceDeclaration_def)
next
  case d: False
  show ?thesis
  proof (cases "first_child d ''normalInterfaceDeclaration''")
    case None
    then show ?thesis using d by (simp add: parseInterfaceDeclaration_def)
  next
    case (Some normalInterface)
    note ni = this
    show ?thesis
    proof (cases "jchildren normalInterface = None")
      case True
      then show ?thesis using d ni by (simp add: parseInterfaceDeclaration_def)
    next
      case nic: False
      show ?thesis
      proof (cases "extractIdentifier (Some normalInterface)")
        case None
        then show ?thesis using d ni nic by (simp add: parseInterfaceDeclaration_def)
      next
        case (Some interfaceName)
        have body: "derived md5 fp (case first_child normalInterface ''interfaceBody'' of
                              None \<Rightarrow> ([], [])
                            | Some interfaceBody \<Rightarrow>
                                if jchildren interfaceBody = None then ([], [])
                                else parseInterfaceBody md5 interfaceBody fp i interfaceName) \<and>
                    no_imports (case first_child normalInterface ''interfaceBody'' of
                              None \<Rightarrow> ([], [])
                            | Some interfaceBody \<Rightarrow>
                                if jchildren interfaceBody = None then ([], [])
                                else parseInterfaceBody md5 interfaceBody fp i interfaceName)" for i
          using parseInterfaceBody_good by (simp split: option.splits)
        show ?thesis
          using d ni nic Some body
          by (auto simp: parseInterfaceDeclaration_def Let_def java_def derived_def no_imports_def
              split: option.splits split del: if_split)
      qed
    qed
  qed
qed

lemma parseTypeDeclaration_good:
  "derived md5 fp (parseTypeDeclaration md5 d fp pid) \<and>
   no_imports (parseTypeDeclaration md5 d fp pid)"
  using parseClassDeclaration_good parseInterfaceDeclaration_good
  by (simp add: parseTypeDeclaration_def split: option.splits)

lemma results_import_linked:
  "(\<And>x. x \<in> set xs \<Longrightarrow> import_linked ty src (f x)) \<Longrightarrow>
   import_linked ty src (concat (map fst (map f xs)), concat (map snd (map f xs)))"
  by (rule import_linked_concat) auto

lemma parseCompilationUnit_good:
  "derived md5 fp (parseCompilationUnit md5 cst fp fileId) \<and>
   import_linked ''imports'' fileId (parseCompilationUnit md5 cst fp fileId)"
proof -
  have unit: "derived md5 fp
        (let package =
                    (case first_child cu ''packageDeclaration'' of
                       None \<Rightarrow> ([], [])
                     | Some packageDecl \<Rightarrow>
                         (case extractPackageName packageDecl of
                            None \<Rightarrow> ([], [])
                          | Some packageName \<Rightarrow>
                              (let packageNode =
                                     createNode md5 java fp TModule packageName
                                       (getStartLine packageDecl) (getEndLine packageDecl)
                                       [(''type'', JStr ''package'')]
                               in ([packageNode],
                                   [createEdge md5 fileId (n_id packageNode) ''contains'' []]))));
                  imports = map (\<lambda>importDecl. parseImport_java md5 importDecl fp fileId)
                              (children_or_empty cu ''importDeclaration'');
                  types = map (\<lambda>typeDecl. parseTypeDeclaration md5 typeDecl fp fileId)
                            (children_or_empty cu ''typeDeclaration'')
              in (fst package @ concat (map fst imports) @ concat (map fst types),
                  snd package @ concat (map snd imports) @ concat (map snd types))) \<and>
      import_linked ''imports'' fileId
        (let package =
                    (case first_child cu ''packageDeclaration'' of
                       None \<Rightarrow> ([], [])
                     | Some packageDecl \<Rightarrow>
                         (case extractPackageName packageDecl of
                            None \<Rightarrow> ([], [])
                          | Some packageName \<Rightarrow>
                              (let packageNode =
                                     createNode md5 java fp TModule packageName
                                       (getStartLine packageDecl) (getEndLine packageDecl)
                                       [(''type'', JStr ''package'')]
                               in ([packageNode],
                                   [createEdge md5 fileId (n_id packageNode) ''contains'' []]))));
                  imports = map (\<lambda>importDecl. parseImport_java md5 importDecl fp fileId)
                              (children_or_empty cu ''importDeclaration'');
                  types = map (\<lambda>typeDecl. parseTypeDeclaration md5 typeDecl fp fileId)
                            (children_or_empty cu ''typeDeclaration'')
              in (fst package @ concat (map fst imports) @ concat (map fst types),
                  snd package @ concat (map snd imports) @ concat (map snd types)))" for cu
  proof -
    let ?package = "(case first_child cu ''packageDeclaration'' of
                       None \<Rightarrow> ([], [])
                     | Some packageDecl \<Rightarrow>
                         (case extractPackageName packageDecl of
                            None \<Rightarrow> ([], [])
                          | Some packageName \<Rightarrow>
                              (let packageNode =
                                     createNode md5 java fp TModule packageName
                                       (getStartLine packageDecl) (getEndLine packageDecl)
                                       [(''type'', JStr ''package'')]
                               in ([packageNode],
                                   [createEdge md5 fileId (n_id packageNode) ''contains'' []]))))"
    have p: "derived md5 fp ?package \<and> no_imports ?package"
      by (auto simp: Let_def java_def derived_def no_imports_def split: option.splits)
    then have p1: "derived md5 fp (fst ?package, snd ?package)"
      and p2: "import_linked ''imports'' fileId (fst ?package, snd ?package)"
      using import_linked_no_imports by simp_all
    have i1: "derived md5 fp
        (concat (map fst (map (\<lambda>importDecl. parseImport_java md5 importDecl fp fileId) xs)),
         concat (map snd (map (\<lambda>importDecl. parseImport_java md5 importDecl fp fileId) xs)))" for xs
      using parseImport_java_good by (intro results_derived) blast
    have i2: "import_linked ''imports'' fileId
        (concat (map fst (map (\<lambda>importDecl. parseImport_java md5 importDecl fp fileId) xs)),
         concat (map snd (map (\<lambda>importDecl. parseImport_java md5 importDecl fp fileId) xs)))" for xs
      using parseImport_java_good by (intro results_import_linked) blast
    have t1: "derived md5 fp
        (concat (map fst (map (\<lambda>typeDecl. parseTypeDeclaration md5 typeDecl fp fileId) xs)),
         concat (map snd (map (\<lambda>typeDecl. parseTypeDeclaration md5 typeDecl fp fileId) xs)))" for xs
      using parseTypeDeclaration_good by (intro results_derived) blast
    have t2: "import_linked ''imports'' fileId
        (concat (map fst (map (\<lambda>typeDecl. parseTypeDeclaration md5 typeDecl fp fileId) xs)),
         concat (map snd (map (\<lambda>typeDecl. parseTypeDeclaration md5 typeDecl fp fileId) xs)))" for xs
      using parseTypeDeclaration_good import_linked_no_imports
      by (intro results_import_linked) blast
    show ?thesis
      unfolding Let_def [of "?package"] Let_def [of "map _ _"]
      using p1 p2 i1 i2 t1 t2
      by (intro conjI derived_append import_linked_append) simp_all
  qed
  show ?thesis
    unfolding parseCompilationUnit_def
    using unit by (simp add: import_linked_def split: option.splits list.splits)
qed

lemma file_node_cons:
  assumes "derived md5 fp r" and "import_linked ty (n_id (createNode md5 lang fp TFile name ls le m)) r"
  shows "derived md5 fp (createNode md5 lang fp TFile name ls le m # fst r, snd r)"
    and "import_linked ty (n_id (createNode md5 lang fp TFile name ls le m))
           (createNode md5 lang fp TFile name ls le m # fst r, snd r)"
  using assms by (auto simp: derived_def import_linked_def)

lemma JavaParser_parse_good:
  "derived md5 fp (JavaParser_parse md5 java_parser fp content) \<and>
   import_linked ''imports'' (generateNodeId md5 fp ''file'' (fileBaseName fp) 1)
     (JavaParser_parse md5 java_parser fp content)"
proof -
  let ?file = "createNode md5 java fp TFile (fileBaseName fp) 1 (int (length (split content newline))) []"
  have fid: "n_id ?file = generateNodeId md5 fp ''file'' (fileBaseName fp) 1"
    by (simp add: createNode_def)
  show ?thesis
  proof (cases "java_parser content")
    case None
    then show ?thesis
      by (simp add: JavaParser_parse_def Let_def derived_def import_linked_def)
  next
    case (Some cst)
    let ?rest = "parseCompilationUnit md5 cst fp (n_id ?file)"
    have eq: "JavaParser_parse md5 java_parser fp content = (?file # fst ?rest, snd ?rest)"
      using Some by (simp add: JavaParser_parse_def Let_def)
    from parseCompilationUnit_good [of md5 fp cst "n_id ?file"]
    have d: "derived md5 fp ?rest" and l: "import_linked ''imports'' (n_id ?file) ?rest"
      by simp_all
    from file_node_cons [OF d l] show ?thesis unfolding eq fid by simp
  qed
qed

subsection \<open>TypeScript\<close>

lemma ts_node_id: "n_id (ts_node md5 isJS fp t name ls le m) = generateNodeId md5 fp (nodeTypeStr t) name ls"
  by (simp add: ts_node_def createNode_def Let_def)

lemma ts_import_good:
  "derived md5 fp (ts_import md5 isJS fp fileId d) \<and>
   import_linked ''contains'' fileId (ts_import md5 isJS fp fileId d)"
  by (simp add: ts_import_def Let_def derived_def import_linked_def)

lemma ts_export_good:
  "derived md5 fp (ts_export md5 isJS fp fileId d) \<and> no_imports (ts_export md5 isJS fp fileId d)"
  by (simp add: ts_export_def Let_def derived_def no_imports_def)

lemma ts_method_good:
  "derived md5 fp (ts_method md5 isJS fp cid cn d) \<and> no_imports (ts_method md5 isJS fp cid cn d)"
  using parseCallExpressions_edges
  by (simp add: ts_method_def Let_def derived_def no_imports_def)

lemma ts_property_good:
  "derived md5 fp (ts_property md5 isJS fp cid cn d) \<and> no_imports (ts_property md5 isJS fp cid cn d)"
  by (simp add: ts_property_def Let_def derived_def no_imports_def)

lemma ts_interface_good:
  "derived md5 fp (ts_interface md5 isJS fp fileId d) \<and> no_imports (ts_interface md5 isJS fp fileId d)"
  by (auto simp: ts_interface_def Let_def derived_def no_imports_def)

lemma ts_function_good:
  "derived md5 fp (ts_function md5 isJS fp fileId d) \<and> no_imports (ts_function md5 isJS fp fileId d)"
  using parseCallExpressions_edges
  by (simp add: ts_function_def Let_def derived_def no_imports_def)

lemma ts_declaration_good:
  "derived md5 fp (ts_declaration md5 isJS fp fileId ex d) \<and>
   no_imports (ts_declaration md5 isJS fp fileId ex d)"
  using parseCallExpressions_edges
  by (simp add: ts_declaration_def Let_def derived_def no_imports_def split: option.splits)

lemma ts_class_good:
  "derived md5 fp (ts_class md5 isJS fp fileId d) \<and> no_imports (ts_class md5 isJS fp fileId d)"
proof -
  have m: "derived md5 fp (concat (map fst (map (ts_method md5 isJS fp i n) xs)),
                          concat (map snd (map (ts_method md5 isJS fp i n) xs)))"
    and m': "no_imports (concat (map fst (map (ts_method md5 isJS fp i n) xs)),
                          concat (map snd (map (ts_method md5 isJS fp i n) xs)))" for i n xs
    using ts_method_good by (intro results_derived results_no_imports; blast)+
  have p: "derived md5 fp (concat (map fst (map (ts_property md5 isJS fp i n) xs)),
                          concat (map snd (map (ts_property md5 isJS fp i n) xs)))"
    and p': "no_imports (concat (map fst (map (ts_property md5 isJS fp i n) xs)),
                          concat (map snd (map (ts_property md5 isJS fp i n) xs)))" for i n xs
    using ts_property_good by (intro results_derived results_no_imports; blast)+
  show ?thesis
    using m m' p p'
    by (auto simp: ts_class_def Let_def derived_def no_imports_def split: option.splits)
qed

lemma node_cons:
  assumes "node_derived md5 fp n" and "n_type n \<noteq> ''import''"
    and "derived md5 fp r" and "import_linked ty src r"
  shows "derived md5 fp (n # fst r, snd r) \<and> import_linked ty src (n # fst r, snd r)"
  using assms by (auto simp: derived_def import_linked_def)

lemma ts_parts_linked:
  "derived md5 fp (ts_export md5 isJS fp fid d1) \<and> import_linked ty fid (ts_export md5 isJS fp fid d1)"
  "derived md5 fp (ts_class md5 isJS fp fid d2) \<and> import_linked ty fid (ts_class md5 isJS fp fid d2)"
  "derived md5 fp (ts_interface md5 isJS fp fid d3) \<and> import_linked ty fid (ts_interface md5 isJS fp fid d3)"
  "derived md5 fp (ts_function md5 isJS fp fid d4) \<and> import_linked ty fid (ts_function md5 isJS fp fid d4)"
  "derived md5 fp (ts_declaration md5 isJS fp fid ex d5) \<and>
   import_linked ty fid (ts_declaration md5 isJS fp fid ex d5)"
  by (simp_all add: ts_export_good ts_class_good ts_interface_good ts_function_good
      ts_declaration_good import_linked_no_imports)

lemma TypeScriptParser_parse_good:
  "derived md5 fp (TypeScriptParser_parse md5 createSourceFile fp content) \<and>
   import_linked ''contains'' (generateNodeId md5 fp ''file'' (fileBaseName fp) 1)
     (TypeScriptParser_parse md5 createSourceFile fp content)"
proof (cases "createSourceFile fp content")
  case None
  then show ?thesis
    by (simp add: TypeScriptParser_parse_def Let_def derived_def import_linked_def)
next
  case (Some sf)
  define isJS where "isJS = (endsWith fp ''.js'' \<or> endsWith fp ''.jsx'' \<or> endsWith fp ''.mjs'' \<or>
                             endsWith fp ''.cjs'')"
  define fnode where "fnode = ts_node md5 isJS fp TFile (fileBaseName fp) 1 (sf_endLine sf)
                 [(''language'', JStr (if isJS then ''javascript'' else ''typescript''))]"
  define fid where "fid = n_id fnode"
  define parts where "parts = map (ts_import md5 isJS fp fid) (sf_imports sf) @
                    map (ts_export md5 isJS fp fid) (sf_exports sf) @
                    map (ts_class md5 isJS fp fid) (sf_classes sf) @
                    map (ts_interface md5 isJS fp fid) (sf_interfaces sf) @
                    map (ts_function md5 isJS fp fid) (sf_functions sf) @
                    concat (map (\<lambda>varStmt.
                                   map (ts_declaration md5 isJS fp fid (vs_isExported varStmt))
                                       (vs_declarations varStmt))
                                (sf_variableStatements sf))"
  have fid: "fid = generateNodeId md5 fp ''file'' (fileBaseName fp) 1"
    by (simp add: fid_def fnode_def ts_node_id)
  have eq: "TypeScriptParser_parse md5 createSourceFile fp content =
      (fnode # concat (map fst parts), concat (map snd parts))"
    using Some
    by (simp add: TypeScriptParser_parse_def Let_def parts_def fid_def fnode_def isJS_def)
  have part: "derived md5 fp r \<and> import_linked ''contains'' fid r" if "r \<in> set parts" for r
  proof -
    from that consider
      (a) d where "r = ts_import md5 isJS fp fid d"
      | (b) d where "r = ts_export md5 isJS fp fid d"
      | (c) d where "r = ts_class md5 isJS fp fid d"
      | (d) d where "r = ts_interface md5 isJS fp fid d"
      | (e) d where "r = ts_function md5 isJS fp fid d"
      | (f) ex d where "r = ts_declaration md5 isJS fp fid ex d"
      unfolding parts_def by auto
    then show ?thesis
      using ts_import_good ts_parts_linked by cases simp_all
  qed
  have d: "derived md5 fp (concat (map fst parts), concat (map snd parts))"
    using part by (intro derived_concat) blast
  have l: "import_linked ''contains'' fid (concat (map fst parts), concat (map snd parts))"
    using part by (intro import_linked_concat) blast
  have "node_derived md5 fp fnode" and "n_type fnode \<noteq> ''import''"
    by (simp_all add: fnode_def)
  from node_cons [OF this d l]
  show ?thesis unfolding eq fid by simp
qed

subsection \<open>Python\<close>

lemma py_linked_no_imports: "no_imports r \<Longrightarrow> py_linked pid r"
  by (simp add: py_linked_def no_imports_def)

lemma py_linked_append:
  "py_linked pid (a, b) \<Longrightarrow> py_linked pid (c, d) \<Longrightarrow> py_linked pid (a @ c, b @ d)"
  unfolding py_linked_def by (simp add: ball_Un) blast

lemma py_linked_concat:
  "(\<And>r. r \<in> set rs \<Longrightarrow> py_linked pid r) \<Longrightarrow>
   py_linked pid (concat (map fst rs), concat (map snd rs))"
proof (induction rs)
  case Nil
  then show ?case by (simp add: py_linked_def)
next
  case (Cons r rs)
  have "py_linked pid (fst r, snd r)" using Cons.prems [of r] by simp
  moreover have "py_linked pid (concat (map fst rs), concat (map snd rs))"
    using Cons by simp
  ultimately show ?case using py_linked_append by fastforce
qed

lemma parseImport_py_good:
  "derived md5 fp (parseImport_py md5 n fp pid) \<and> py_linked pid (parseImport_py md5 n fp pid)"
  by (auto simp: parseImport_py_def Let_def python_def derived_def py_linked_def)

lemma parseFromImport_good:
  "derived md5 fp (parseFromImport md5 n fp pid) \<and> py_linked pid (parseFromImport md5 n fp pid)"
  by (simp add: parseFromImport_def Let_def python_def derived_def py_linked_def)

lemma py_type_not_import [simp]: "(if c then TMethod else TFunction) \<noteq> TImport"
  by simp

lemma parseFunction_good:
  "derived md5 fp (parseFunction md5 n fp pid cc ds) \<and> no_imports (parseFunction md5 n fp pid cc ds)"
  using parseFunctionCalls_edges
  by (auto simp: parseFunction_def Let_def python_def derived_def no_imports_def
      split: option.splits split del: if_split)

lemma parseAssignment_good:
  "derived md5 fp (parseAssignment md5 n fp pid) \<and> no_imports (parseAssignment md5 n fp pid)"
  by (simp add: parseAssignment_def Let_def python_def derived_def no_imports_def
      split: option.splits)

lemma class_head_good:
  assumes "class_head md5 n fp pid ds = (className, classNode, edges)"
  shows "node_derived md5 fp classNode" and "n_type classNode = ''class''"
    and "\<forall>e \<in> set edges. edge_derived md5 e"
  using assms by (auto simp: class_head_def Let_def python_def split: if_splits)

lemma py_walk_good:
  "derived md5 fp (parseNode md5 pt node fp pid cc) \<and> py_linked pid (parseNode md5 pt node fp pid cc)"
  "derived md5 fp (parseClass md5 node fp pid ds) \<and> py_linked pid (parseClass md5 node fp pid ds)"
  "derived md5 fp (parseDecoratedDefinition md5 node fp pid cc) \<and>
   py_linked pid (parseDecoratedDefinition md5 node fp pid cc)"
proof (induction md5 pt node fp pid cc and md5 node fp pid ds and md5 node fp pid cc
       rule: parseNode_parseClass_parseDecoratedDefinition.induct)
  case (1 md5 parentType ty tx sr er fs filePath parentId currentClass)
  let ?node = "PyNode ty tx sr er fs"
  let ?parts = "map (\<lambda>child. parseNode md5 (Some ty) child filePath parentId currentClass) (map snd fs)"
  consider "ty = ''import_statement''" | "ty = ''import_from_statement''"
    | "ty = ''class_definition''" | "ty = ''function_definition''"
    | "ty = ''decorated_definition''" | "ty = ''assignment''"
    | (other) "ty \<noteq> ''import_statement''" "ty \<noteq> ''import_from_statement''"
        "ty \<noteq> ''class_definition''" "ty \<noteq> ''function_definition''"
        "ty \<noteq> ''decorated_definition''" "ty \<noteq> ''assignment''"
    by blast
  then show ?case
  proof cases
    case 1
    then show ?thesis
      using parseImport_py_good [of md5 filePath ?node parentId]
      by (simp add: parseNode.simps)
  next
    case 2
    then show ?thesis
      using parseFromImport_good [of md5 filePath ?node parentId]
      by (simp add: parseNode.simps)
  next
    case 3
    then show ?thesis using "1.IH"(1) [OF refl] by (simp add: parseNode.simps)
  next
    case 4
    then show ?thesis
      using parseFunction_good [of md5 filePath ?node parentId currentClass "[]"]
      by (simp add: parseNode.simps py_linked_no_imports)
  next
    case 5
    then show ?thesis using "1.IH"(2) [OF refl] by (simp add: parseNode.simps)
  next
    case 6
    then show ?thesis
      using parseAssignment_good [of md5 filePath ?node parentId]
      by (simp add: parseNode.simps py_linked_no_imports derived_empty no_imports_empty)
  next
    case other
    then have eq: "parseNode md5 parentType ?node filePath parentId currentClass =
                   (concat (map fst ?parts), concat (map snd ?parts))"
      by (simp add: parseNode.simps Let_def)
    have ih: "derived md5 filePath r \<and> py_linked parentId r" if "r \<in> set ?parts" for r
    proof -
      from that obtain child where c: "child \<in> set (map snd fs)"
        and r: "r = parseNode md5 (Some ty) child filePath parentId currentClass"
        by auto
      show ?thesis unfolding r
        by (rule "1.IH"(3) [OF refl other c])
    qed
    show ?thesis unfolding eq using ih derived_concat py_linked_concat by blast
  qed
next
  case (2 md5 ty tx sr er fs filePath parentId decorators)
  let ?node = "PyNode ty tx sr er fs"
  obtain className classNode edges where
    h: "class_head md5 ?node filePath parentId decorators = (className, classNode, edges)"
    by (cases "class_head md5 ?node filePath parentId decorators") auto
  define parts where "parts = (case childForFieldName ?node ''body'' of
                     None \<Rightarrow> []
                   | Some body \<Rightarrow>
                       map (\<lambda>child. parseNode md5 (Some (py_type body)) child filePath (n_id classNode)
                                       (Some (className, n_id classNode)))
                           (py_children body))"
  have eq: "parseClass md5 ?node filePath parentId decorators =
              (classNode # concat (map fst parts), edges @ concat (map snd parts))"
    by (simp add: parseClass.simps h parts_def Let_def)
  have ih: "derived md5 filePath r \<and> py_linked (n_id classNode) r" if "r \<in> set parts" for r
  proof (cases "childForFieldName ?node ''body''")
    case None
    with that show ?thesis by (simp add: parts_def)
  next
    case (Some body)
    with that obtain child where c: "child \<in> set (py_children body)"
      and r: "r = parseNode md5 (Some (py_type body)) child filePath (n_id classNode)
                    (Some (className, n_id classNode))"
      by (auto simp: parts_def)
    show ?thesis unfolding r
      by (rule "2.IH" [OF refl h [symmetric] refl refl Some c])
  qed
  let ?inner = "(concat (map fst parts), concat (map snd parts))"
  have d: "derived md5 filePath ?inner" using ih derived_concat by blast
  have l: "py_linked (n_id classNode) ?inner" using ih py_linked_concat by blast
  note ch = class_head_good [OF h]
  have "derived md5 filePath (classNode # fst ?inner, edges @ snd ?inner)"
    using d ch(1,3) by (auto simp: derived_def)
  moreover have "py_linked parentId (classNode # fst ?inner, edges @ snd ?inner)"
    unfolding py_linked_def
  proof (intro ballI impI)
    fix n assume n: "n \<in> set (fst (classNode # fst ?inner, edges @ snd ?inner))"
      and t: "n_type n = ''import''"
    from t ch(2) have "n \<noteq> classNode" by auto
    with n have "n \<in> set (fst ?inner)" by simp
    with l t obtain e where e: "e \<in> set (snd ?inner)" "e_type e = ''imports''"
        "e_targetId e = n_id n"
        "e_sourceId e = n_id classNode \<or>
           (\<exists>c \<in> set (fst ?inner). n_type c = ''class'' \<and> e_sourceId e = n_id c)"
      unfolding py_linked_def by blast
    from e(4) ch(2)
    have "\<exists>c \<in> set (fst (classNode # fst ?inner, edges @ snd ?inner)).
             n_type c = ''class'' \<and> e_sourceId e = n_id c"
      by auto
    with e(1-3)
    show "\<exists>e \<in> set (snd (classNode # fst ?inner, edges @ snd ?inner)).
            e_type e = ''imports'' \<and> e_targetId e = n_id n \<and>
            (e_sourceId e = parentId \<or>
             (\<exists>c \<in> set (fst (classNode # fst ?inner, edges @ snd ?inner)).
                 n_type c = ''class'' \<and> e_sourceId e = n_id c))"
      by auto
  qed
  ultimately show ?case unfolding eq by simp
next
  case (3 md5 ty tx sr er fs filePath parentId currentClass)
  let ?node = "PyNode ty tx sr er fs"
  show ?case
  proof (cases "childForFieldName ?node ''definition''")
    case None
    then show ?thesis
      by (simp add: parseDecoratedDefinition.simps Let_def derived_empty py_linked_no_imports
          no_imports_empty)
  next
    case (Some defn)
    consider "py_type defn = ''function_definition''"
      | "py_type defn \<noteq> ''function_definition''" "py_type defn = ''class_definition''"
      | "py_type defn \<noteq> ''function_definition''" "py_type defn \<noteq> ''class_definition''"
      by blast
    then show ?thesis
    proof cases
      case 1
      then show ?thesis
        using Some parseFunction_good [of md5 filePath defn parentId currentClass "decorator_names ?node"]
        by (simp add: parseDecoratedDefinition.simps Let_def py_linked_no_imports)
    next
      case 2
      then show ?thesis
        using Some "3.IH" [OF refl refl Some 2]
        by (simp add: parseDecoratedDefinition.simps Let_def)
    next
      case 3
      then show ?thesis using Some
        by (simp add: parseDecoratedDefinition.simps Let_def derived_empty py_linked_no_imports
            no_imports_empty)
    qed
  qed
qed

lemma py_file_node_cons:
  assumes "derived md5 fp r" and "py_linked (n_id (createNode md5 lang fp TFile name ls le m)) r"
  shows "derived md5 fp (createNode md5 lang fp TFile name ls le m # fst r, snd r)"
    and "py_linked (n_id (createNode md5 lang fp TFile name ls le m))
           (createNode md5 lang fp TFile name ls le m # fst r, snd r)"
  using assms by (auto simp: derived_def py_linked_def)

lemma PythonParser_parse_good:
  "derived md5 fp (PythonParser_parse md5 tree_sitter fp content) \<and>
   py_linked (generateNodeId md5 fp ''file'' (fileBaseName fp) 1)
     (PythonParser_parse md5 tree_sitter fp content)"
proof -
  let ?file = "createNode md5 python fp TFile (fileBaseName fp) 1 (py_endRow (tree_sitter content) + 1) []"
  have fid: "n_id ?file = generateNodeId md5 fp ''file'' (fileBaseName fp) 1"
    by (simp add: createNode_def)
  let ?rest = "parseNode md5 None (tree_sitter content) fp (n_id ?file) None"
  have eq: "PythonParser_parse md5 tree_sitter fp content = (?file # fst ?rest, snd ?rest)"
    by (simp add: PythonParser_parse_def Let_def)
  from py_walk_good(1) [of md5 fp None "tree_sitter content" "n_id ?file" None]
  have d: "derived md5 fp ?rest" and l: "py_linked (n_id ?file) ?rest"
    by simp_all
  from py_file_node_cons [OF d l] show ?thesis unfolding eq fid by simp
qed

subsection \<open>Results for the extractors\<close>

lemma extractHttpMethod_fixed_verbs:
  "extractHttpMethod \<lparr> an_name = ''GetMapping'', an_value = v \<rparr> = Some ''GET''"
  "extractHttpMethod \<lparr> an_name = ''PostMapping'', an_value = v \<rparr> = Some ''POST''"
  "extractHttpMethod \<lparr> an_name = ''PutMapping'', an_value = v \<rparr> = Some ''PUT''"
  "extractHttpMethod \<lparr> an_name = ''DeleteMapping'', an_value = v \<rparr> = Some ''DELETE''"
  "extractHttpMethod \<lparr> an_name = ''PatchMapping'', an_value = v \<rparr> = Some ''PATCH''"
  "extractHttpMethod \<lparr> an_name = ''RequestMapping'', an_value = None \<rparr> = Some ''GET''"
  by (simp_all add: extractHttpMethod_def)

text \<open>
  C4. For a method annotated \<open>@RequestMapping(value = "/users", method = RequestMethod.POST)\<close>
  the \<open>httpMethod\<close> put into the metadata is not \<open>POST\<close>. \<open>extractElementValue\<close> returns the
  image of the first \<open>Identifier\<close> token it meets, which is \<open>RequestMethod\<close>, so that
  \<open>extractHttpMethod\<close> finds no prefix \<open>RequestMethod.\<close> to remove and returns
  \<open>REQUESTMETHOD\<close>. Where the tokens carry no name, no value is found for the attribute
  and the result is the default \<open>GET\<close>.
\<close>

theorem requestMapping_method_attribute:
  "httpMethods (parseMethodDeclaration hex_md5 (method_create tok) ''src/C.java''
      ''class_d41d8cd98f00'' ''C'' None) = [Some (JStr ''REQUESTMETHOD'')] \<and>
   httpMethods (parseMethodDeclaration hex_md5 (method_create unnamed_tok) ''src/C.java''
      ''class_d41d8cd98f00'' ''C'' None) = [Some (JStr ''GET'')]"
proof -
  have named: "httpMethods (parseMethodDeclaration hex_md5 (method_create tok) ''src/C.java''
      ''class_d41d8cd98f00'' ''C'' None) = [Some (JStr ''REQUESTMETHOD'')]"
    by code_simp
  have unnamed: "httpMethods (parseMethodDeclaration hex_md5 (method_create unnamed_tok) ''src/C.java''
      ''class_d41d8cd98f00'' ''C'' None) = [Some (JStr ''GET'')]"
    by code_simp
  from named unnamed show ?thesis by (rule conjI)
qed




text \<open>
  The Java extractor reads the name of an import from the nodes whose name is \<open>Identifier\<close>.
  The tokens of the library's tree carry no name: for \<open>import a.B; class C {}\<close> the output
  holds the file and the class, and no import node.
\<close>

lemma java_example_nodes:
  "map n_type (fst java_example_result) = [''file'', ''class''] \<and>
   map e_type (snd java_example_result) = [''contains'']"
  by code_simp



lemma node_derived_form:
  assumes digest: "\<forall>s. length (md5 s) = 32 \<and> set (md5 s) \<subseteq> hexdigits"
    and n: "node_derived md5 fp n"
  shows "(\<exists>h. n_id n = n_type n @ ''_'' @ h \<and> length h = 12 \<and> set h \<subseteq> hexdigits) \<and>
         \<not> startsWith (n_id n) ''ref:'' \<and> \<not> sql_like_ref (n_id n)"
proof -
  from n obtain t where t: "n_type n = nodeTypeStr t"
    and i: "n_id n = generateNodeId md5 fp (nodeTypeStr t) (n_name n) (n_lineStart n)"
    by (auto simp: node_derived_def)
  have made: "n_id n = n_id (createNode md5 [] fp t (n_name n) (n_lineStart n) 0 [])"
    using i by (simp add: createNode_def)
  from created_ids_form [OF digest, of "[]" fp t "n_name n" "n_lineStart n" 0 "[]"]
  show ?thesis unfolding made [symmetric] t by blast
qed

lemma edge_derived_form:
  assumes digest: "\<forall>s. length (md5 s) = 32 \<and> set (md5 s) \<subseteq> hexdigits"
    and e: "edge_derived md5 e"
  shows "(\<exists>h. e_id e = ''edge_'' @ h \<and> length h = 12 \<and> set h \<subseteq> hexdigits) \<and>
         \<not> startsWith (e_id e) ''ref:'' \<and> \<not> sql_like_ref (e_id e)"
proof -
  have made: "e_id e = e_id (createEdge md5 (e_sourceId e) (e_targetId e) (e_type e) [])"
    using e by (simp add: edge_derived_def createEdge_def)
  from created_ids_form [OF digest, of _ _ _ _ _ _ _ "e_sourceId e" "e_targetId e" "e_type e" "[]"]
  show ?thesis unfolding made [symmetric] by blast
qed

lemma derived_ids_formed:
  assumes "\<forall>s. length (md5 s) = 32 \<and> set (md5 s) \<subseteq> hexdigits" and "derived md5 fp r"
  shows "ids_formed r"
  using assms node_derived_form [of md5 fp] edge_derived_form [of md5]
  unfolding ids_formed_def derived_def by blast

text \<open>
  C10. Given that the digest is 32 hexadecimal digits, every node id in the output of an
  extractor is the type of the node, an underscore and 12 hexadecimal digits, and every edge
  id is \<open>edge_\<close> and 12 hexadecimal digits. None of them starts with \<open>ref:\<close>, and the
  \<open>LIKE 'ref:%'\<close> test of \<open>getUnresolvedEdges\<close> and \<open>getResolutionStats\<close> rejects each of them: an
  edge whose target is a node of an output is not taken for unresolved.
\<close>

theorem extractor_ids_are_not_placeholders:
  assumes digest: "\<forall>s. length (md5 s) = 32 \<and> set (md5 s) \<subseteq> hexdigits"
  shows "ids_formed (TypeScriptParser_parse md5 createSourceFile filePath content) \<and>
         ids_formed (PythonParser_parse md5 tree_sitter filePath content) \<and>
         ids_formed (JavaParser_parse md5 java_parser filePath content)"
  using derived_ids_formed [OF digest]
    TypeScriptParser_parse_good [of md5 filePath createSourceFile content]
    PythonParser_parse_good [of md5 filePath tree_sitter content]
    JavaParser_parse_good [of md5 filePath java_parser content]
  by blast

theorem extractor_ids_are_not_placeholders_witness:
  "n_id (fst java_example_result ! 1) = ''class_d41d8cd98f00'' \<and>
   \<not> sql_like_ref (n_id (fst java_example_result ! 1)) \<and>
   e_targetId (snd java_example_result ! 0) = n_id (fst java_example_result ! 1) \<and>
   \<not> sql_like_ref (e_id (snd java_example_result ! 0))"
proof -
  have digest: "\<forall>s. length (hex_md5 s) = 32 \<and> set (hex_md5 s) \<subseteq> hexdigits"
    by (simp add: hex_md5_def hexdigits_def)
  have n: "fst java_example_result ! 1 \<in> set (fst java_example_result)" by code_simp
  have e: "snd java_example_result ! 0 \<in> set (snd java_example_result)" by code_simp
  have i: "n_id (fst java_example_result ! 1) = ''class_d41d8cd98f00''" by code_simp
  have t: "e_targetId (snd java_example_result ! 0) = n_id (fst java_example_result ! 1)"
    by code_simp
  from extractor_ids_are_not_placeholders [OF digest, of example_createSourceFile "''src/A.java''"
      example_java_content example_tree_sitter example_java_parser]
  have f: "ids_formed java_example_result"
    unfolding java_example_result_def by blast
  from f n have a: "\<not> sql_like_ref (n_id (fst java_example_result ! 1))"
    unfolding ids_formed_def by blast
  from f e have b: "\<not> sql_like_ref (e_id (snd java_example_result ! 0))"
    unfolding ids_formed_def by blast
  from i a t b show ?thesis by (intro conjI)
qed

text \<open>
  C8. The edges that \<open>parseCallExpressions\<close> (TypeScript and JavaScript),
  \<open>parseFunctionCalls\<close> (Python) and \<open>parseMethodBodyForCalls\<close> (Java) emit for one body are
  \<open>calls\<close> edges, each carrying the call name as \<open>targetName\<close>, and no two of them carry the
  same call name.
\<close>

theorem calls_deduplicated:
  "(distinct (map edge_targetName (parseCallExpressions md5 callExpressions parentId)) \<and>
    (\<forall>e \<in> set (parseCallExpressions md5 callExpressions parentId). e_type e = ''calls'')) \<and>
   (distinct (map edge_targetName (parseFunctionCalls md5 body funcNodeId)) \<and>
    (\<forall>e \<in> set (parseFunctionCalls md5 body funcNodeId). e_type e = ''calls'')) \<and>
   (distinct (map edge_targetName (parseMethodBodyForCalls md5 methodBody methodNodeId)) \<and>
    (\<forall>e \<in> set (parseMethodBodyForCalls md5 methodBody methodNodeId). e_type e = ''calls''))"
proof -
  have ts: "distinct (map edge_targetName (parseCallExpressions md5 callExpressions parentId))"
    using call_loop_names [of md5 parentId callExpressions "[]"]
    by (simp add: parseCallExpressions_def)
  have py: "distinct (map edge_targetName (parseFunctionCalls md5 body funcNodeId))"
    unfolding parseFunctionCalls_def
    by (rule calls_inv_distinct [OF py_calls_inv [OF empty_calls_inv]])
  have jv: "distinct (map edge_targetName (parseMethodBodyForCalls md5 methodBody methodNodeId))"
    unfolding parseMethodBodyForCalls_def
    by (rule calls_inv_distinct [OF java_calls_inv [OF empty_calls_inv]])
  from ts py jv parseCallExpressions_edges [of md5 callExpressions parentId]
    parseFunctionCalls_edges [of md5 body funcNodeId]
    parseMethodBodyForCalls_edges [of md5 methodBody methodNodeId]
  show ?thesis by blast
qed

theorem calls_deduplicated_witness:
  "map call_text example_calls = [''foo'', ''foo'', ''bar''] \<and>
   map edge_targetName (parseCallExpressions hex_md5 example_calls ''function_d41d8cd98f00'') =
     [Some (JStr ''foo''), Some (JStr ''bar'')] \<and>
   distinct (map edge_targetName (parseCallExpressions hex_md5 example_calls ''function_d41d8cd98f00''))"
proof -
  have names: "map call_text example_calls = [''foo'', ''foo'', ''bar'']" by code_simp
  have edges: "map edge_targetName (parseCallExpressions hex_md5 example_calls ''function_d41d8cd98f00'') =
     [Some (JStr ''foo''), Some (JStr ''bar'')]" by code_simp
  from names edges
    calls_deduplicated [of hex_md5 example_calls "''function_d41d8cd98f00''", THEN conjunct1, THEN conjunct1]
  show ?thesis by (intro conjI)
qed

end
